theory Spec2Isabelle
  imports Complex_Main
begin

section \<open>Text and path helpers\<close>

text \<open>
  A Python \<open>str\<close> is modelled by its UTF-8 bytes (a \<open>string\<close>), a \<open>pathlib.Path\<close> by the
  list of its components below the root (all paths of \<open>builder.py\<close> are absolute).
\<close>

type_synonym path = "string list"

definition nl :: string where
  "nl = [CHR 0x0A]"

text \<open>\<open>sep.join(xs)\<close>\<close>

fun join :: "string \<Rightarrow> string list \<Rightarrow> string" where
  "join sep [] = []"
| "join sep [x] = x"
| "join sep (x # y # ys) = x @ sep @ join sep (y # ys)"

text \<open>\<open>str(n)\<close> for an integer: decimal digits, with a sign for negative numbers.\<close>

definition digit :: "nat \<Rightarrow> char" where
  "digit d = char_of (48 + d)"

function str_nat :: "nat \<Rightarrow> string" where
  "str_nat n = (if n < 10 then [digit n] else str_nat (n div 10) @ [digit (n mod 10)])"
  by pat_completeness auto
termination
  by (relation "measure id") auto

definition str_int :: "int \<Rightarrow> string" where
  "str_int i = (if i < 0 then CHR ''-'' # str_nat (nat (- i)) else str_nat (nat i))"

text \<open>
  \<open>str.splitlines()\<close>: the text is cut at every line boundary of Python's list
  (\<open>\n\<close>, \<open>\r\<close>, \<open>\r\n\<close>, \<open>\v\<close>, \<open>\f\<close>, \<open>\x1c\<close>, \<open>\x1d\<close>, \<open>\x1e\<close>, and, in UTF-8,
  \<open>\x85\<close> = C2 85, U+2028 = E2 80 A8, U+2029 = E2 80 A9); the boundaries are dropped, and
  a text that ends with a boundary has no empty last line.
\<close>

definition line_boundary :: "char \<Rightarrow> bool" where
  "line_boundary c = (c \<in> set [CHR 0x0A, CHR 0x0D, CHR 0x0B, CHR 0x0C, CHR 0x1C, CHR 0x1D, CHR 0x1E])"

fun splitlines_from :: "string \<Rightarrow> string \<Rightarrow> string list" where
  "splitlines_from cur [] = (if cur = [] then [] else [cur])"
| "splitlines_from cur (c # cs) =
     (if c = CHR 0x0D \<and> take 1 cs = [CHR 0x0A] then cur # splitlines_from [] (drop 1 cs)
      else if line_boundary c then cur # splitlines_from [] cs
      else if c = CHR 0xC2 \<and> take 1 cs = [CHR 0x85] then cur # splitlines_from [] (drop 1 cs)
      else if c = CHR 0xE2 \<and> (take 2 cs = [CHR 0x80, CHR 0xA8] \<or> take 2 cs = [CHR 0x80, CHR 0xA9])
        then cur # splitlines_from [] (drop 2 cs)
      else splitlines_from (cur @ [c]) cs)"

definition splitlines :: "string \<Rightarrow> string list" where
  "splitlines s = splitlines_from [] s"

text \<open>
  The slice \<open>xs[i:]\<close>: a negative \<open>i\<close> counts from the end, and the start is clamped to
  the list.
\<close>

definition slice_from :: "int \<Rightarrow> 'a list \<Rightarrow> 'a list" where
  "slice_from i xs =
     (let n = int (length xs);
          k = (if i < 0 then max (n + i) 0 else min i n)
      in drop (nat k) xs)"

text \<open>
  \<open>Path(s)\<close> for an absolute \<open>s\<close>, and \<open>p / s\<close>: the string is cut at \<open>/\<close>, empty
  components and \<open>.\<close> are dropped, and an absolute right operand replaces the left one.
\<close>

fun split_on :: "char \<Rightarrow> string \<Rightarrow> string \<Rightarrow> string list" where
  "split_on d cur [] = [cur]"
| "split_on d cur (c # cs) = (if c = d then cur # split_on d [] cs else split_on d (cur @ [c]) cs)"

definition path_parts :: "string \<Rightarrow> string list" where
  "path_parts s = filter (\<lambda>c. c \<noteq> [] \<and> c \<noteq> ''.'') (split_on CHR ''/'' [] s)"

definition Path :: "string \<Rightarrow> path" where
  "Path s = path_parts s"

definition joinpath :: "path \<Rightarrow> string \<Rightarrow> path" where
  "joinpath p s = (if take 1 s = ''/'' then path_parts s else p @ path_parts s)"

text \<open>\<open>p.name\<close>, \<open>str(p)\<close> for an absolute path, and \<open>str\<close> of a relative one.\<close>

definition name_of :: "path \<Rightarrow> string" where
  "name_of p = (if p = [] then [] else last p)"

definition str_path :: "path \<Rightarrow> string" where
  "str_path p = CHR ''/'' # join ''/'' p"

definition str_rel :: "path \<Rightarrow> string" where
  "str_rel r = (if r = [] then ''.'' else join ''/'' r)"

section \<open>The job record (\<open>builder.py\<close>, lines 15 to 43)\<close>

datatype BuildStatus = QUEUED | BUILDING | COMPLETE | FAILED

text \<open>
  The field \<open>log\<close> is \<open>log_buf\<close> here (\<open>log\<close> is the logarithm of the library); times are
  seconds as reals.
\<close>

record BuildJob =
  packages :: "string list"
  config_hash :: string
  config_path :: path
  build_id :: string
  status :: BuildStatus
  packages_built :: "string list"
  log_buf :: string
  error :: "string option"
  started_at :: "real option"
  completed_at :: "real option"
  artifact_path :: "path option"

text \<open>The constructor with the defaults of the dataclass; \<open>bid\<close> is the fresh \<open>uuid4\<close>.\<close>

definition new_BuildJob :: "string list \<Rightarrow> string \<Rightarrow> path \<Rightarrow> string \<Rightarrow> BuildJob" where
  "new_BuildJob pkgs h cp bid =
     \<lparr>packages = pkgs, config_hash = h, config_path = cp, build_id = bid, status = QUEUED,
      packages_built = [], log_buf = [], error = None, started_at = None,
      completed_at = None, artifact_path = None\<rparr>"

definition get_log_tail :: "BuildJob \<Rightarrow> int \<Rightarrow> string" where
  "get_log_tail self lines = join nl (slice_from (- lines) (splitlines (log_buf self)))"

definition append_log :: "string \<Rightarrow> BuildJob \<Rightarrow> BuildJob" where
  "append_log text self = self\<lparr>log_buf := log_buf self @ text\<rparr>"

section \<open>The operating system as a parameter\<close>

text \<open>
  \<open>builder.py\<close> is glue around the clock, the file system, \<open>tarfile\<close> and subprocesses.
  None of them is code of the repository, so they are a parameter \<open>os\<close>: for each library
  call, a transition of an arbitrary world \<open>'w\<close> that returns a value or raises (\<open>Inl\<close> of
  the exception's \<open>str\<close>). Only exceptions derived from \<open>Exception\<close> are modelled, the
  ones the handler of \<open>worker\<close> catches. Every call and its answer is appended to a trace,
  together with every assignment to \<open>job.status\<close> and a snapshot of the job at each point
  where the worker coroutine is suspended inside a build (the only points where a
  request handler can read the job of a running build).
\<close>

type_synonym exn = string

text \<open>
  A spawned process: \<open>p_stdout i\<close> is what the \<open>i\<close>-th \<open>readline()\<close> returns (empty at the
  end of the output), \<open>p_returncode\<close> the exit code (\<open>None\<close>: \<open>wait()\<close> never returns).
\<close>

record proc =
  p_stdout :: "nat \<Rightarrow> string"
  p_returncode :: "int option"

datatype call =
    Now
  | Uuid4
  | Exists path
  | Is_dir path
  | Is_symlink path
  | Stat_mtime path
  | Stat_size path
  | Rglob path string
  | Iterdir path
  | Readlink path
  | Copytree path path bool
  | Rmtree path
  | Unlink path
  | Symlink string path
  | Copy2 path path
  | Mkdir_parents path
  | Tar_open path
  | Tar_add path path path
  | Tar_close path
  | Tar_abort path
  | Spawn "string list" "(string \<times> string) list"
  | Wait "string list"
  | B64_extract string path

datatype val = V_unit | V_bool bool | V_real real | V_nat nat | V_int int | V_str string
  | V_paths "path list" | V_names "string list"

datatype outcome = Returned val | Raised exn

datatype entry = Os call outcome | Status BuildStatus | Yield BuildJob

record 'w os =
  os_now :: "'w \<Rightarrow> real \<times> 'w"
  os_uuid4 :: "'w \<Rightarrow> string \<times> 'w"
  os_bool :: "call \<Rightarrow> 'w \<Rightarrow> (exn + bool) \<times> 'w"
  os_real :: "call \<Rightarrow> 'w \<Rightarrow> (exn + real) \<times> 'w"
  os_nat :: "call \<Rightarrow> 'w \<Rightarrow> (exn + nat) \<times> 'w"
  os_str :: "call \<Rightarrow> 'w \<Rightarrow> (exn + string) \<times> 'w"
  os_paths :: "call \<Rightarrow> 'w \<Rightarrow> (exn + path list) \<times> 'w"
  os_names :: "call \<Rightarrow> 'w \<Rightarrow> (exn + string list) \<times> 'w"
  os_unit :: "call \<Rightarrow> 'w \<Rightarrow> (exn + unit) \<times> 'w"
  os_proc :: "call \<Rightarrow> 'w \<Rightarrow> (exn + proc) \<times> 'w"
  isoformat :: "real \<Rightarrow> string"
  fmt_1f :: "real \<Rightarrow> string"
  decode_utf8 :: "string \<Rightarrow> string"
  not_relative_msg :: "path \<Rightarrow> path \<Rightarrow> string"

text \<open>
  The state of one job's execution, and the three ways a step can end: it returns, it
  raises, or it never comes back (a subprocess that does not finish).
\<close>

record 'w st =
  job :: BuildJob
  world :: 'w
  trace :: "entry list"

datatype ('a, 's) res = Ret 'a 's | Exc exn 's | Hang 's

type_synonym ('a, 's) m = "'s \<Rightarrow> ('a, 's) res"

fun state_of :: "('a, 's) res \<Rightarrow> 's" where
  "state_of (Ret a s) = s"
| "state_of (Exc e s) = s"
| "state_of (Hang s) = s"

definition return :: "'a \<Rightarrow> ('a, 's) m" where
  "return a s = Ret a s"

definition raise :: "exn \<Rightarrow> ('a, 's) m" where
  "raise e s = Exc e s"

definition and_then :: "('a, 's) m \<Rightarrow> ('a \<Rightarrow> ('b, 's) m) \<Rightarrow> ('b, 's) m" where
  "and_then m f s = (case m s of Ret a s' \<Rightarrow> f a s' | Exc e s' \<Rightarrow> Exc e s' | Hang s' \<Rightarrow> Hang s')"

fun foreach :: "'a list \<Rightarrow> ('a \<Rightarrow> (unit, 's) m) \<Rightarrow> (unit, 's) m" where
  "foreach [] f = return ()"
| "foreach (x # xs) f = and_then (f x) (\<lambda>_. foreach xs f)"

definition do_when :: "bool \<Rightarrow> (unit, 's) m \<Rightarrow> (unit, 's) m" where
  "do_when b m = (if b then m else return ())"

definition get_job :: "(BuildJob, 'w st) m" where
  "get_job s = Ret (job s) s"

definition modify_job :: "(BuildJob \<Rightarrow> BuildJob) \<Rightarrow> (unit, 'w st) m" where
  "modify_job f s = Ret () (s\<lparr>job := f (job s)\<rparr>)"

definition log_line :: "string \<Rightarrow> (unit, 'w st) m" where
  "log_line text = modify_job (append_log text)"

definition set_status :: "BuildStatus \<Rightarrow> (unit, 'w st) m" where
  "set_status v s = Ret () (s\<lparr>job := (job s)\<lparr>status := v\<rparr>, trace := trace s @ [Status v]\<rparr>)"

definition yield :: "(unit, 'w st) m" where
  "yield s = Ret () (s\<lparr>trace := trace s @ [Yield (job s)]\<rparr>)"

definition os_call :: "('w \<Rightarrow> (exn + 'a) \<times> 'w) \<Rightarrow> call \<Rightarrow> ('a \<Rightarrow> val) \<Rightarrow> ('a, 'w st) m" where
  "os_call f c to_val s =
     (case f (world s) of
        (Inl e, w') \<Rightarrow> Exc e (s\<lparr>world := w', trace := trace s @ [Os c (Raised e)]\<rparr>)
      | (Inr a, w') \<Rightarrow> Ret a (s\<lparr>world := w', trace := trace s @ [Os c (Returned (to_val a))]\<rparr>))"

definition datetime_now :: "'w os \<Rightarrow> (real, 'w st) m" where
  "datetime_now os s =
     (case os_now os (world s) of
        (t, w') \<Rightarrow> Ret t (s\<lparr>world := w', trace := trace s @ [Os Now (Returned (V_real t))]\<rparr>))"

definition ask :: "'w os \<Rightarrow> call \<Rightarrow> (bool, 'w st) m" where
  "ask os c = os_call (os_bool os c) c V_bool"

definition act :: "'w os \<Rightarrow> call \<Rightarrow> (unit, 'w st) m" where
  "act os c = os_call (os_unit os c) c (\<lambda>_. V_unit)"

definition list_paths :: "'w os \<Rightarrow> call \<Rightarrow> (path list, 'w st) m" where
  "list_paths os c = os_call (os_paths os c) c V_paths"

text \<open>\<open>p.relative_to(base)\<close>: the components below \<open>base\<close>, or a \<open>ValueError\<close>.\<close>

definition relative_to :: "'w os \<Rightarrow> path \<Rightarrow> path \<Rightarrow> (path, 'w st) m" where
  "relative_to os p base =
     (if take (length base) p = base then return (drop (length base) p)
      else raise (not_relative_msg os p base))"

section \<open>\<open>BuildQueue\<close>: running one job (\<open>builder.py\<close>, lines 78 to 207)\<close>

text \<open>
  \<open>_run_build\<close> is one long function; it is cut here along its own sections (the start
  of the job, the configuration, the refresh of the tree, the build, the packaging),
  each a definition that names its lines, and \<open>run_build\<close> runs them in order.
\<close>

subsection \<open>\<open>_run_command\<close>\<close>

text \<open>
  The loop \<open>while True: line = readline(); if not line: break; append_log(decode(line))\<close>
  on the log text; it does not return when the output never ends.
\<close>

partial_function (option) read_lines :: "(string \<Rightarrow> string) \<Rightarrow> (nat \<Rightarrow> string) \<Rightarrow> nat \<Rightarrow> string \<Rightarrow> string option" where
  "read_lines dec out i lg =
     (if out i = [] then Some lg else read_lines dec out (Suc i) (lg @ dec (out i)))"

declare read_lines.simps [code]

definition read_output :: "'w os \<Rightarrow> proc \<Rightarrow> (unit, 'w st) m" where
  "read_output os p s =
     (case read_lines (decode_utf8 os) (p_stdout p) 0 (log_buf (job s)) of
        None \<Rightarrow> Hang s
      | Some lg \<Rightarrow> Ret () (s\<lparr>job := (job s)\<lparr>log_buf := lg\<rparr>\<rparr>))"

definition wait :: "string list \<Rightarrow> proc \<Rightarrow> (int, 'w st) m" where
  "wait cmd p s =
     (case p_returncode p of
        None \<Rightarrow> Hang s
      | Some rc \<Rightarrow> Ret rc (s\<lparr>trace := trace s @ [Os (Wait cmd) (Returned (V_int rc))]\<rparr>))"

definition subprocess_env :: "(string \<times> string) list" where
  "subprocess_env = [(''TERM'', ''dumb''), (''NOCOLOR'', ''1'')]"

definition run_command :: "'w os \<Rightarrow> string list \<Rightarrow> (int, 'w st) m" where
  "run_command os cmd =
     and_then (log_line (''$ '' @ join '' '' cmd @ nl)) (\<lambda>_.
     and_then yield (\<lambda>_.
     and_then (os_call (os_proc os (Spawn cmd subprocess_env)) (Spawn cmd subprocess_env) (\<lambda>_. V_unit)) (\<lambda>process.
     and_then (read_output os process) (\<lambda>_.
     wait cmd process))))"

subsection \<open>\<open>_apply_config\<close>\<close>

definition portage_dir :: path where
  "portage_dir = Path ''/etc/portage''"

definition backup_dir :: "BuildJob \<Rightarrow> path" where
  "backup_dir j = Path (''/tmp/portage-backup-'' @ build_id j)"

text \<open>
  \<open>p.iterdir()\<close>: the environment lists the names in the directory, and each child is
  \<open>p\<close> with one more component. A name of a directory entry is not empty and has no
  \<open>/\<close>; anything else in the environment's answer is not a name and is left out.
\<close>

definition valid_name :: "string \<Rightarrow> bool" where
  "valid_name n = (n \<noteq> [] \<and> CHR ''/'' \<notin> set n)"

definition iterdir :: "'w os \<Rightarrow> path \<Rightarrow> (path list, 'w st) m" where
  "iterdir os p =
     and_then (os_call (os_names os (Iterdir p)) (Iterdir p) V_names) (\<lambda>names.
     return (map (\<lambda>n. p @ [n]) (filter valid_name names)))"

text \<open>The body of the loop over \<open>job.config_path.iterdir()\<close> (lines 156 to 168).\<close>

definition merge_item :: "'w os \<Rightarrow> path \<Rightarrow> (unit, 'w st) m" where
  "merge_item os item =
     do_when (name_of item \<notin> set [''.'', ''..''])
       (let dest = joinpath portage_dir (name_of item) in
        and_then (ask os (Exists dest)) (\<lambda>dest_exists.
        and_then (do_when dest_exists
           (and_then (ask os (Is_dir dest)) (\<lambda>dest_is_dir.
              if dest_is_dir then act os (Rmtree dest) else act os (Unlink dest)))) (\<lambda>_.
        and_then (ask os (Is_dir item)) (\<lambda>item_is_dir.
          if item_is_dir then act os (Copytree item dest True)
          else and_then (ask os (Is_symlink item)) (\<lambda>item_is_symlink.
            if item_is_symlink
            then and_then (os_call (os_str os (Readlink item)) (Readlink item) V_str) (\<lambda>target.
                   act os (Symlink target dest))
            else act os (Copy2 item dest))))))"

definition apply_config :: "'w os \<Rightarrow> (unit, 'w st) m" where
  "apply_config os =
     and_then (log_line (''=== Applying portage config ==='' @ nl)) (\<lambda>_.
     and_then get_job (\<lambda>j.
     and_then (ask os (Exists portage_dir)) (\<lambda>live_exists.
     and_then (do_when live_exists (act os (Copytree portage_dir (backup_dir j) False))) (\<lambda>_.
     let config_portage = joinpath (joinpath (config_path j) ''etc'') ''portage'' in
     and_then (ask os (Exists config_portage)) (\<lambda>has_subpath.
       if has_subpath then
         and_then (ask os (Exists portage_dir)) (\<lambda>live_exists2.
         and_then (do_when live_exists2 (act os (Rmtree portage_dir))) (\<lambda>_.
         and_then (act os (Copytree config_portage portage_dir True)) (\<lambda>_.
         log_line (''Applied config from '' @ str_path config_portage @ nl))))
       else
         and_then (iterdir os (config_path j)) (\<lambda>items.
         and_then (foreach items (merge_item os)) (\<lambda>_.
         log_line (''Applied config from '' @ str_path (config_path j) @ nl))))))))"

subsection \<open>\<open>_create_artifact\<close>\<close>

definition binpkg_dir :: path where
  "binpkg_dir = Path ''/var/cache/binpkgs''"

definition artifact_dir :: path where
  "artifact_dir = Path ''/var/cache/e4e/artifacts''"

text \<open>
  \<open>with tarfile.open(p, "w") as tar: body\<close>: the archive is closed when the body returns;
  when the body raises, the file is closed without the end of the archive and the
  exception goes on (an exception of the closing itself replaces it).
\<close>

definition with_tar :: "'w os \<Rightarrow> path \<Rightarrow> (unit, 'w st) m \<Rightarrow> (unit, 'w st) m" where
  "with_tar os p body =
     and_then (act os (Tar_open p)) (\<lambda>_ s.
       case body s of
         Ret _ s' \<Rightarrow> act os (Tar_close p) s'
       | Exc e s' \<Rightarrow> and_then (act os (Tar_abort p)) (\<lambda>_. raise e) s'
       | Hang s' \<Rightarrow> Hang s')"

text \<open>The body of the loop over \<open>packages\<close> (lines 202 to 204).\<close>

definition add_to_tar :: "'w os \<Rightarrow> path \<Rightarrow> path \<Rightarrow> (unit, 'w st) m" where
  "add_to_tar os tar_file pkg_path =
     and_then (relative_to os pkg_path (Path ''/var/cache/binpkgs'')) (\<lambda>arcname.
     and_then (act os (Tar_add tar_file pkg_path arcname)) (\<lambda>_.
     log_line (''  Added: '' @ str_rel arcname @ nl)))"

definition create_artifact :: "'w os \<Rightarrow> path list \<Rightarrow> (unit, 'w st) m" where
  "create_artifact os pkgs =
     and_then (act os (Mkdir_parents artifact_dir)) (\<lambda>_.
     and_then get_job (\<lambda>j.
     let tar_file = joinpath artifact_dir (build_id j @ ''.tar'') in
     and_then (log_line (nl @ ''=== Creating artifact tarball ==='' @ nl)) (\<lambda>_.
     and_then (with_tar os tar_file (foreach pkgs (add_to_tar os tar_file))) (\<lambda>_.
     and_then (modify_job (\<lambda>j. j\<lparr>artifact_path := Some tar_file\<rparr>)) (\<lambda>_.
     and_then (os_call (os_nat os (Stat_size tar_file)) (Stat_size tar_file) V_nat) (\<lambda>size.
     log_line (''Artifact created: '' @ str_path tar_file @ '' ('' @ str_nat size @ '' bytes)'' @ nl)))))))"

subsection \<open>\<open>_run_build\<close>\<close>

definition timestamp_file :: path where
  "timestamp_file = Path ''/var/db/repos/gentoo/metadata/timestamp.chk''"

definition sync_cmd :: "string list" where
  "sync_cmd = [''emerge'', ''--sync'']"

definition emerge_cmd :: "BuildJob \<Rightarrow> string list" where
  "emerge_cmd j =
     [''emerge'', ''--buildpkg'', ''--verbose'', ''--with-bdeps=y'', ''--jobs=4'',
      ''--load-average=8'', ''--ask=n''] @ packages j"

text \<open>
  \<open>set(binpkg_dir.rglob("*.gpkg.tar")) if binpkg_dir.exists() else set()\<close>. A Python set
  is a list without duplicates here; Python does not fix the order in which a set is
  iterated, and no theorem below depends on the one chosen.
\<close>

definition snapshot :: "'w os \<Rightarrow> (path list, 'w st) m" where
  "snapshot os =
     and_then (ask os (Exists binpkg_dir)) (\<lambda>dir_exists.
       if dir_exists
       then and_then (list_paths os (Rglob binpkg_dir ''*.gpkg.tar'')) (\<lambda>found. return (remdups found))
       else return [])"

text \<open>\<open>[str(p.relative_to(binpkg_dir)) for p in new_packages]\<close>\<close>

fun relative_names :: "'w os \<Rightarrow> path list \<Rightarrow> (string list, 'w st) m" where
  "relative_names os [] = return []"
| "relative_names os (p # ps) =
     and_then (relative_to os p binpkg_dir) (\<lambda>r.
     and_then (relative_names os ps) (\<lambda>rs. return (str_rel r # rs)))"

text \<open>Lines 88 to 94: whether the refresh of the tree is skipped.\<close>

definition check_skip_sync :: "'w os \<Rightarrow> (bool, 'w st) m" where
  "check_skip_sync os =
     and_then (ask os (Exists timestamp_file)) (\<lambda>marker_exists.
       if marker_exists then
         and_then (datetime_now os) (\<lambda>now.
         and_then (os_call (os_real os (Stat_mtime timestamp_file)) (Stat_mtime timestamp_file) V_real) (\<lambda>mtime.
         let tree_age = now - mtime in
         if tree_age < 604800
         then and_then (log_line (''=== Skipping sync (tree is '' @ fmt_1f os (tree_age / 3600) @ ''h old) ==='' @ nl))
                (\<lambda>_. return True)
         else return False))
       else return False)"

text \<open>Lines 125 to 128: the names of the new packages go to the job and to its log.\<close>

definition record_outputs :: "'w os \<Rightarrow> path list \<Rightarrow> (unit, 'w st) m" where
  "record_outputs os new_packages =
     and_then (relative_names os new_packages) (\<lambda>names.
     and_then (modify_job (\<lambda>j. j\<lparr>packages_built := names\<rparr>)) (\<lambda>_.
     and_then (log_line (nl @ ''=== Built '' @ str_nat (length new_packages) @ '' packages ==='' @ nl)) (\<lambda>_.
     foreach names (\<lambda>pkg. log_line (''  - '' @ pkg @ nl)))))"

text \<open>Lines 133 and 134.\<close>

definition finish_build :: "'w os \<Rightarrow> (unit, 'w st) m" where
  "finish_build os =
     and_then (set_status COMPLETE) (\<lambda>_.
     and_then (datetime_now os) (\<lambda>t.
     log_line (nl @ ''Build completed at '' @ isoformat os t @ nl)))"

text \<open>Lines 122 to 134: what follows a build command that exited with 0.\<close>

definition package_outputs :: "'w os \<Rightarrow> path list \<Rightarrow> (unit, 'w st) m" where
  "package_outputs os before_build =
     and_then (snapshot os) (\<lambda>after_build.
     let new_packages = filter (\<lambda>p. p \<notin> set before_build) after_build in
     and_then (record_outputs os new_packages) (\<lambda>_.
     and_then (do_when (new_packages \<noteq> []) (create_artifact os new_packages)) (\<lambda>_.
     finish_build os)))"

text \<open>Lines 88 to 98: the refresh of the package tree, unless it is skipped.\<close>

definition sync_tree :: "'w os \<Rightarrow> (unit, 'w st) m" where
  "sync_tree os =
     and_then (check_skip_sync os) (\<lambda>skip_sync.
     do_when (\<not> skip_sync)
       (and_then (log_line (''=== Syncing portage tree ==='' @ nl)) (\<lambda>_.
        and_then (run_command os sync_cmd) (\<lambda>_. return ()))))"

text \<open>Lines 100 to 134: the snapshot, the build command, and what follows its exit.\<close>

definition build_packages :: "'w os \<Rightarrow> (unit, 'w st) m" where
  "build_packages os =
     and_then (log_line (nl @ ''=== Building packages ==='' @ nl)) (\<lambda>_.
     and_then (snapshot os) (\<lambda>before_build.
     and_then get_job (\<lambda>j.
     and_then (run_command os (emerge_cmd j)) (\<lambda>result.
       if result \<noteq> 0 then
         and_then (set_status FAILED) (\<lambda>_.
         modify_job (\<lambda>j. j\<lparr>error := Some (''emerge failed with exit code '' @ str_int result)\<rparr>))
       else package_outputs os before_build))))"

text \<open>Lines 80 to 84: the job starts.\<close>

definition start_build :: "'w os \<Rightarrow> (unit, 'w st) m" where
  "start_build os =
     and_then (set_status BUILDING) (\<lambda>_.
     and_then (datetime_now os) (\<lambda>t.
     and_then (modify_job (\<lambda>j. j\<lparr>started_at := Some t\<rparr>)) (\<lambda>_.
     and_then (log_line (''Starting build at '' @ isoformat os t @ nl)) (\<lambda>_.
     and_then get_job (\<lambda>j.
     and_then (log_line (''Packages: '' @ join '', '' (packages j) @ nl)) (\<lambda>_.
     log_line (''Config hash: '' @ config_hash j @ nl @ nl)))))))"

definition run_build :: "'w os \<Rightarrow> (unit, 'w st) m" where
  "run_build os =
     and_then (start_build os) (\<lambda>_.
     and_then (apply_config os) (\<lambda>_.
     and_then (sync_tree os) (\<lambda>_.
     build_packages os)))"

subsection \<open>The body of the loop of \<open>worker\<close> (lines 67 to 76)\<close>

definition handle_exception :: "exn \<Rightarrow> (unit, 'w st) m" where
  "handle_exception e =
     and_then (set_status FAILED) (\<lambda>_.
     and_then (modify_job (\<lambda>j. j\<lparr>error := Some e\<rparr>)) (\<lambda>_.
     log_line (nl @ nl @ ''FATAL ERROR: '' @ e @ nl)))"

definition stamp_completed :: "'w os \<Rightarrow> (unit, 'w st) m" where
  "stamp_completed os =
     and_then (datetime_now os) (\<lambda>t. modify_job (\<lambda>j. j\<lparr>completed_at := Some t\<rparr>))"

text \<open>
  \<open>try: m except Exception as e: h(e)\<close> and \<open>try: m finally: fin\<close>: the final block runs
  on both ways out, and an exception of its own replaces the pending one.
\<close>

definition try_except :: "('a, 's) m \<Rightarrow> (exn \<Rightarrow> ('a, 's) m) \<Rightarrow> ('a, 's) m" where
  "try_except m h s = (case m s of Ret a s' \<Rightarrow> Ret a s' | Exc e s' \<Rightarrow> h e s' | Hang s' \<Rightarrow> Hang s')"

definition try_finally :: "('a, 's) m \<Rightarrow> (unit, 's) m \<Rightarrow> ('a, 's) m" where
  "try_finally m fin s =
     (case m s of
        Ret a s' \<Rightarrow> and_then fin (\<lambda>_. return a) s'
      | Exc e s' \<Rightarrow> and_then fin (\<lambda>_. raise e) s'
      | Hang s' \<Rightarrow> Hang s')"

definition run_job :: "'w os \<Rightarrow> (unit, 'w st) m" where
  "run_job os = try_finally (try_except (run_build os) handle_exception) (stamp_completed os)"

section \<open>The queue, the worker and the request handlers\<close>

text \<open>
  Job objects are shared between the dictionary \<open>jobs\<close>, the queue and the worker, so
  they live in a store: a job is its index in \<open>heap\<close>, and the queue and the dictionary
  hold indices. The worker is one \<open>asyncio\<close> task: it waits for the queue, or it is
  suspended for ever inside a build whose subprocess does not finish, or an exception
  has left its loop. The counter behind \<open>task_done()\<close> is not modelled (nothing joins
  the queue).
\<close>

type_synonym addr = nat

record BuildQueue =
  queue :: "addr list"
  jobs :: "string \<Rightarrow> addr option"
  current_job :: "addr option"

datatype worker_task = Waiting | Suspended | Crashed exn

datatype sys_entry = Submitted addr | Job addr entry

record 'w system =
  heap :: "BuildJob list"
  build_queue :: BuildQueue
  worker_task :: worker_task
  os_world :: 'w
  history :: "sys_entry list"

definition init_system :: "'w \<Rightarrow> 'w system" where
  "init_system w =
     \<lparr>heap = [], build_queue = \<lparr>queue = [], jobs = Map.empty, current_job = None\<rparr>,
      worker_task = Waiting, os_world = w, history = []\<rparr>"

definition submit :: "addr \<Rightarrow> 'w system \<Rightarrow> 'w system" where
  "submit a sys =
     sys\<lparr>build_queue := (build_queue sys)
            \<lparr>jobs := (jobs (build_queue sys))(build_id (heap sys ! a) \<mapsto> a),
             queue := queue (build_queue sys) @ [a]\<rparr>,
         history := history sys @ [Submitted a]\<rparr>"

definition get_job_by_id :: "'w system \<Rightarrow> string \<Rightarrow> BuildJob option" where
  "get_job_by_id sys bid = map_option (\<lambda>a. heap sys ! a) (jobs (build_queue sys) bid)"

text \<open>
  One turn of the loop of \<open>worker\<close>. It takes the head of the queue (nothing happens while
  the queue is empty, or once the task is suspended for ever or gone), runs the job, and
  goes back to waiting. The final block clears \<open>current_job\<close> on both ways out.
\<close>

definition worker_turn :: "'w os \<Rightarrow> 'w system \<Rightarrow> 'w system" where
  "worker_turn os sys =
     (if worker_task sys \<noteq> Waiting then sys
      else case queue (build_queue sys) of
        [] \<Rightarrow> sys
      | a # rest \<Rightarrow>
         (let bq = (build_queue sys)\<lparr>queue := rest, current_job := Some a\<rparr>;
              r = run_job os \<lparr>job = heap sys ! a, world = os_world sys, trace = []\<rparr>;
              s = state_of r;
              sys' = sys\<lparr>heap := (heap sys)[a := job s], os_world := world s,
                        history := history sys @ map (Job a) (trace s)\<rparr>
          in case r of
               Ret _ _ \<Rightarrow> sys'\<lparr>build_queue := bq\<lparr>current_job := None\<rparr>\<rparr>
             | Exc e _ \<Rightarrow> sys'\<lparr>build_queue := bq\<lparr>current_job := None\<rparr>, worker_task := Crashed e\<rparr>
             | Hang _ \<Rightarrow> sys'\<lparr>build_queue := bq, worker_task := Suspended\<rparr>))"

subsection \<open>\<open>api.py\<close>\<close>

datatype http_error = HTTPException nat string

record BuildRequest =
  req_packages :: "string list"
  req_config_hash :: string
  req_config :: "string option"

record BuildResponse =
  resp_build_id :: string
  resp_status :: string
  resp_need_config :: bool

definition status_value :: "BuildStatus \<Rightarrow> string" where
  "status_value v = (case v of QUEUED \<Rightarrow> ''queued'' | BUILDING \<Rightarrow> ''building''
     | COMPLETE \<Rightarrow> ''complete'' | FAILED \<Rightarrow> ''failed'')"

definition CONFIG_CACHE :: path where
  "CONFIG_CACHE = Path ''/var/cache/e4e/configs''"

text \<open>
  \<open>submit_build\<close>. Decoding and unpacking the configuration (lines 75 to 79) is one call
  of the environment; an exception outside the \<open>try\<close> block is the framework's answer 500.
\<close>

definition submit_build :: "'w os \<Rightarrow> BuildRequest \<Rightarrow> 'w system \<Rightarrow> (http_error + BuildResponse) \<times> 'w system" where
  "submit_build os request sys =
     (let cp = joinpath CONFIG_CACHE (req_config_hash request) in
      case os_bool os (Exists cp) (os_world sys) of
        (Inl e, w1) \<Rightarrow> (Inl (HTTPException 500 e), sys\<lparr>os_world := w1\<rparr>)
      | (Inr cached, w1) \<Rightarrow>
          if \<not> cached \<and> req_config request = None
          then (Inr \<lparr>resp_build_id = [], resp_status = ''need_config'', resp_need_config = True\<rparr>,
                sys\<lparr>os_world := w1\<rparr>)
          else
            (case (if cached then (Inr (), w1)
                   else os_unit os (B64_extract (the (req_config request)) cp) w1) of
               (Inl e, w2) \<Rightarrow>
                 (Inl (HTTPException 400 (''Invalid config tarball: '' @ e)), sys\<lparr>os_world := w2\<rparr>)
             | (Inr _, w2) \<Rightarrow>
                 (case os_uuid4 os w2 of (bid, w3) \<Rightarrow>
                    let j = new_BuildJob (req_packages request) (req_config_hash request) cp bid;
                        a = length (heap sys)
                    in (Inr \<lparr>resp_build_id = build_id j, resp_status = status_value (status j),
                             resp_need_config = False\<rparr>,
                        submit a (sys\<lparr>heap := heap sys @ [j], os_world := w3\<rparr>)))))"

definition get_build_logs :: "'w system \<Rightarrow> string \<Rightarrow> int \<Rightarrow> http_error + string" where
  "get_build_logs sys bid lines =
     (case get_job_by_id sys bid of
        None \<Rightarrow> Inl (HTTPException 404 ''Build not found'')
      | Some j \<Rightarrow> Inr (get_log_tail j lines))"

text \<open>
  What happens to the system: requests that submit a build, and turns of the worker, in
  any order. (The other handlers only read.)
\<close>

datatype action = Post_build BuildRequest | Worker_turn

fun step :: "'w os \<Rightarrow> action \<Rightarrow> 'w system \<Rightarrow> 'w system" where
  "step os (Post_build request) sys = snd (submit_build os request sys)"
| "step os Worker_turn sys = worker_turn os sys"

definition run :: "'w os \<Rightarrow> action list \<Rightarrow> 'w system \<Rightarrow> 'w system" where
  "run os acts sys = foldl (\<lambda>s a. step os a s) sys acts"

section \<open>Reading a trace\<close>

definition statuses :: "entry list \<Rightarrow> BuildStatus list" where
  "statuses tr = concat (map (\<lambda>e. case e of Status v \<Rightarrow> [v] | _ \<Rightarrow> []) tr)"

definition spawned :: "entry list \<Rightarrow> string list list" where
  "spawned tr = concat (map (\<lambda>e. case e of Os (Spawn cmd env) r \<Rightarrow> [cmd] | _ \<Rightarrow> []) tr)"

definition exits :: "entry list \<Rightarrow> (string list \<times> int) list" where
  "exits tr = concat (map (\<lambda>e. case e of Os (Wait cmd) (Returned (V_int rc)) \<Rightarrow> [(cmd, rc)] | _ \<Rightarrow> []) tr)"

definition cfg_call :: "call \<Rightarrow> bool" where
  "cfg_call c = (case c of
      Exists p \<Rightarrow> p \<noteq> timestamp_file \<and> p \<noteq> binpkg_dir
    | Is_dir p \<Rightarrow> True | Is_symlink p \<Rightarrow> True | Iterdir p \<Rightarrow> True | Readlink p \<Rightarrow> True
    | Copytree a b f \<Rightarrow> True | Rmtree p \<Rightarrow> True | Unlink p \<Rightarrow> True | Symlink t p \<Rightarrow> True
    | Copy2 a b \<Rightarrow> True | _ \<Rightarrow> False)"

definition cfg_entry :: "entry \<Rightarrow> bool" where
  "cfg_entry e = (case e of Os c r \<Rightarrow> cfg_call c | _ \<Rightarrow> False)"



definition grows :: "(entry \<Rightarrow> bool) \<Rightarrow> 'w st \<Rightarrow> 'w st \<Rightarrow> bool" where
  "grows P s s' = (\<exists>es lg. trace s' = trace s @ es \<and> list_all P es \<and> job s' = (job s)\<lparr>log_buf := log_buf (job s) @ lg\<rparr>)"

definition safe :: "('s \<Rightarrow> 's \<Rightarrow> bool) \<Rightarrow> ('a, 's) m \<Rightarrow> bool" where
  "safe R m = (\<forall>s. R s (state_of (m s)) \<and> (\<forall>s'. m s \<noteq> Hang s'))"

definition yields :: "entry list \<Rightarrow> BuildJob list" where
  "yields tr = concat (map (\<lambda>e. case e of Yield j \<Rightarrow> [j] | _ \<Rightarrow> []) tr)"

definition tar_calls :: "entry list \<Rightarrow> call list" where
  "tar_calls tr = concat (map (\<lambda>e. case e of
       Os (Mkdir_parents p) r \<Rightarrow> [Mkdir_parents p]
     | Os (Tar_open p) r \<Rightarrow> [Tar_open p]
     | Os (Tar_add t p a) r \<Rightarrow> [Tar_add t p a]
     | Os (Tar_close p) r \<Rightarrow> [Tar_close p]
     | _ \<Rightarrow> []) tr)"

definition cmdline :: "string list \<Rightarrow> string" where
  "cmdline cmd = ''$ '' @ join '' '' cmd @ nl"

definition skip_message :: "'w os \<Rightarrow> real \<Rightarrow> string" where
  "skip_message os age = ''=== Skipping sync (tree is '' @ fmt_1f os (age / 3600) @ ''h old) ==='' @ nl"

definition under_binpkg :: "path \<Rightarrow> bool" where
  "under_binpkg p = (take (length binpkg_dir) p = binpkg_dir)"

definition arcname_of :: "path \<Rightarrow> path" where
  "arcname_of p = drop (length binpkg_dir) p"

definition tar_path :: "BuildJob \<Rightarrow> path" where
  "tar_path j = joinpath artifact_dir (build_id j @ ''.tar'')"

definition art_call :: "call \<Rightarrow> bool" where
  "art_call c = (case c of Mkdir_parents p \<Rightarrow> True | Tar_open p \<Rightarrow> True | Tar_add t p a \<Rightarrow> True
     | Tar_close p \<Rightarrow> True | Tar_abort p \<Rightarrow> True | Stat_size p \<Rightarrow> True | _ \<Rightarrow> False)"

definition art_entry :: "entry \<Rightarrow> bool" where
  "art_entry e = (case e of Os c r \<Rightarrow> art_call c | _ \<Rightarrow> False)"

definition grows2 :: "(entry \<Rightarrow> bool) \<Rightarrow> 'w st \<Rightarrow> 'w st \<Rightarrow> bool" where
  "grows2 P s s' = (\<exists>es lg ap. trace s' = trace s @ es \<and> list_all P es \<and>
      job s' = (job s)\<lparr>log_buf := log_buf (job s) @ lg, artifact_path := ap\<rparr>)"

definition artifact_entries :: "path \<Rightarrow> path list \<Rightarrow> nat \<Rightarrow> entry list" where
  "artifact_entries tp pkgs sz =
     [Os (Mkdir_parents artifact_dir) (Returned V_unit), Os (Tar_open tp) (Returned V_unit)] @
     map (\<lambda>p. Os (Tar_add tp p (arcname_of p)) (Returned V_unit)) pkgs @
     [Os (Tar_close tp) (Returned V_unit), Os (Stat_size tp) (Returned (V_nat sz))]"

section \<open>A small simulated environment, for concrete runs\<close>

text \<open>
  A scenario fixes the answers of the environment: which paths exist, are directories or
  are symbolic links, what the configuration directory lists, the modification time of
  the freshness marker, the exit code of the build command (\<open>None\<close>: it never exits), the
  packages in the output cache before and those the build command adds, and the calls
  that raise. The clock starts where the world says and advances by one second a reading.
\<close>

record scenario =
  sc_existing :: "path list"
  sc_dirs :: "path list"
  sc_links :: "path list"
  sc_names :: "string list"
  sc_mtime :: real
  sc_rc :: "int option"
  sc_before :: "path list"
  sc_outputs :: "path list"
  sc_failing :: "call list"

record sim =
  sim_clock :: real
  sim_built :: bool
  sim_ids :: nat

definition sim_answer :: "scenario \<Rightarrow> call \<Rightarrow> 'a \<Rightarrow> sim \<Rightarrow> (exn + 'a) \<times> sim" where
  "sim_answer sc c a w = (if c \<in> set (sc_failing sc) then Inl ''boom'' else Inr a, w)"

definition sim_proc :: "scenario \<Rightarrow> call \<Rightarrow> proc" where
  "sim_proc sc c =
     \<lparr>p_stdout = (\<lambda>i. if i = 0 then ''ok'' @ nl else []),
      p_returncode = (if c = Spawn sync_cmd subprocess_env then Some 0 else sc_rc sc)\<rparr>"

definition sim_os :: "scenario \<Rightarrow> sim os" where
  "sim_os sc =
     \<lparr>os_now = (\<lambda>w. (sim_clock w, w\<lparr>sim_clock := sim_clock w + 1\<rparr>)),
      os_uuid4 = (\<lambda>w. (''job-'' @ str_nat (sim_ids w), w\<lparr>sim_ids := Suc (sim_ids w)\<rparr>)),
      os_bool = (\<lambda>c. sim_answer sc c
         (case c of Exists p \<Rightarrow> p \<in> set (sc_existing sc) | Is_dir p \<Rightarrow> p \<in> set (sc_dirs sc)
            | Is_symlink p \<Rightarrow> p \<in> set (sc_links sc) | _ \<Rightarrow> False)),
      os_real = (\<lambda>c. sim_answer sc c (sc_mtime sc)),
      os_nat = (\<lambda>c. sim_answer sc c 10240),
      os_str = (\<lambda>c. sim_answer sc c ''../target''),
      os_paths = (\<lambda>c w. sim_answer sc c (if sim_built w then sc_before sc @ sc_outputs sc else sc_before sc) w),
      os_names = (\<lambda>c. sim_answer sc c (sc_names sc)),
      os_unit = (\<lambda>c. sim_answer sc c ()),
      os_proc = (\<lambda>c w. sim_answer sc c (sim_proc sc c)
         (w\<lparr>sim_built := sim_built w \<or> c \<noteq> Spawn sync_cmd subprocess_env\<rparr>)),
      isoformat = (\<lambda>t. ''T'' @ str_int \<lfloor>t\<rfloor>),
      fmt_1f = (\<lambda>x. str_int \<lfloor>x\<rfloor> @ ''.0''),
      decode_utf8 = id,
      not_relative_msg = (\<lambda>p b. str_path p @ '' is not in the subpath of '' @ str_path b)\<rparr>"

definition sim0 :: sim where
  "sim0 = \<lparr>sim_clock = 1000, sim_built = False, sim_ids = 0\<rparr>"

text \<open>
  The plain scenario: the configuration has the subpath \<open>etc/portage\<close>, the marker is 101
  seconds old when it is read, and the build command exits with 0 and leaves one new
  package beside an old one.
\<close>

definition plain :: scenario where
  "plain = \<lparr>sc_existing = [timestamp_file, binpkg_dir, [''cfg'', ''etc'', ''portage'']],
     sc_dirs = [], sc_links = [], sc_names = [], sc_mtime = 900, sc_rc = Some 0,
     sc_before = [binpkg_dir @ [''old.gpkg.tar'']],
     sc_outputs = [binpkg_dir @ [''cat'', ''foo-1.gpkg.tar'']],
     sc_failing = []\<rparr>"

definition job0 :: BuildJob where
  "job0 = new_BuildJob [''foo'', ''bar''] ''h1'' [''cfg''] ''id-1''"

definition start0 :: "sim st" where
  "start0 = \<lparr>job = job0, world = sim0, trace = []\<rparr>"

text \<open>A system that holds one job whose log has two lines.\<close>

definition logged_job :: BuildJob where
  "logged_job = job0\<lparr>log_buf := ''one'' @ nl @ ''two'' @ nl\<rparr>"

definition logged_sys :: "sim system" where
  "logged_sys = submit 0 ((init_system sim0)\<lparr>heap := [logged_job]\<rparr>)"

datatype marker = Absent | Present real real

definition marker_entries :: "marker \<Rightarrow> entry list" where
  "marker_entries mk = (case mk of
      Absent \<Rightarrow> [Os (Exists timestamp_file) (Returned (V_bool False))]
    | Present t m \<Rightarrow> [Os (Exists timestamp_file) (Returned (V_bool True)),
        Os Now (Returned (V_real t)), Os (Stat_mtime timestamp_file) (Returned (V_real m))])"

definition fresh :: "marker \<Rightarrow> bool" where
  "fresh mk = (case mk of Absent \<Rightarrow> False | Present t m \<Rightarrow> t - m < 604800)"

definition age :: "marker \<Rightarrow> real" where
  "age mk = (case mk of Absent \<Rightarrow> 0 | Present t m \<Rightarrow> t - m)"

datatype marker_fail = Probe_failed | Stat_failed real

definition marker_fail_entries :: "exn \<Rightarrow> marker_fail \<Rightarrow> entry list" where
  "marker_fail_entries e mf = (case mf of
      Probe_failed \<Rightarrow> [Os (Exists timestamp_file) (Raised e)]
    | Stat_failed t \<Rightarrow> [Os (Exists timestamp_file) (Returned (V_bool True)),
        Os Now (Returned (V_real t)), Os (Stat_mtime timestamp_file) (Raised e)])"

definition command_entries :: "BuildJob \<Rightarrow> string list \<Rightarrow> int \<Rightarrow> entry list" where
  "command_entries jy cmd rc =
     [Yield jy, Os (Spawn cmd subprocess_env) (Returned V_unit), Os (Wait cmd) (Returned (V_int rc))]"

definition refresh_entries :: "marker \<Rightarrow> BuildJob \<Rightarrow> int \<Rightarrow> entry list" where
  "refresh_entries mk jy rc =
     marker_entries mk @ (if fresh mk then [] else command_entries jy sync_cmd rc)"

datatype snap = No_dir | Found "path list"

definition snap_entries :: "snap \<Rightarrow> entry list" where
  "snap_entries a = (case a of
      No_dir \<Rightarrow> [Os (Exists binpkg_dir) (Returned (V_bool False))]
    | Found ps \<Rightarrow> [Os (Exists binpkg_dir) (Returned (V_bool True)),
        Os (Rglob binpkg_dir ''*.gpkg.tar'') (Returned (V_paths ps))])"

definition snap_paths :: "snap \<Rightarrow> path list" where
  "snap_paths a = (case a of No_dir \<Rightarrow> [] | Found ps \<Rightarrow> remdups ps)"

datatype snap_fail = Exists_failed | Rglob_failed

definition snap_fail_entries :: "exn \<Rightarrow> snap_fail \<Rightarrow> entry list" where
  "snap_fail_entries e sf = (case sf of
      Exists_failed \<Rightarrow> [Os (Exists binpkg_dir) (Raised e)]
    | Rglob_failed \<Rightarrow> [Os (Exists binpkg_dir) (Returned (V_bool True)),
        Os (Rglob binpkg_dir ''*.gpkg.tar'') (Raised e)])"

definition running :: "BuildJob \<Rightarrow> real \<Rightarrow> string \<Rightarrow> BuildJob" where
  "running j t0 ext = j\<lparr>status := BUILDING, started_at := Some t0, log_buf := log_buf j @ ext\<rparr>"

definition header_text :: "'w os \<Rightarrow> BuildJob \<Rightarrow> real \<Rightarrow> string" where
  "header_text os j t0 = ''Starting build at '' @ isoformat os t0 @ nl @
     ''Packages: '' @ join '', '' (packages j) @ nl @ ''Config hash: '' @ config_hash j @ nl @ nl"

definition fresh_outputs :: "path list \<Rightarrow> snap \<Rightarrow> path list" where
  "fresh_outputs before a = filter (\<lambda>p. p \<notin> set before) (snap_paths a)"

definition names_of :: "path list \<Rightarrow> string list" where
  "names_of ps = map (\<lambda>p. str_rel (arcname_of p)) ps"

definition total :: "('a, 's) m \<Rightarrow> bool" where
  "total m = (\<forall>s. \<exists>a s'. m s = Ret a s')"

definition pack_call :: "call \<Rightarrow> bool" where
  "pack_call c = (art_call c \<or> (case c of Exists p \<Rightarrow> p = binpkg_dir | Rglob p pat \<Rightarrow> True | _ \<Rightarrow> False))"

definition pack_entry :: "entry \<Rightarrow> bool" where
  "pack_entry e = (case e of Os c r \<Rightarrow> pack_call c | _ \<Rightarrow> False)"

definition exit_message :: "int \<Rightarrow> string" where
  "exit_message rc = ''emerge failed with exit code '' @ str_int rc"

definition start_entries :: "real \<Rightarrow> entry list" where
  "start_entries t0 = [Status BUILDING, Os Now (Returned (V_real t0))]"

definition fatal_message :: "exn \<Rightarrow> string" where
  "fatal_message e = nl @ nl @ ''FATAL ERROR: '' @ e @ nl"

definition failed_with :: "exn \<Rightarrow> real \<Rightarrow> BuildJob \<Rightarrow> BuildJob" where
  "failed_with e t j = j\<lparr>status := FAILED, error := Some e, log_buf := log_buf j @ fatal_message e,
     completed_at := Some t\<rparr>"

definition final :: "'w os \<Rightarrow> 'w st \<Rightarrow> BuildJob" where
  "final os s = job (state_of (run_job os s))"

definition events :: "'w os \<Rightarrow> 'w st \<Rightarrow> entry list" where
  "events os s = drop (length (trace s)) (trace (state_of (run_job os s)))"

definition returns :: "'w os \<Rightarrow> 'w st \<Rightarrow> bool" where
  "returns os s = (case run_job os s of Ret x s' \<Rightarrow> True | _ \<Rightarrow> False)"

definition exit_two :: scenario where
  "exit_two = plain\<lparr>sc_rc := Some 2\<rparr>"

definition no_artifact_dir :: scenario where
  "no_artifact_dir = plain\<lparr>sc_failing := [Mkdir_parents artifact_dir]\<rparr>"

definition stale :: scenario where
  "stale = plain\<lparr>sc_mtime := -700000\<rparr>"

definition nothing_built :: scenario where
  "nothing_built = plain\<lparr>sc_outputs := []\<rparr>"

section \<open>Lemmas on the steps of a job\<close>

lemma growsI: "trace s' = trace s @ es \<Longrightarrow> list_all P es \<Longrightarrow> job s' = (job s)\<lparr>log_buf := log_buf (job s) @ lg\<rparr> \<Longrightarrow> grows P s s'"
  unfolding grows_def by blast

lemma grows_refl: "grows P s s"
  by (rule growsI[where es="[]" and lg="[]"]) simp_all

lemma grows_trans:
  assumes "grows P s s1" and "grows P s1 s2"
  shows "grows P s s2"
proof -
  from assms(1) obtain es lg where a: "trace s1 = trace s @ es" "list_all P es" "job s1 = (job s)\<lparr>log_buf := log_buf (job s) @ lg\<rparr>"
    unfolding grows_def by blast
  from assms(2) obtain es' lg' where b: "trace s2 = trace s1 @ es'" "list_all P es'" "job s2 = (job s1)\<lparr>log_buf := log_buf (job s1) @ lg'\<rparr>"
    unfolding grows_def by blast
  show ?thesis
    by (rule growsI[where es="es @ es'" and lg="lg @ lg'"]) (simp_all add: a b)
qed

lemma safe_return: "(\<And>s. R s s) \<Longrightarrow> safe R (return a)"
  by (simp add: safe_def return_def)

lemma safe_raise: "(\<And>s. R s s) \<Longrightarrow> safe R (raise e)"
  by (simp add: safe_def raise_def)

lemma safe_and_then:
  assumes tr: "\<And>a b c. R a b \<Longrightarrow> R b c \<Longrightarrow> R a c"
    and m: "safe R m" and f: "\<And>a. safe R (f a)"
  shows "safe R (and_then m f)"
  unfolding safe_def
proof (intro allI conjI)
  fix s
  have ms: "R s (state_of (m s))" using m by (simp add: safe_def)
  show "R s (state_of (and_then m f s))"
  proof (cases "m s")
    case (Ret a s1)
    have "R s s1" using ms Ret by simp
    moreover have "R s1 (state_of (f a s1))" using f by (simp add: safe_def)
    ultimately have "R s (state_of (f a s1))" by (rule tr)
    then show ?thesis using Ret by (simp add: and_then_def)
  next
    case (Exc e s1)
    then show ?thesis using ms by (simp add: and_then_def)
  next
    case (Hang s1)
    then show ?thesis using ms by (simp add: and_then_def)
  qed
next
  fix s s'
  have "m s \<noteq> Hang s'" for s' using m by (simp add: safe_def)
  moreover have "f a t \<noteq> Hang s'" for a t using f by (simp add: safe_def)
  ultimately show "and_then m f s \<noteq> Hang s'"
    by (cases "m s") (simp_all add: and_then_def)
qed

lemma safe_foreach:
  assumes rf: "\<And>s. R s s" and tr: "\<And>a b c. R a b \<Longrightarrow> R b c \<Longrightarrow> R a c"
    and f: "\<And>x. safe R (f x)"
  shows "safe R (foreach xs f)"
proof (induction xs)
  case Nil
  show ?case by (simp add: safe_return rf)
next
  case (Cons x xs)
  show ?case unfolding foreach.simps
    by (rule safe_and_then[OF tr f Cons])
qed

lemma safe_do_when: "(\<And>s. R s s) \<Longrightarrow> safe R m \<Longrightarrow> safe R (do_when b m)"
  by (simp add: do_when_def safe_return)

lemma safe_log_line: "safe (grows P) (log_line t)"
  unfolding safe_def
proof (intro allI conjI)
  fix s :: "'a st"
  show "grows P s (state_of (log_line t s))"
    by (rule growsI[where es="[]" and lg="t"])
       (simp_all add: log_line_def modify_job_def append_log_def)
  fix s' show "log_line t s \<noteq> Hang s'" by (simp add: log_line_def modify_job_def)
qed

lemma safe_get_job: "safe (grows P) get_job"
  unfolding safe_def get_job_def by (simp add: grows_refl)

lemma safe_os_call:
  assumes "\<And>r. P (Os c r)"
  shows "safe (grows P) (os_call f c to_val)"
  unfolding safe_def
proof (intro allI conjI)
  fix s :: "'a st"
  obtain r w where fw: "f (world s) = (r, w)" by (cases "f (world s)")
  show "grows P s (state_of (os_call f c to_val s))"
  proof (cases r)
    case (Inl e)
    show ?thesis
      by (rule growsI[where es="[Os c (Raised e)]" and lg="[]"])
         (simp_all add: os_call_def fw Inl assms)
  next
    case (Inr a)
    show ?thesis
      by (rule growsI[where es="[Os c (Returned (to_val a))]" and lg="[]"])
         (simp_all add: os_call_def fw Inr assms)
  qed
  fix s' show "os_call f c to_val s \<noteq> Hang s'"
    by (cases r) (simp_all add: os_call_def fw)
qed

lemma portage_dir_eq: "portage_dir = [''etc'', ''portage'']"
  by (simp add: portage_dir_def Path_def path_parts_def)

lemma timestamp_file_eq:
  "timestamp_file = [''var'', ''db'', ''repos'', ''gentoo'', ''metadata'', ''timestamp.chk'']"
  by (simp add: timestamp_file_def Path_def path_parts_def)

lemma binpkg_dir_eq: "binpkg_dir = [''var'', ''cache'', ''binpkgs'']"
  by (simp add: binpkg_dir_def Path_def path_parts_def)

lemma artifact_dir_eq: "artifact_dir = [''var'', ''cache'', ''e4e'', ''artifacts'']"
  by (simp add: artifact_dir_def Path_def path_parts_def)

lemma joinpath_relative: "take 1 n \<noteq> ''/'' \<Longrightarrow> joinpath p n = p @ path_parts n"
  by (simp add: joinpath_def)

lemma valid_name_not_absolute: "valid_name n \<Longrightarrow> take 1 n \<noteq> ''/''"
  by (cases n) (auto simp: valid_name_def)

lemma cfg_exists_dest:
  "valid_name n \<Longrightarrow> cfg_call (Exists (joinpath portage_dir n))"
proof -
  assume "valid_name n"
  then have "joinpath portage_dir n = portage_dir @ path_parts n"
    by (rule joinpath_relative[OF valid_name_not_absolute])
  then show ?thesis
    by (simp add: cfg_call_def portage_dir_eq timestamp_file_eq binpkg_dir_eq)
qed

lemma cfg_exists_config_portage:
  "cfg_call (Exists (joinpath (joinpath cp ''etc'') ''portage''))"
proof -
  have eq: "joinpath (joinpath cp ''etc'') ''portage'' = (cp @ [''etc'']) @ [''portage'']"
    by (simp add: joinpath_def path_parts_def)
  have l: "last ((cp @ [''etc'']) @ [''portage'']) = ''portage''"
    by simp
  have "last timestamp_file \<noteq> ''portage''" "last binpkg_dir \<noteq> ''portage''"
    by (simp_all add: timestamp_file_eq binpkg_dir_eq)
  with l have "(cp @ [''etc'']) @ [''portage''] \<noteq> timestamp_file"
    "(cp @ [''etc'']) @ [''portage''] \<noteq> binpkg_dir"
    by metis+
  then show ?thesis unfolding eq by (simp add: cfg_call_def)
qed

lemma safe_foreach_on:
  assumes rf: "\<And>s. R s s" and tr: "\<And>a b c. R a b \<Longrightarrow> R b c \<Longrightarrow> R a c"
    and f: "\<And>x. x \<in> set xs \<Longrightarrow> safe R (f x)"
  shows "safe R (foreach xs f)"
  using f
proof (induction xs)
  case Nil
  show ?case by (simp add: safe_return rf)
next
  case (Cons x xs)
  have 1: "safe R (f x)" using Cons.prems by simp
  have 2: "safe R (foreach xs f)" using Cons.IH Cons.prems by simp
  show ?case unfolding foreach.simps
    by (rule safe_and_then[OF tr 1 2])
qed

lemma grows_step:
  "safe (grows P) m \<Longrightarrow> (\<And>a. safe (grows P) (f a)) \<Longrightarrow> safe (grows P) (and_then m f)"
  by (rule safe_and_then[where R="grows P"]) (auto intro: grows_trans)

lemma safe_if: "(b \<Longrightarrow> safe R m1) \<Longrightarrow> (\<not> b \<Longrightarrow> safe R m2) \<Longrightarrow> safe R (if b then m1 else m2)"
  by simp

lemma grows_when: "safe (grows P) m \<Longrightarrow> safe (grows P) (do_when b m)"
  by (rule safe_do_when[OF grows_refl])

lemma grows_return: "safe (grows P) (return a)"
  by (rule safe_return[OF grows_refl])

lemma grows_raise: "safe (grows P) (raise e)"
  by (rule safe_raise[OF grows_refl])

lemma cfg_ask: "cfg_call c \<Longrightarrow> safe (grows cfg_entry) (ask os c)"
  unfolding ask_def by (rule safe_os_call) (simp add: cfg_entry_def)

lemma cfg_act: "cfg_call c \<Longrightarrow> safe (grows cfg_entry) (act os c)"
  unfolding act_def by (rule safe_os_call) (simp add: cfg_entry_def)

lemma cfg_os_call: "cfg_call c \<Longrightarrow> safe (grows cfg_entry) (os_call f c to_val)"
  by (rule safe_os_call) (simp add: cfg_entry_def)

lemmas cfg_rules = grows_step safe_if grows_when grows_return safe_log_line safe_get_job
  cfg_ask cfg_act cfg_os_call

lemma merge_item_safe:
  assumes "valid_name (name_of item)"
  shows "safe (grows cfg_entry) (merge_item os item)"
  unfolding merge_item_def Let_def
  by (intro cfg_rules cfg_exists_dest[OF assms]) (simp_all add: cfg_call_def)

lemma iterdir_safe: "safe (grows cfg_entry) (iterdir os p)"
  unfolding iterdir_def
  by (intro cfg_rules) (simp_all add: cfg_call_def)

lemma loop_safe:
  "safe (grows cfg_entry) (foreach (map (\<lambda>n. p @ [n]) (filter valid_name names)) (merge_item os))"
proof (rule safe_foreach_on[where R="grows cfg_entry"])
  show "grows cfg_entry s s" for s :: "'a st" by (rule grows_refl)
  show "grows cfg_entry a b \<Longrightarrow> grows cfg_entry b c \<Longrightarrow> grows cfg_entry a c"
    for a b c :: "'a st" by (rule grows_trans)
  fix x assume "x \<in> set (map (\<lambda>n. p @ [n]) (filter valid_name names))"
  then obtain n where "x = p @ [n]" "valid_name n" by auto
  then have "valid_name (name_of x)" by (simp add: name_of_def)
  then show "safe (grows cfg_entry) (merge_item os x)" by (rule merge_item_safe)
qed

lemma and_then_assoc: "and_then (and_then m g) f = and_then m (\<lambda>a. and_then (g a) f)"
  by (rule ext) (simp add: and_then_def split: res.splits)

lemma return_and_then: "and_then (return a) f = f a"
  by (rule ext) (simp add: and_then_def return_def)

lemma apply_config_safe: "safe (grows cfg_entry) (apply_config os)"
  unfolding apply_config_def Let_def iterdir_def
  apply (simp only: and_then_assoc return_and_then)
  apply (intro cfg_rules cfg_exists_config_portage loop_safe)
  apply (simp_all add: cfg_call_def portage_dir_eq timestamp_file_eq binpkg_dir_eq)
  done

lemma apply_config_grows: "grows cfg_entry s (state_of (apply_config os s))"
  using apply_config_safe[of os] by (simp add: safe_def)

lemma apply_config_Ret:
  assumes "apply_config os s = Ret x s'"
  shows "\<exists>es lg. trace s' = trace s @ es \<and> list_all cfg_entry es \<and> job s' = (job s)\<lparr>log_buf := log_buf (job s) @ lg\<rparr>"
  using apply_config_grows[of s os] by (simp add: assms grows_def)

lemma apply_config_Exc:
  assumes "apply_config os s = Exc e s'"
  shows "\<exists>es lg. trace s' = trace s @ es \<and> list_all cfg_entry es \<and> job s' = (job s)\<lparr>log_buf := log_buf (job s) @ lg\<rparr>"
  using apply_config_grows[of s os] by (simp add: assms grows_def)

lemma apply_config_Hang: "apply_config os s \<noteq> Hang s'"
  using apply_config_safe[of os] by (simp add: safe_def)

lemma cfg_statuses: "list_all cfg_entry es \<Longrightarrow> statuses es = []"
  by (induction es) (auto simp: statuses_def cfg_entry_def split: entry.splits)

lemma cfg_exits: "list_all cfg_entry es \<Longrightarrow> exits es = []"
  by (induction es) (auto simp: exits_def cfg_entry_def cfg_call_def split: entry.splits call.splits)

lemma cfg_spawned: "list_all cfg_entry es \<Longrightarrow> spawned es = []"
  by (induction es) (auto simp: spawned_def cfg_entry_def cfg_call_def split: entry.splits call.splits)

lemma cfg_tar_calls: "list_all cfg_entry es \<Longrightarrow> tar_calls es = []"
  by (induction es) (auto simp: tar_calls_def cfg_entry_def cfg_call_def split: entry.splits call.splits)

lemma statuses_append: "statuses (a @ b) = statuses a @ statuses b" by (simp add: statuses_def)
lemma exits_append: "exits (a @ b) = exits a @ exits b" by (simp add: exits_def)
lemma spawned_append: "spawned (a @ b) = spawned a @ spawned b" by (simp add: spawned_def)
lemma tar_calls_append: "tar_calls (a @ b) = tar_calls a @ tar_calls b" by (simp add: tar_calls_def)

lemma and_then_RetE:
  assumes "and_then m f s = Ret b s'"
  obtains a s1 where "m s = Ret a s1" "f a s1 = Ret b s'"
  using assms by (cases "m s") (simp_all add: and_then_def)

lemma read_lines_extends:
  assumes "read_lines dec out i lg = Some lg'"
  shows "\<exists>ext. lg' = lg @ ext"
proof (rule read_lines.raw_induct[where P="\<lambda>dec out i lg lg'. \<exists>ext. lg' = lg @ ext", OF _ assms])
  fix f :: "(string \<Rightarrow> string) \<Rightarrow> (nat \<Rightarrow> string) \<Rightarrow> nat \<Rightarrow> string \<Rightarrow> string option"
    and dec out i lg lg'
  assume ih: "\<And>dec out i lg y. f dec out i lg = Some y \<Longrightarrow> \<exists>ext. y = lg @ ext"
    and eq: "(if out i = [] then Some lg else f dec out (Suc i) (lg @ dec (out i))) = Some lg'"
  show "\<exists>ext. lg' = lg @ ext"
  proof (cases "out i = []")
    case True
    with eq have "lg' = lg @ []" by simp
    then show ?thesis ..
  next
    case False
    with eq have "f dec out (Suc i) (lg @ dec (out i)) = Some lg'" by simp
    from ih[OF this] obtain ext where "lg' = (lg @ dec (out i)) @ ext" ..
    then have "lg' = lg @ (dec (out i) @ ext)" by simp
    then show ?thesis ..
  qed
qed

lemma read_output_Ret:
  assumes "read_output os p s = Ret x s'"
  shows "trace s' = trace s \<and> (\<exists>ext. job s' = (job s)\<lparr>log_buf := log_buf (job s) @ ext\<rparr>)"
proof (cases "read_lines (decode_utf8 os) (p_stdout p) 0 (log_buf (job s))")
  case None
  with assms show ?thesis by (simp add: read_output_def)
next
  case (Some lg)
  from read_lines_extends[OF Some] obtain ext where "lg = log_buf (job s) @ ext" ..
  moreover from assms Some have "s' = s\<lparr>job := (job s)\<lparr>log_buf := lg\<rparr>\<rparr>"
    by (simp add: read_output_def)
  ultimately have "trace s' = trace s" "job s' = (job s)\<lparr>log_buf := log_buf (job s) @ ext\<rparr>"
    by simp_all
  then show ?thesis by blast
qed

lemma read_output_Hang: "read_output os p s = Hang s' \<Longrightarrow> s' = s"
  by (auto simp: read_output_def split: option.splits)

lemma read_output_Exc: "read_output os p s \<noteq> Exc e s'"
  by (auto simp: read_output_def split: option.splits)

lemma run_command_start:
  "and_then (log_line (cmdline cmd)) (\<lambda>_. yield) s =
     Ret () (s\<lparr>job := append_log (cmdline cmd) (job s),
                trace := trace s @ [Yield (append_log (cmdline cmd) (job s))]\<rparr>)"
  by (simp add: and_then_def log_line_def modify_job_def yield_def)

lemma run_command_unfold:
  "run_command os cmd =
     and_then (and_then (log_line (cmdline cmd)) (\<lambda>_. yield)) (\<lambda>_.
     and_then (os_call (os_proc os (Spawn cmd subprocess_env)) (Spawn cmd subprocess_env) (\<lambda>_. V_unit)) (\<lambda>process.
     and_then (read_output os process) (\<lambda>_. wait cmd process)))"
  by (simp add: run_command_def cmdline_def and_then_assoc)

lemma run_command_Ret:
  assumes "run_command os cmd s = Ret rc s'"
  shows "\<exists>lg. job s' = (job s)\<lparr>log_buf := log_buf (job s) @ lg\<rparr> \<and>
    trace s' = trace s @ [Yield (append_log (cmdline cmd) (job s)),
       Os (Spawn cmd subprocess_env) (Returned V_unit), Os (Wait cmd) (Returned (V_int rc))]"
proof -
  let ?s1 = "s\<lparr>job := append_log (cmdline cmd) (job s),
                trace := trace s @ [Yield (append_log (cmdline cmd) (job s))]\<rparr>"
  from assms obtain p s2 where 2: "os_call (os_proc os (Spawn cmd subprocess_env)) (Spawn cmd subprocess_env) (\<lambda>_. V_unit) ?s1 = Ret p s2"
    and r: "and_then (read_output os p) (\<lambda>_. wait cmd p) s2 = Ret rc s'"
    unfolding run_command_unfold
    by (auto simp: and_then_def[of "and_then (log_line (cmdline cmd)) (\<lambda>_. yield)"] run_command_start
        elim: and_then_RetE)
  from 2 have s2: "job s2 = job ?s1" "trace s2 = trace ?s1 @ [Os (Spawn cmd subprocess_env) (Returned V_unit)]"
    by (auto simp: os_call_def split: prod.splits sum.splits)
  from r obtain u s3 where 3: "read_output os p s2 = Ret u s3" and 4: "wait cmd p s3 = Ret rc s'"
    by (rule and_then_RetE)
  from read_output_Ret[OF 3] obtain ext where s3: "trace s3 = trace s2"
    "job s3 = (job s2)\<lparr>log_buf := log_buf (job s2) @ ext\<rparr>" by blast
  from 4 have s4: "job s' = job s3" "trace s' = trace s3 @ [Os (Wait cmd) (Returned (V_int rc))]"
    by (auto simp: wait_def split: option.splits)
  have "job s' = (job s)\<lparr>log_buf := log_buf (job s) @ (cmdline cmd @ ext)\<rparr>"
    by (simp add: s4 s3 s2 append_log_def)
  moreover have "trace s' = trace s @ [Yield (append_log (cmdline cmd) (job s)),
       Os (Spawn cmd subprocess_env) (Returned V_unit), Os (Wait cmd) (Returned (V_int rc))]"
    by (simp add: s4 s3 s2)
  ultimately show ?thesis by blast
qed

lemma run_command_Exc:
  assumes "run_command os cmd s = Exc e s'"
  shows "\<exists>lg. job s' = (job s)\<lparr>log_buf := log_buf (job s) @ lg\<rparr> \<and>
    trace s' = trace s @ [Yield (append_log (cmdline cmd) (job s)),
       Os (Spawn cmd subprocess_env) (Raised e)]"
proof -
  let ?s1 = "s\<lparr>job := append_log (cmdline cmd) (job s),
                trace := trace s @ [Yield (append_log (cmdline cmd) (job s))]\<rparr>"
  let ?sp = "os_call (os_proc os (Spawn cmd subprocess_env)) (Spawn cmd subprocess_env) (\<lambda>_. V_unit)"
  from assms have r: "and_then ?sp (\<lambda>process. and_then (read_output os process) (\<lambda>_. wait cmd process)) ?s1 = Exc e s'"
    unfolding run_command_unfold
    by (simp add: and_then_def[of "and_then (log_line (cmdline cmd)) (\<lambda>_. yield)"] run_command_start)
  have "?sp ?s1 = Exc e s'"
  proof (cases "?sp ?s1")
    case (Ret p s2)
    with r have "and_then (read_output os p) (\<lambda>_. wait cmd p) s2 = Exc e s'"
      by (simp add: and_then_def)
    then show ?thesis
      by (auto simp: and_then_def wait_def read_output_Exc split: res.splits option.splits)
  next
    case (Exc e2 s2)
    with r show ?thesis by (simp add: and_then_def)
  next
    case (Hang s2)
    with r show ?thesis by (simp add: and_then_def)
  qed
  then have "job s' = job ?s1" "trace s' = trace ?s1 @ [Os (Spawn cmd subprocess_env) (Raised e)]"
    by (auto simp: os_call_def split: prod.splits sum.splits)
  then have "job s' = (job s)\<lparr>log_buf := log_buf (job s) @ cmdline cmd\<rparr> \<and>
    trace s' = trace s @ [Yield (append_log (cmdline cmd) (job s)),
       Os (Spawn cmd subprocess_env) (Raised e)]"
    by (simp add: append_log_def)
  then show ?thesis ..
qed

lemma run_command_Hang:
  assumes "run_command os cmd s = Hang s'"
  shows "\<exists>lg. job s' = (job s)\<lparr>log_buf := log_buf (job s) @ lg\<rparr> \<and>
    trace s' = trace s @ [Yield (append_log (cmdline cmd) (job s)),
       Os (Spawn cmd subprocess_env) (Returned V_unit)]"
proof -
  let ?s1 = "s\<lparr>job := append_log (cmdline cmd) (job s),
                trace := trace s @ [Yield (append_log (cmdline cmd) (job s))]\<rparr>"
  let ?sp = "os_call (os_proc os (Spawn cmd subprocess_env)) (Spawn cmd subprocess_env) (\<lambda>_. V_unit)"
  from assms have r: "and_then ?sp (\<lambda>process. and_then (read_output os process) (\<lambda>_. wait cmd process)) ?s1 = Hang s'"
    unfolding run_command_unfold
    by (simp add: and_then_def[of "and_then (log_line (cmdline cmd)) (\<lambda>_. yield)"] run_command_start)
  have nh: "?sp ?s1 \<noteq> Hang t" for t
    by (auto simp: os_call_def split: prod.splits sum.splits)
  from r obtain p s2 where 2: "?sp ?s1 = Ret p s2"
    and r2: "and_then (read_output os p) (\<lambda>_. wait cmd p) s2 = Hang s'"
  proof (cases "?sp ?s1")
    case (Ret p s2)
    with r that show ?thesis by (simp add: and_then_def)
  next
    case (Exc e2 s2)
    with r show ?thesis by (simp add: and_then_def)
  next
    case (Hang s2)
    with nh[of s2] show ?thesis by simp
  qed
  from 2 have s2: "job s2 = job ?s1" "trace s2 = trace ?s1 @ [Os (Spawn cmd subprocess_env) (Returned V_unit)]"
    by (auto simp: os_call_def split: prod.splits sum.splits)
  have "trace s' = trace s2 \<and> (\<exists>ext. job s' = (job s2)\<lparr>log_buf := log_buf (job s2) @ ext\<rparr>)"
  proof (cases "read_output os p s2")
    case (Ret u s3)
    with r2 have "wait cmd p s3 = Hang s'" by (simp add: and_then_def)
    then have "s' = s3" by (auto simp: wait_def split: option.splits)
    with read_output_Ret[OF Ret] show ?thesis by simp
  next
    case (Exc e2 s3)
    then show ?thesis by (simp add: read_output_Exc)
  next
    case (Hang s3)
    with r2 have "s' = s3" by (simp add: and_then_def)
    with read_output_Hang[OF Hang] have "s' = s2" by simp
    moreover have "job s2 = (job s2)\<lparr>log_buf := log_buf (job s2) @ []\<rparr>" by simp
    ultimately show ?thesis by blast
  qed
  then obtain ext where s': "trace s' = trace s2" "job s' = (job s2)\<lparr>log_buf := log_buf (job s2) @ ext\<rparr>"
    by blast
  have "job s' = (job s)\<lparr>log_buf := log_buf (job s) @ (cmdline cmd @ ext)\<rparr> \<and>
    trace s' = trace s @ [Yield (append_log (cmdline cmd) (job s)),
       Os (Spawn cmd subprocess_env) (Returned V_unit)]"
    by (simp add: s' s2 append_log_def)
  then show ?thesis ..
qed

lemma check_skip_sync_Ret:
  assumes "check_skip_sync os s = Ret b s'"
  shows "(\<not> b \<and> job s' = job s \<and>
           trace s' = trace s @ [Os (Exists timestamp_file) (Returned (V_bool False))]) \<or>
         (\<exists>t m. b = (t - m < 604800) \<and>
           job s' = (if b then append_log (skip_message os (t - m)) (job s) else job s) \<and>
           trace s' = trace s @ [Os (Exists timestamp_file) (Returned (V_bool True)),
             Os Now (Returned (V_real t)), Os (Stat_mtime timestamp_file) (Returned (V_real m))])"
  using assms
  by (auto simp: check_skip_sync_def and_then_def ask_def os_call_def datetime_now_def
      log_line_def modify_job_def return_def skip_message_def Let_def
      split: prod.splits sum.splits if_splits)

lemma check_skip_sync_Exc:
  assumes "check_skip_sync os s = Exc e s'"
  shows "job s' = job s \<and>
    (trace s' = trace s @ [Os (Exists timestamp_file) (Raised e)] \<or>
     (\<exists>t. trace s' = trace s @ [Os (Exists timestamp_file) (Returned (V_bool True)),
             Os Now (Returned (V_real t)), Os (Stat_mtime timestamp_file) (Raised e)]))"
  using assms
  by (auto simp: check_skip_sync_def and_then_def ask_def os_call_def datetime_now_def
      log_line_def modify_job_def return_def Let_def
      split: prod.splits sum.splits if_splits)

lemma check_skip_sync_Hang: "check_skip_sync os s \<noteq> Hang s'"
  by (auto simp: check_skip_sync_def and_then_def ask_def os_call_def datetime_now_def
      log_line_def modify_job_def return_def Let_def
      split: prod.splits sum.splits if_splits)

lemma snapshot_Ret:
  assumes "snapshot os s = Ret ps s'"
  shows "job s' = job s \<and>
     ((ps = [] \<and> trace s' = trace s @ [Os (Exists binpkg_dir) (Returned (V_bool False))]) \<or>
      (\<exists>found. ps = remdups found \<and> trace s' = trace s @ [Os (Exists binpkg_dir) (Returned (V_bool True)),
          Os (Rglob binpkg_dir ''*.gpkg.tar'') (Returned (V_paths found))]))"
  using assms
  by (auto simp: snapshot_def and_then_def ask_def list_paths_def os_call_def return_def
      split: prod.splits sum.splits if_splits)

lemma snapshot_Exc:
  assumes "snapshot os s = Exc e s'"
  shows "job s' = job s \<and>
     (trace s' = trace s @ [Os (Exists binpkg_dir) (Raised e)] \<or>
      trace s' = trace s @ [Os (Exists binpkg_dir) (Returned (V_bool True)),
          Os (Rglob binpkg_dir ''*.gpkg.tar'') (Raised e)])"
  using assms
  by (auto simp: snapshot_def and_then_def ask_def list_paths_def os_call_def return_def
      split: prod.splits sum.splits if_splits)

lemma snapshot_Hang: "snapshot os s \<noteq> Hang s'"
  by (auto simp: snapshot_def and_then_def ask_def list_paths_def os_call_def return_def
      split: prod.splits sum.splits if_splits)

lemma relative_to_Ret:
  "relative_to os p base s = Ret r s' \<Longrightarrow> s' = s \<and> r = drop (length base) p \<and> take (length base) p = base"
  by (auto simp: relative_to_def return_def raise_def split: if_splits)

lemma relative_to_Exc: "relative_to os p base s = Exc e s' \<Longrightarrow> s' = s"
  by (auto simp: relative_to_def return_def raise_def split: if_splits)

lemma relative_to_Hang: "relative_to os p base s \<noteq> Hang s'"
  by (auto simp: relative_to_def return_def raise_def split: if_splits)

lemma relative_names_Ret:
  "relative_names os ps s = Ret names s' \<Longrightarrow>
     s' = s \<and> names = map (\<lambda>p. str_rel (arcname_of p)) ps \<and> list_all under_binpkg ps"
proof (induction ps arbitrary: names)
  case Nil
  then show ?case by (simp add: return_def)
next
  case (Cons p ps)
  from Cons.prems obtain r s1 where 1: "relative_to os p binpkg_dir s = Ret r s1"
    by (auto simp: and_then_def split: res.splits)
  then have r: "s1 = s" "r = arcname_of p" "under_binpkg p"
    by (auto dest: relative_to_Ret simp: arcname_of_def under_binpkg_def)
  from Cons.prems 1 r obtain rs where 2: "relative_names os ps s = Ret rs s'" "names = str_rel r # rs"
    by (auto simp: and_then_def return_def split: res.splits)
  from Cons.IH[OF 2(1)] 2 r show ?case by simp
qed

lemma relative_names_Exc: "relative_names os ps s = Exc e s' \<Longrightarrow> s' = s"
proof (induction ps)
  case Nil
  then show ?case by (simp add: return_def)
next
  case (Cons p ps)
  then show ?case
    by (auto simp: and_then_def return_def split: res.splits
        dest: relative_to_Ret relative_to_Exc relative_names_Ret)
qed

lemma relative_names_Hang: "relative_names os ps s \<noteq> Hang s'"
proof (induction ps)
  case Nil
  then show ?case by (simp add: return_def)
next
  case (Cons p ps)
  then show ?case
    by (auto simp: and_then_def return_def relative_to_Hang split: res.splits
        dest: relative_to_Ret relative_names_Ret)
qed

lemma log_lines_only:
  "\<exists>lg. foreach xs (\<lambda>x. log_line (f x)) s = Ret () (s\<lparr>job := (job s)\<lparr>log_buf := log_buf (job s) @ lg\<rparr>\<rparr>)"
proof (induction xs arbitrary: s)
  case Nil
  show ?case by (rule exI[of _ "[]"]) (simp add: return_def)
next
  case (Cons x xs)
  let ?s1 = "s\<lparr>job := append_log (f x) (job s)\<rparr>"
  from Cons[of ?s1] obtain lg where
    "foreach xs (\<lambda>x. log_line (f x)) ?s1 = Ret () (?s1\<lparr>job := (job ?s1)\<lparr>log_buf := log_buf (job ?s1) @ lg\<rparr>\<rparr>)" ..
  moreover have "foreach (x # xs) (\<lambda>x. log_line (f x)) s = foreach xs (\<lambda>x. log_line (f x)) ?s1"
    by (simp add: and_then_def log_line_def modify_job_def)
  ultimately show ?case
    by (intro exI[of _ "f x @ lg"]) (simp add: append_log_def)
qed

lemma grows2I:
  "trace s' = trace s @ es \<Longrightarrow> list_all P es \<Longrightarrow>
   job s' = (job s)\<lparr>log_buf := log_buf (job s) @ lg, artifact_path := ap\<rparr> \<Longrightarrow> grows2 P s s'"
  unfolding grows2_def by blast

lemma grows2_refl: "grows2 P s s"
  by (rule grows2I[where es="[]" and lg="[]" and ap="artifact_path (job s)"]) simp_all

lemma grows2_trans:
  assumes "grows2 P s s1" and "grows2 P s1 s2"
  shows "grows2 P s s2"
proof -
  from assms(1) obtain es lg ap where a: "trace s1 = trace s @ es" "list_all P es"
    "job s1 = (job s)\<lparr>log_buf := log_buf (job s) @ lg, artifact_path := ap\<rparr>"
    unfolding grows2_def by blast
  from assms(2) obtain es' lg' ap' where b: "trace s2 = trace s1 @ es'" "list_all P es'"
    "job s2 = (job s1)\<lparr>log_buf := log_buf (job s1) @ lg', artifact_path := ap'\<rparr>"
    unfolding grows2_def by blast
  show ?thesis
    by (rule grows2I[where es="es @ es'" and lg="lg @ lg'" and ap=ap']) (simp_all add: a b)
qed

lemma grows_grows2: "grows P s s' \<Longrightarrow> grows2 P s s'"
  unfolding grows_def
  by (elim exE conjE, rule_tac es=es and lg=lg and ap="artifact_path (job s)" in grows2I) simp_all

lemma safe_weaken: "safe R m \<Longrightarrow> (\<And>s s'. R s s' \<Longrightarrow> R' s s') \<Longrightarrow> safe R' m"
  by (simp add: safe_def)

lemma art_step:
  "safe (grows2 P) m \<Longrightarrow> (\<And>a. safe (grows2 P) (f a)) \<Longrightarrow> safe (grows2 P) (and_then m f)"
  by (rule safe_and_then[where R="grows2 P"]) (auto intro: grows2_trans)

lemma art_os_call:
  assumes "art_call c"
  shows "safe (grows2 art_entry) (os_call f c to_val)"
proof -
  have "safe (grows art_entry) (os_call f c to_val)"
    by (rule safe_os_call) (simp add: art_entry_def assms)
  then show ?thesis by (rule safe_weaken) (rule grows_grows2)
qed

lemma art_act: "art_call c \<Longrightarrow> safe (grows2 art_entry) (act os c)"
  unfolding act_def by (rule art_os_call)

lemma art_log_line: "safe (grows2 P) (log_line t)"
  by (rule safe_weaken[OF safe_log_line]) (rule grows_grows2)

lemma art_get_job: "safe (grows2 P) get_job"
  by (rule safe_weaken[OF safe_get_job]) (rule grows_grows2)

lemma art_relative_to: "safe (grows2 P) (relative_to os p b)"
  unfolding relative_to_def
  by (simp add: safe_return[OF grows2_refl] safe_raise[OF grows2_refl])

lemma art_set_path: "safe (grows2 P) (modify_job (\<lambda>j. j\<lparr>artifact_path := Some tp\<rparr>))"
  unfolding safe_def
proof (intro allI conjI)
  fix s :: "'a st"
  show "grows2 P s (state_of (modify_job (\<lambda>j. j\<lparr>artifact_path := Some tp\<rparr>) s))"
    by (rule grows2I[where es="[]" and lg="[]" and ap="Some tp"])
       (simp_all add: modify_job_def)
  fix s' show "modify_job (\<lambda>j. j\<lparr>artifact_path := Some tp\<rparr>) s \<noteq> Hang s'"
    by (simp add: modify_job_def)
qed

lemma add_to_tar_safe: "safe (grows2 art_entry) (add_to_tar os tp p)"
  unfolding add_to_tar_def
  by (intro art_step art_relative_to art_act art_log_line) (simp add: art_call_def)

lemma tar_loop_safe: "safe (grows2 art_entry) (foreach pkgs (add_to_tar os tp))"
  by (rule safe_foreach[where R="grows2 art_entry"])
     (auto intro: grows2_refl add_to_tar_safe elim: grows2_trans)

lemma with_tar_safe:
  fixes os :: "'w os"
  assumes "safe (grows2 art_entry) body"
  shows "safe (grows2 art_entry) (with_tar os tp body)"
  unfolding with_tar_def
proof (rule art_step)
  show "safe (grows2 art_entry) (act os (Tar_open tp))"
    by (rule art_act) (simp add: art_call_def)
  have cl: "safe (grows2 art_entry) (act os (Tar_close tp))"
    by (rule art_act) (simp add: art_call_def)
  have ab: "safe (grows2 art_entry) (and_then (act os (Tar_abort tp)) (\<lambda>_. (raise e :: (unit, 'w st) m)))" for e
    by (intro art_step art_act safe_raise[OF grows2_refl]) (simp add: art_call_def)
  show "safe (grows2 art_entry)
      (\<lambda>s. case body s of Ret x s' \<Rightarrow> act os (Tar_close tp) s'
          | Exc e s' \<Rightarrow> and_then (act os (Tar_abort tp)) (\<lambda>_. (raise e :: (unit, 'w st) m)) s' | Hang s' \<Rightarrow> Hang s')" for a :: unit
    unfolding safe_def
  proof (intro allI conjI)
    fix s :: "'w st"
    have b: "grows2 art_entry s (state_of (body s))" and nh: "body s \<noteq> Hang s'" for s'
      using assms by (simp_all add: safe_def)
    show "grows2 art_entry s (state_of (case body s of Ret x s' \<Rightarrow> act os (Tar_close tp) s'
          | Exc e s' \<Rightarrow> and_then (act os (Tar_abort tp)) (\<lambda>_. (raise e :: (unit, 'w st) m)) s' | Hang s' \<Rightarrow> Hang s'))"
    proof (cases "body s")
      case (Ret x s1)
      have "grows2 art_entry s1 (state_of (act os (Tar_close tp) s1))" using cl by (simp add: safe_def)
      with b Ret show ?thesis by (auto intro: grows2_trans)
    next
      case (Exc e s1)
      have "grows2 art_entry s1 (state_of (and_then (act os (Tar_abort tp)) (\<lambda>_. (raise e :: (unit, 'w st) m)) s1))"
        using ab[of e] by (simp add: safe_def)
      with b Exc show ?thesis by (auto intro: grows2_trans)
    next
      case (Hang s1)
      with nh[of s1] show ?thesis by simp
    qed
    fix s'
    show "(case body s of Ret x s' \<Rightarrow> act os (Tar_close tp) s'
          | Exc e s' \<Rightarrow> and_then (act os (Tar_abort tp)) (\<lambda>_. (raise e :: (unit, 'w st) m)) s' | Hang s' \<Rightarrow> Hang s') \<noteq> Hang s'"
    proof (cases "body s")
      case (Ret x s1)
      then show ?thesis using cl by (simp add: safe_def)
    next
      case (Exc e s1)
      then show ?thesis using ab[of e] by (simp add: safe_def)
    next
      case (Hang s1)
      with nh[of s1] show ?thesis by simp
    qed
  qed
qed

lemma add_to_tar_Ret:
  assumes "add_to_tar os tp p s = Ret x s'"
  shows "under_binpkg p \<and> (\<exists>lg. job s' = (job s)\<lparr>log_buf := log_buf (job s) @ lg\<rparr>) \<and>
         trace s' = trace s @ [Os (Tar_add tp p (arcname_of p)) (Returned V_unit)]"
  using assms
  by (auto simp: add_to_tar_def binpkg_dir_def[symmetric] relative_to_def and_then_def return_def
      raise_def act_def os_call_def log_line_def modify_job_def append_log_def under_binpkg_def
      arcname_of_def split: if_splits prod.splits sum.splits)

lemma tar_loop_Ret:
  "foreach pkgs (add_to_tar os tp) s = Ret x s' \<Longrightarrow>
     list_all under_binpkg pkgs \<and> (\<exists>lg. job s' = (job s)\<lparr>log_buf := log_buf (job s) @ lg\<rparr>) \<and>
     trace s' = trace s @ map (\<lambda>p. Os (Tar_add tp p (arcname_of p)) (Returned V_unit)) pkgs"
proof (induction pkgs arbitrary: s)
  case Nil
  then have "s' = s" by (simp add: return_def)
  moreover have "\<exists>lg. job s = (job s)\<lparr>log_buf := log_buf (job s) @ lg\<rparr>"
    by (rule exI[of _ "[]"]) simp
  ultimately show ?case by simp
next
  case (Cons p ps)
  from Cons.prems obtain y s1 where 1: "add_to_tar os tp p s = Ret y s1"
    and 2: "foreach ps (add_to_tar os tp) s1 = Ret x s'"
    by (auto simp: and_then_def split: res.splits)
  from add_to_tar_Ret[OF 1] obtain lg1 where a: "under_binpkg p" "job s1 = (job s)\<lparr>log_buf := log_buf (job s) @ lg1\<rparr>"
    "trace s1 = trace s @ [Os (Tar_add tp p (arcname_of p)) (Returned V_unit)]" by blast
  from Cons.IH[OF 2] obtain lg2 where b: "list_all under_binpkg ps" "job s' = (job s1)\<lparr>log_buf := log_buf (job s1) @ lg2\<rparr>"
    "trace s' = trace s1 @ map (\<lambda>p. Os (Tar_add tp p (arcname_of p)) (Returned V_unit)) ps" by blast
  have "job s' = (job s)\<lparr>log_buf := log_buf (job s) @ (lg1 @ lg2)\<rparr>"
    by (simp add: a(2) b(2))
  then have j: "\<exists>lg. job s' = (job s)\<lparr>log_buf := log_buf (job s) @ lg\<rparr>" ..
  have u: "list_all under_binpkg (p # ps)" using a(1) b(1) by simp
  have t: "trace s' = trace s @ map (\<lambda>p. Os (Tar_add tp p (arcname_of p)) (Returned V_unit)) (p # ps)"
    by (simp add: a(3) b(3))
  from u j t show ?case by blast
qed

lemma act_Ret:
  "act os c s = Ret x s' \<Longrightarrow> job s' = job s \<and> trace s' = trace s @ [Os c (Returned V_unit)]"
  by (auto simp: act_def os_call_def split: prod.splits sum.splits)

lemma log_line_Ret:
  "log_line t s = Ret x s' \<Longrightarrow> job s' = (job s)\<lparr>log_buf := log_buf (job s) @ t\<rparr> \<and> trace s' = trace s"
  by (auto simp: log_line_def modify_job_def append_log_def)

lemma with_tar_Ret:
  assumes "with_tar os tp body s = Ret x s'"
  obtains s1 y s2 where "act os (Tar_open tp) s = Ret () s1" "body s1 = Ret y s2"
    "act os (Tar_close tp) s2 = Ret () s'"
proof -
  from assms obtain u s1 where 1: "act os (Tar_open tp) s = Ret u s1"
    and 2: "(case body s1 of Ret x s' \<Rightarrow> act os (Tar_close tp) s'
          | Exc e s' \<Rightarrow> and_then (act os (Tar_abort tp)) (\<lambda>_. raise e) s' | Hang s' \<Rightarrow> Hang s') = Ret x s'"
    unfolding with_tar_def by (rule and_then_RetE)
  show ?thesis
  proof (cases "body s1")
    case (Ret y s2)
    with 1 2 that show ?thesis by simp
  next
    case (Exc e s2)
    with 2 have "and_then (act os (Tar_abort tp)) (\<lambda>_. raise e) s2 = Ret x s'" by simp
    then show ?thesis by (auto simp: and_then_def raise_def split: res.splits)
  next
    case (Hang s2)
    with 2 show ?thesis by simp
  qed
qed

lemma create_artifact_Ret:
  assumes "create_artifact os pkgs s = Ret x s'"
  shows "list_all under_binpkg pkgs \<and>
     (\<exists>lg. job s' = (job s)\<lparr>log_buf := log_buf (job s) @ lg, artifact_path := Some (tar_path (job s))\<rparr>) \<and>
     (\<exists>sz. trace s' = trace s @ artifact_entries (tar_path (job s)) pkgs sz)"
proof -
  let ?tp = "tar_path (job s)"
  from assms obtain u1 s1 where 1: "act os (Mkdir_parents artifact_dir) s = Ret u1 s1"
    and r1: "and_then get_job (\<lambda>j.
     let tar_file = joinpath artifact_dir (build_id j @ ''.tar'') in
     and_then (log_line (nl @ ''=== Creating artifact tarball ==='' @ nl)) (\<lambda>_.
     and_then (with_tar os tar_file (foreach pkgs (add_to_tar os tar_file))) (\<lambda>_.
     and_then (modify_job (\<lambda>j. j\<lparr>artifact_path := Some tar_file\<rparr>)) (\<lambda>_.
     and_then (os_call (os_nat os (Stat_size tar_file)) (Stat_size tar_file) V_nat) (\<lambda>size.
     log_line (''Artifact created: '' @ str_path tar_file @ '' ('' @ str_nat size @ '' bytes)'' @ nl)))))) s1
      = Ret x s'"
    unfolding create_artifact_def by (rule and_then_RetE)
  from act_Ret[OF 1] have s1: "job s1 = job s" "trace s1 = trace s @ [Os (Mkdir_parents artifact_dir) (Returned V_unit)]"
    by simp_all
  have tp: "joinpath artifact_dir (build_id (job s1) @ ''.tar'') = ?tp"
    by (simp add: tar_path_def s1)
  from r1 have r2: "and_then (log_line (nl @ ''=== Creating artifact tarball ==='' @ nl)) (\<lambda>_.
     and_then (with_tar os ?tp (foreach pkgs (add_to_tar os ?tp))) (\<lambda>_.
     and_then (modify_job (\<lambda>j. j\<lparr>artifact_path := Some ?tp\<rparr>)) (\<lambda>_.
     and_then (os_call (os_nat os (Stat_size ?tp)) (Stat_size ?tp) V_nat) (\<lambda>size.
     log_line (''Artifact created: '' @ str_path ?tp @ '' ('' @ str_nat size @ '' bytes)'' @ nl))))) s1
      = Ret x s'"
    by (simp add: and_then_def get_job_def Let_def tp)
  from r2 obtain u2 s2 where 2: "log_line (nl @ ''=== Creating artifact tarball ==='' @ nl) s1 = Ret u2 s2"
    and r3: "and_then (with_tar os ?tp (foreach pkgs (add_to_tar os ?tp))) (\<lambda>_.
     and_then (modify_job (\<lambda>j. j\<lparr>artifact_path := Some ?tp\<rparr>)) (\<lambda>_.
     and_then (os_call (os_nat os (Stat_size ?tp)) (Stat_size ?tp) V_nat) (\<lambda>size.
     log_line (''Artifact created: '' @ str_path ?tp @ '' ('' @ str_nat size @ '' bytes)'' @ nl)))) s2
      = Ret x s'"
    by (rule and_then_RetE)
  define lg2 where "lg2 = nl @ ''=== Creating artifact tarball ==='' @ nl"
  from log_line_Ret[OF 2] s1 have s2: "job s2 = (job s)\<lparr>log_buf := log_buf (job s) @ lg2\<rparr>"
    "trace s2 = trace s @ [Os (Mkdir_parents artifact_dir) (Returned V_unit)]"
    by (simp_all add: lg2_def)
  from r3 obtain u3 s3 where 3: "with_tar os ?tp (foreach pkgs (add_to_tar os ?tp)) s2 = Ret u3 s3"
    and r4: "and_then (modify_job (\<lambda>j. j\<lparr>artifact_path := Some ?tp\<rparr>)) (\<lambda>_.
     and_then (os_call (os_nat os (Stat_size ?tp)) (Stat_size ?tp) V_nat) (\<lambda>size.
     log_line (''Artifact created: '' @ str_path ?tp @ '' ('' @ str_nat size @ '' bytes)'' @ nl))) s3
      = Ret x s'"
    by (rule and_then_RetE)
  from 3 obtain sa y sb where a: "act os (Tar_open ?tp) s2 = Ret () sa"
    and b: "foreach pkgs (add_to_tar os ?tp) sa = Ret y sb"
    and c: "act os (Tar_close ?tp) sb = Ret () s3" by (rule with_tar_Ret)
  from act_Ret[OF a] s2 have sa: "job sa = (job s)\<lparr>log_buf := log_buf (job s) @ lg2\<rparr>"
    "trace sa = trace s @ [Os (Mkdir_parents artifact_dir) (Returned V_unit), Os (Tar_open ?tp) (Returned V_unit)]"
    by simp_all
  from tar_loop_Ret[OF b] obtain lgx where sbx: "list_all under_binpkg pkgs"
    "job sb = (job sa)\<lparr>log_buf := log_buf (job sa) @ lgx\<rparr>"
    "trace sb = trace sa @ map (\<lambda>p. Os (Tar_add ?tp p (arcname_of p)) (Returned V_unit)) pkgs"
    by blast
  define lgb where "lgb = lg2 @ lgx"
  have sb: "list_all under_binpkg pkgs"
    "job sb = (job s)\<lparr>log_buf := log_buf (job s) @ lgb\<rparr>"
    "trace sb = trace s @ [Os (Mkdir_parents artifact_dir) (Returned V_unit), Os (Tar_open ?tp) (Returned V_unit)]
       @ map (\<lambda>p. Os (Tar_add ?tp p (arcname_of p)) (Returned V_unit)) pkgs"
    by (simp_all add: sbx sa lgb_def)
  from act_Ret[OF c] sb have s3: "job s3 = (job s)\<lparr>log_buf := log_buf (job s) @ lgb\<rparr>"
    "trace s3 = trace s @ [Os (Mkdir_parents artifact_dir) (Returned V_unit), Os (Tar_open ?tp) (Returned V_unit)]
       @ map (\<lambda>p. Os (Tar_add ?tp p (arcname_of p)) (Returned V_unit)) pkgs @ [Os (Tar_close ?tp) (Returned V_unit)]"
    by simp_all
  let ?s4 = "s3\<lparr>job := (job s3)\<lparr>artifact_path := Some ?tp\<rparr>\<rparr>"
  from r4 have r5: "and_then (os_call (os_nat os (Stat_size ?tp)) (Stat_size ?tp) V_nat) (\<lambda>size.
     log_line (''Artifact created: '' @ str_path ?tp @ '' ('' @ str_nat size @ '' bytes)'' @ nl)) ?s4
      = Ret x s'"
    by (simp add: and_then_def modify_job_def)
  from r5 obtain sz s5 where 5: "os_call (os_nat os (Stat_size ?tp)) (Stat_size ?tp) V_nat ?s4 = Ret sz s5"
    and 6: "log_line (''Artifact created: '' @ str_path ?tp @ '' ('' @ str_nat sz @ '' bytes)'' @ nl) s5 = Ret x s'"
    by (rule and_then_RetE)
  from 5 have s5: "job s5 = job ?s4" "trace s5 = trace ?s4 @ [Os (Stat_size ?tp) (Returned (V_nat sz))]"
    by (auto simp: os_call_def split: prod.splits sum.splits)
  from log_line_Ret[OF 6] have
    j: "job s' = (job s)\<lparr>log_buf := log_buf (job s) @ (lgb @ ''Artifact created: '' @ str_path ?tp @ '' ('' @ str_nat sz @ '' bytes)'' @ nl),
         artifact_path := Some ?tp\<rparr>"
    and t: "trace s' = trace s @ artifact_entries ?tp pkgs sz"
    by (simp_all add: artifact_entries_def s5 s3)
  from j have "\<exists>lg. job s' = (job s)\<lparr>log_buf := log_buf (job s) @ lg, artifact_path := Some ?tp\<rparr>" ..
  moreover from t have "\<exists>sz. trace s' = trace s @ artifact_entries ?tp pkgs sz" ..
  ultimately show ?thesis using sb(1) by blast
qed

lemma create_artifact_safe: "safe (grows2 art_entry) (create_artifact os pkgs)"
  unfolding create_artifact_def Let_def
  by (intro art_step art_act art_get_job art_log_line with_tar_safe tar_loop_safe art_set_path
      art_os_call) (simp_all add: art_call_def)

lemma create_artifact_Hang: "create_artifact os pkgs s \<noteq> Hang s'"
  using create_artifact_safe[of os pkgs] by (simp add: safe_def)

lemma create_artifact_first:
  "\<exists>r es. trace (state_of (create_artifact os pkgs s)) = trace s @ Os (Mkdir_parents artifact_dir) r # es \<and>
     list_all art_entry es"
proof -
  let ?rest = "\<lambda>u::unit. and_then get_job (\<lambda>j.
     let tar_file = joinpath artifact_dir (build_id j @ ''.tar'') in
     and_then (log_line (nl @ ''=== Creating artifact tarball ==='' @ nl)) (\<lambda>_.
     and_then (with_tar os tar_file (foreach pkgs (add_to_tar os tar_file))) (\<lambda>_.
     and_then (modify_job (\<lambda>j. j\<lparr>artifact_path := Some tar_file\<rparr>)) (\<lambda>_.
     and_then (os_call (os_nat os (Stat_size tar_file)) (Stat_size tar_file) V_nat) (\<lambda>size.
     log_line (''Artifact created: '' @ str_path tar_file @ '' ('' @ str_nat size @ '' bytes)'' @ nl))))))"
  have rest: "safe (grows2 art_entry) (?rest ())"
    unfolding Let_def
    by (intro art_step art_act art_get_job art_log_line with_tar_safe tar_loop_safe art_set_path
      art_os_call) (simp_all add: art_call_def)
  have eq: "create_artifact os pkgs = and_then (act os (Mkdir_parents artifact_dir)) ?rest"
    by (simp add: create_artifact_def)
  obtain r w where fw: "os_unit os (Mkdir_parents artifact_dir) (world s) = (r, w)"
    by (cases "os_unit os (Mkdir_parents artifact_dir) (world s)")
  show ?thesis
  proof (cases r)
    case (Inl e)
    then show ?thesis unfolding eq
      by (intro exI[of _ "Raised e"] exI[of _ "[]"]) (simp add: and_then_def act_def os_call_def fw)
  next
    case (Inr u)
    let ?s1 = "s\<lparr>world := w, trace := trace s @ [Os (Mkdir_parents artifact_dir) (Returned V_unit)]\<rparr>"
    have 1: "act os (Mkdir_parents artifact_dir) s = Ret () ?s1"
      by (simp add: act_def os_call_def fw Inr)
    from rest have "grows2 art_entry ?s1 (state_of (?rest () ?s1))" by (simp add: safe_def)
    then obtain es where "trace (state_of (?rest () ?s1)) = trace ?s1 @ es" "list_all art_entry es"
      unfolding grows2_def by blast
    then show ?thesis unfolding eq
      by (intro exI[of _ "Returned V_unit"] exI[of _ es]) (simp add: and_then_def 1)
  qed
qed

lemma create_artifact_job:
  "\<exists>lg ap. job (state_of (create_artifact os pkgs s)) = (job s)\<lparr>log_buf := log_buf (job s) @ lg, artifact_path := ap\<rparr>"
  using create_artifact_safe[of os pkgs] unfolding safe_def grows2_def by blast

lemma and_then_Ret: "m s = Ret a s1 \<Longrightarrow> and_then m f s = f a s1"
  by (simp add: and_then_def)

lemma and_then_Exc: "m s = Exc e s1 \<Longrightarrow> and_then m f s = Exc e s1"
  by (simp add: and_then_def)

lemma and_then_Hang: "m s = Hang s1 \<Longrightarrow> and_then m f s = Hang s1"
  by (simp add: and_then_def)

lemma snapshot_Ret_snap:
  assumes "snapshot os s = Ret ps s'"
  shows "\<exists>a. ps = snap_paths a \<and> job s' = job s \<and> trace s' = trace s @ snap_entries a"
proof -
  from snapshot_Ret[OF assms] have j: "job s' = job s" and
    d: "(ps = [] \<and> trace s' = trace s @ [Os (Exists binpkg_dir) (Returned (V_bool False))]) \<or>
      (\<exists>found. ps = remdups found \<and> trace s' = trace s @ [Os (Exists binpkg_dir) (Returned (V_bool True)),
          Os (Rglob binpkg_dir ''*.gpkg.tar'') (Returned (V_paths found))])"
    by simp_all
  from d show ?thesis
  proof
    assume "ps = [] \<and> trace s' = trace s @ [Os (Exists binpkg_dir) (Returned (V_bool False))]"
    then show ?thesis using j
      by (intro exI[of _ No_dir]) (simp add: snap_paths_def snap_entries_def)
  next
    assume "\<exists>found. ps = remdups found \<and> trace s' = trace s @ [Os (Exists binpkg_dir) (Returned (V_bool True)),
          Os (Rglob binpkg_dir ''*.gpkg.tar'') (Returned (V_paths found))]"
    then obtain found where "ps = remdups found" "trace s' = trace s @ [Os (Exists binpkg_dir) (Returned (V_bool True)),
          Os (Rglob binpkg_dir ''*.gpkg.tar'') (Returned (V_paths found))]" by blast
    then show ?thesis using j
      by (intro exI[of _ "Found found"]) (simp add: snap_paths_def snap_entries_def)
  qed
qed

lemma snapshot_Exc_snap:
  assumes "snapshot os s = Exc e s'"
  shows "\<exists>sf. job s' = job s \<and> trace s' = trace s @ snap_fail_entries e sf"
proof -
  from snapshot_Exc[OF assms] have j: "job s' = job s" and
    d: "trace s' = trace s @ [Os (Exists binpkg_dir) (Raised e)] \<or>
      trace s' = trace s @ [Os (Exists binpkg_dir) (Returned (V_bool True)),
          Os (Rglob binpkg_dir ''*.gpkg.tar'') (Raised e)]"
    by simp_all
  from d show ?thesis
  proof
    assume "trace s' = trace s @ [Os (Exists binpkg_dir) (Raised e)]"
    then show ?thesis using j
      by (intro exI[of _ Exists_failed]) (simp add: snap_fail_entries_def)
  next
    assume "trace s' = trace s @ [Os (Exists binpkg_dir) (Returned (V_bool True)),
          Os (Rglob binpkg_dir ''*.gpkg.tar'') (Raised e)]"
    then show ?thesis using j
      by (intro exI[of _ Rglob_failed]) (simp add: snap_fail_entries_def)
  qed
qed

lemma check_skip_sync_Ret_marker:
  assumes "check_skip_sync os s = Ret b s'"
  shows "\<exists>mk. b = fresh mk \<and> trace s' = trace s @ marker_entries mk \<and>
     job s' = (if b then append_log (skip_message os (age mk)) (job s) else job s)"
proof -
  from check_skip_sync_Ret[OF assms] show ?thesis
  proof
    assume "\<not> b \<and> job s' = job s \<and>
           trace s' = trace s @ [Os (Exists timestamp_file) (Returned (V_bool False))]"
    then show ?thesis
      by (intro exI[of _ Absent]) (simp add: fresh_def marker_entries_def)
  next
    assume "\<exists>t m. b = (t - m < 604800) \<and>
           job s' = (if b then append_log (skip_message os (t - m)) (job s) else job s) \<and>
           trace s' = trace s @ [Os (Exists timestamp_file) (Returned (V_bool True)),
             Os Now (Returned (V_real t)), Os (Stat_mtime timestamp_file) (Returned (V_real m))]"
    then obtain t m where "b = (t - m < 604800)"
           "job s' = (if b then append_log (skip_message os (t - m)) (job s) else job s)"
           "trace s' = trace s @ [Os (Exists timestamp_file) (Returned (V_bool True)),
             Os Now (Returned (V_real t)), Os (Stat_mtime timestamp_file) (Returned (V_real m))]"
      by blast
    then show ?thesis
      by (intro exI[of _ "Present t m"]) (simp add: fresh_def marker_entries_def age_def)
  qed
qed

lemma check_skip_sync_Exc_marker:
  assumes "check_skip_sync os s = Exc e s'"
  shows "\<exists>mf. job s' = job s \<and> trace s' = trace s @ marker_fail_entries e mf"
proof -
  from check_skip_sync_Exc[OF assms] have j: "job s' = job s" and
    d: "trace s' = trace s @ [Os (Exists timestamp_file) (Raised e)] \<or>
     (\<exists>t. trace s' = trace s @ [Os (Exists timestamp_file) (Returned (V_bool True)),
             Os Now (Returned (V_real t)), Os (Stat_mtime timestamp_file) (Raised e)])"
    by simp_all
  from d show ?thesis
  proof
    assume "trace s' = trace s @ [Os (Exists timestamp_file) (Raised e)]"
    then show ?thesis using j
      by (intro exI[of _ Probe_failed]) (simp add: marker_fail_entries_def)
  next
    assume "\<exists>t. trace s' = trace s @ [Os (Exists timestamp_file) (Returned (V_bool True)),
             Os Now (Returned (V_real t)), Os (Stat_mtime timestamp_file) (Raised e)]"
    then obtain t where "trace s' = trace s @ [Os (Exists timestamp_file) (Returned (V_bool True)),
             Os Now (Returned (V_real t)), Os (Stat_mtime timestamp_file) (Raised e)]" ..
    then show ?thesis using j
      by (intro exI[of _ "Stat_failed t"]) (simp add: marker_fail_entries_def)
  qed
qed

lemma start_build_result:
  "\<exists>t0 s1. start_build os s = Ret () s1 \<and> job s1 = running (job s) t0 (header_text os (job s) t0) \<and>
      trace s1 = trace s @ [Status BUILDING, Os Now (Returned (V_real t0))]"
proof -
  obtain t0 w where now: "os_now os (world s) = (t0, w)" by (cases "os_now os (world s)")
  let ?s1 = "s\<lparr>job := running (job s) t0 (header_text os (job s) t0), world := w,
    trace := trace s @ [Status BUILDING, Os Now (Returned (V_real t0))]\<rparr>"
  have "start_build os s = Ret () ?s1"
    by (simp add: start_build_def and_then_def set_status_def datetime_now_def now modify_job_def
        log_line_def get_job_def append_log_def running_def header_text_def)
  then show ?thesis by (intro exI[of _ t0] exI[of _ ?s1]) simp
qed

lemma sync_tree_cases [case_names Marker_failed Sync_failed Sync_hung Refreshed]:
  obtains
    (Marker_failed) e mf s1 where "sync_tree os s = Exc e s1" "job s1 = job s"
      "trace s1 = trace s @ marker_fail_entries e mf"
  | (Sync_failed) e mk ext exty s1 where "\<not> fresh mk" "sync_tree os s = Exc e s1"
      "job s1 = (job s)\<lparr>log_buf := log_buf (job s) @ ext\<rparr>"
      "trace s1 = trace s @ marker_entries mk @
         [Yield ((job s)\<lparr>log_buf := log_buf (job s) @ exty\<rparr>),
          Os (Spawn sync_cmd subprocess_env) (Raised e)]"
  | (Sync_hung) mk ext exty s1 where "\<not> fresh mk" "sync_tree os s = Hang s1"
      "job s1 = (job s)\<lparr>log_buf := log_buf (job s) @ ext\<rparr>"
      "trace s1 = trace s @ marker_entries mk @
         [Yield ((job s)\<lparr>log_buf := log_buf (job s) @ exty\<rparr>),
          Os (Spawn sync_cmd subprocess_env) (Returned V_unit)]"
  | (Refreshed) mk ext exty rc s1 where "sync_tree os s = Ret () s1"
      "job s1 = (job s)\<lparr>log_buf := log_buf (job s) @ ext\<rparr>"
      "trace s1 = trace s @ refresh_entries mk ((job s)\<lparr>log_buf := log_buf (job s) @ exty\<rparr>) rc"
      "fresh mk \<Longrightarrow> ext = skip_message os (age mk)"
proof (cases "check_skip_sync os s")
  case (Ret b s1)
  from check_skip_sync_Ret_marker[OF Ret] obtain mk where mk: "b = fresh mk"
    "trace s1 = trace s @ marker_entries mk"
    "job s1 = (if b then append_log (skip_message os (age mk)) (job s) else job s)" by blast
  show ?thesis
  proof (cases b)
    case True
    have "sync_tree os s = Ret () s1"
      by (simp add: sync_tree_def and_then_def Ret True do_when_def return_def)
    moreover have "job s1 = (job s)\<lparr>log_buf := log_buf (job s) @ skip_message os (age mk)\<rparr>"
      using mk True by (simp add: append_log_def)
    moreover have "trace s1 = trace s @ refresh_entries mk ((job s)\<lparr>log_buf := log_buf (job s) @ []\<rparr>) 0"
      using mk True by (simp add: refresh_entries_def)
    ultimately show ?thesis by (rule Refreshed) simp
  next
    case False
    define sync_note where "sync_note = ''=== Syncing portage tree ==='' @ nl"
    let ?s2 = "s1\<lparr>job := append_log sync_note (job s1)\<rparr>"
    have j1: "job s1 = job s" and nf: "\<not> fresh mk" using mk False by simp_all
    have unf: "sync_tree os s = and_then (run_command os sync_cmd) (\<lambda>_. return ()) ?s2"
      by (simp add: sync_tree_def and_then_def Ret False do_when_def sync_note_def
          log_line_def modify_job_def)
    let ?jy = "(job s)\<lparr>log_buf := log_buf (job s) @ (sync_note @ cmdline sync_cmd)\<rparr>"
    have jy: "append_log (cmdline sync_cmd) (job ?s2) = ?jy"
      by (simp add: append_log_def j1)
    show ?thesis
    proof (cases "run_command os sync_cmd ?s2")
      case (Ret rc s3)
      from run_command_Ret[OF Ret] obtain lg where
        "job s3 = (job ?s2)\<lparr>log_buf := log_buf (job ?s2) @ lg\<rparr>"
        "trace s3 = trace ?s2 @ [Yield (append_log (cmdline sync_cmd) (job ?s2)),
           Os (Spawn sync_cmd subprocess_env) (Returned V_unit), Os (Wait sync_cmd) (Returned (V_int rc))]"
        by blast
      then have a: "job s3 = (job s)\<lparr>log_buf := log_buf (job s) @ (sync_note @ lg)\<rparr>"
        and b: "trace s3 = trace s @ refresh_entries mk ?jy rc"
        unfolding jy by (simp_all add: append_log_def j1 mk(2) refresh_entries_def nf command_entries_def)
      have "sync_tree os s = Ret () s3"
        unfolding unf by (simp add: and_then_def Ret return_def)
      then show ?thesis using a b by (rule Refreshed) (simp add: nf)
    next
      case (Exc e s3)
      from run_command_Exc[OF Exc] obtain lg where
        "job s3 = (job ?s2)\<lparr>log_buf := log_buf (job ?s2) @ lg\<rparr>"
        "trace s3 = trace ?s2 @ [Yield (append_log (cmdline sync_cmd) (job ?s2)),
           Os (Spawn sync_cmd subprocess_env) (Raised e)]"
        by blast
      then have a: "job s3 = (job s)\<lparr>log_buf := log_buf (job s) @ (sync_note @ lg)\<rparr>"
        and b: "trace s3 = trace s @ marker_entries mk @ [Yield ?jy, Os (Spawn sync_cmd subprocess_env) (Raised e)]"
        unfolding jy by (simp_all add: append_log_def j1 mk(2))
      have "sync_tree os s = Exc e s3"
        unfolding unf by (simp add: and_then_def Exc)
      with nf show ?thesis using a b by (rule Sync_failed)
    next
      case (Hang s3)
      from run_command_Hang[OF Hang] obtain lg where
        "job s3 = (job ?s2)\<lparr>log_buf := log_buf (job ?s2) @ lg\<rparr>"
        "trace s3 = trace ?s2 @ [Yield (append_log (cmdline sync_cmd) (job ?s2)),
           Os (Spawn sync_cmd subprocess_env) (Returned V_unit)]"
        by blast
      then have a: "job s3 = (job s)\<lparr>log_buf := log_buf (job s) @ (sync_note @ lg)\<rparr>"
        and b: "trace s3 = trace s @ marker_entries mk @ [Yield ?jy, Os (Spawn sync_cmd subprocess_env) (Returned V_unit)]"
        unfolding jy by (simp_all add: append_log_def j1 mk(2))
      have "sync_tree os s = Hang s3"
        unfolding unf by (simp add: and_then_def Hang)
      with nf show ?thesis using a b by (rule Sync_hung)
    qed
  qed
next
  case (Exc e s1)
  from check_skip_sync_Exc_marker[OF Exc] obtain mf where m: "job s1 = job s"
    "trace s1 = trace s @ marker_fail_entries e mf" by blast
  have "sync_tree os s = Exc e s1"
    by (simp add: sync_tree_def and_then_def Exc)
  then show ?thesis using m by (rule Marker_failed)
next
  case (Hang s1)
  then show ?thesis by (simp add: check_skip_sync_Hang)
qed

lemma and_then_ExcE [consumes 1, case_names head tail]:
  assumes "and_then m f s = Exc e s'"
  obtains (head) "m s = Exc e s'" | (tail) a s1 where "m s = Ret a s1" "f a s1 = Exc e s'"
  using assms by (cases "m s") (simp_all add: and_then_def)

lemma and_then_HangE [consumes 1, case_names head tail]:
  assumes "and_then m f s = Hang s'"
  obtains (head) "m s = Hang s'" | (tail) a s1 where "m s = Ret a s1" "f a s1 = Hang s'"
  using assms by (cases "m s") (simp_all add: and_then_def)

lemma log_line_total: "log_line t s \<noteq> Exc e s'" "log_line t s \<noteq> Hang s'"
  by (simp_all add: log_line_def modify_job_def)

lemma modify_job_Ret: "modify_job g s = Ret x s' \<Longrightarrow> job s' = g (job s) \<and> trace s' = trace s"
  by (auto simp: modify_job_def)

lemma modify_job_total: "modify_job g s \<noteq> Exc e s'" "modify_job g s \<noteq> Hang s'"
  by (simp_all add: modify_job_def)

lemma set_status_Ret:
  "set_status v s = Ret x s' \<Longrightarrow> job s' = (job s)\<lparr>status := v\<rparr> \<and> trace s' = trace s @ [Status v]"
  by (auto simp: set_status_def)

lemma set_status_total: "set_status v s \<noteq> Exc e s'" "set_status v s \<noteq> Hang s'"
  by (simp_all add: set_status_def)

lemma datetime_now_Ret:
  "datetime_now os s = Ret t s' \<Longrightarrow> job s' = job s \<and> trace s' = trace s @ [Os Now (Returned (V_real t))]"
  by (auto simp: datetime_now_def split: prod.splits)

lemma datetime_now_total: "datetime_now os s \<noteq> Exc e s'" "datetime_now os s \<noteq> Hang s'"
  by (simp_all add: datetime_now_def split: prod.splits)

lemma get_job_Ret: "get_job s = Ret j s' \<Longrightarrow> j = job s \<and> s' = s"
  by (auto simp: get_job_def)

lemma get_job_total: "get_job s \<noteq> Exc e s'" "get_job s \<noteq> Hang s'"
  by (simp_all add: get_job_def)

lemma log_lines_Ret:
  assumes "foreach xs (\<lambda>x. log_line (f x)) s = Ret u s'"
  shows "trace s' = trace s \<and> (\<exists>ext. job s' = (job s)\<lparr>log_buf := log_buf (job s) @ ext\<rparr>)"
proof -
  from log_lines_only[of xs f s] obtain lg where
    "foreach xs (\<lambda>x. log_line (f x)) s = Ret () (s\<lparr>job := (job s)\<lparr>log_buf := log_buf (job s) @ lg\<rparr>\<rparr>)" ..
  with assms have "s' = s\<lparr>job := (job s)\<lparr>log_buf := log_buf (job s) @ lg\<rparr>\<rparr>" by simp
  then have "trace s' = trace s" "job s' = (job s)\<lparr>log_buf := log_buf (job s) @ lg\<rparr>" by simp_all
  then show ?thesis by blast
qed

lemma log_lines_total:
  "foreach xs (\<lambda>x. log_line (f x)) s \<noteq> Exc e s'" "foreach xs (\<lambda>x. log_line (f x)) s \<noteq> Hang s'"
  using log_lines_only[of xs f s] by auto

lemma finish_build_Ret:
  assumes "finish_build os s = Ret x s'"
  shows "\<exists>t ext. job s' = (job s)\<lparr>status := COMPLETE, log_buf := log_buf (job s) @ ext\<rparr> \<and>
           trace s' = trace s @ [Status COMPLETE, Os Now (Returned (V_real t))]"
proof -
  from assms obtain u s1 where 1: "set_status COMPLETE s = Ret u s1"
    and r: "and_then (datetime_now os) (\<lambda>t. log_line (nl @ ''Build completed at '' @ isoformat os t @ nl)) s1 = Ret x s'"
    unfolding finish_build_def by (rule and_then_RetE)
  from r obtain t s2 where 2: "datetime_now os s1 = Ret t s2"
    and 3: "log_line (nl @ ''Build completed at '' @ isoformat os t @ nl) s2 = Ret x s'"
    by (rule and_then_RetE)
  from set_status_Ret[OF 1] datetime_now_Ret[OF 2] log_line_Ret[OF 3]
  have "job s' = (job s)\<lparr>status := COMPLETE, log_buf := log_buf (job s) @ (nl @ ''Build completed at '' @ isoformat os t @ nl)\<rparr>"
    "trace s' = trace s @ [Status COMPLETE, Os Now (Returned (V_real t))]"
    by simp_all
  then show ?thesis by blast
qed

lemma finish_build_total: "finish_build os s \<noteq> Exc e s'" "finish_build os s \<noteq> Hang s'"
  by (simp_all add: finish_build_def and_then_def set_status_def datetime_now_def log_line_def
      modify_job_def split: prod.splits)

lemma total_and_then: "total m \<Longrightarrow> (\<And>a. total (f a)) \<Longrightarrow> total (and_then m f)"
  unfolding total_def and_then_def
proof
  fix s
  assume m: "\<forall>s. \<exists>a s'. m s = Ret a s'" and f: "\<And>a. \<forall>s. \<exists>b s'. f a s = Ret b s'"
  from m obtain a s1 where 1: "m s = Ret a s1" by blast
  from f[of a] obtain b s2 where "f a s1 = Ret b s2" by blast
  with 1 show "\<exists>a s'. (case m s of Ret a s' \<Rightarrow> f a s' | Exc e s' \<Rightarrow> Exc e s' | Hang s' \<Rightarrow> Hang s') = Ret a s'"
    by simp
qed

lemma total_log_line: "total (log_line t)"
  by (simp add: total_def log_line_def modify_job_def)

lemma total_modify_job: "total (modify_job g)"
  by (simp add: total_def modify_job_def)

lemma total_log_lines: "total (foreach xs (\<lambda>x. log_line (f x)))"
  unfolding total_def using log_lines_only[of xs f] by blast

lemma total_not_Exc: "total m \<Longrightarrow> m s \<noteq> Exc e s'"
  unfolding total_def by (metis res.distinct(1))

lemma total_not_Hang: "total m \<Longrightarrow> m s \<noteq> Hang s'"
  unfolding total_def by (metis res.distinct(3))

lemma record_tail_total:
  "total (and_then (modify_job g) (\<lambda>_. and_then (log_line t) (\<lambda>_. foreach names (\<lambda>pkg. log_line (h pkg)))))"
  by (intro total_and_then total_modify_job total_log_line total_log_lines)

lemma record_outputs_Ret:
  assumes "record_outputs os new s = Ret x s'"
  shows "list_all under_binpkg new \<and> trace s' = trace s \<and>
     (\<exists>ext. job s' = (job s)\<lparr>packages_built := names_of new, log_buf := log_buf (job s) @ ext\<rparr>)"
proof -
  from assms obtain names s1 where 1: "relative_names os new s = Ret names s1"
    and r1: "and_then (modify_job (\<lambda>j. j\<lparr>packages_built := names\<rparr>)) (\<lambda>_.
     and_then (log_line (nl @ ''=== Built '' @ str_nat (length new) @ '' packages ==='' @ nl)) (\<lambda>_.
     foreach names (\<lambda>pkg. log_line (''  - '' @ pkg @ nl)))) s1 = Ret x s'"
    unfolding record_outputs_def by (rule and_then_RetE)
  from relative_names_Ret[OF 1] have n: "s1 = s" "names = names_of new" "list_all under_binpkg new"
    by (simp_all add: names_of_def)
  from r1 obtain u2 s2 where 2: "modify_job (\<lambda>j. j\<lparr>packages_built := names\<rparr>) s1 = Ret u2 s2"
    and r2: "and_then (log_line (nl @ ''=== Built '' @ str_nat (length new) @ '' packages ==='' @ nl)) (\<lambda>_.
     foreach names (\<lambda>pkg. log_line (''  - '' @ pkg @ nl))) s2 = Ret x s'"
    by (rule and_then_RetE)
  from r2 obtain u3 s3 where 3: "log_line (nl @ ''=== Built '' @ str_nat (length new) @ '' packages ==='' @ nl) s2 = Ret u3 s3"
    and 4: "foreach names (\<lambda>pkg. log_line (''  - '' @ pkg @ nl)) s3 = Ret x s'"
    by (rule and_then_RetE)
  from log_lines_Ret[OF 4] obtain ext where e: "trace s' = trace s3"
    "job s' = (job s3)\<lparr>log_buf := log_buf (job s3) @ ext\<rparr>" by blast
  from modify_job_Ret[OF 2] log_line_Ret[OF 3] e n
  have "trace s' = trace s"
    "job s' = (job s)\<lparr>packages_built := names_of new, log_buf := log_buf (job s) @
       ((nl @ ''=== Built '' @ str_nat (length new) @ '' packages ==='' @ nl) @ ext)\<rparr>"
    by simp_all
  with n(3) show ?thesis by blast
qed

lemma record_outputs_Exc:
  assumes "record_outputs os new s = Exc e s'"
  shows "s' = s"
  using assms unfolding record_outputs_def
proof (cases rule: and_then_ExcE)
  case head
  then show ?thesis by (rule relative_names_Exc)
next
  case (tail names s1)
  from tail(2) show ?thesis by (simp add: total_not_Exc[OF record_tail_total])
qed

lemma record_outputs_Hang: "record_outputs os new s \<noteq> Hang s'"
proof
  assume "record_outputs os new s = Hang s'"
  then show False unfolding record_outputs_def
  proof (cases rule: and_then_HangE)
    case head
    then show ?thesis by (simp add: relative_names_Hang)
  next
    case (tail names s1)
    from tail(2) show ?thesis by (simp add: total_not_Hang[OF record_tail_total])
  qed
qed

lemma package_outputs_Ret:
  assumes "package_outputs os before s = Ret x s'"
  obtains a sz t ext where "list_all under_binpkg (fresh_outputs before a)"
    "job s' = (job s)\<lparr>packages_built := names_of (fresh_outputs before a),
        log_buf := log_buf (job s) @ ext,
        artifact_path := (if fresh_outputs before a = [] then artifact_path (job s)
                          else Some (tar_path (job s))),
        status := COMPLETE\<rparr>"
    "trace s' = trace s @ snap_entries a @
        (if fresh_outputs before a = [] then []
         else artifact_entries (tar_path (job s)) (fresh_outputs before a) sz) @
        [Status COMPLETE, Os Now (Returned (V_real t))]"
proof -
  from assms obtain after s1 where 1: "snapshot os s = Ret after s1"
    and r1: "and_then (record_outputs os (filter (\<lambda>p. p \<notin> set before) after)) (\<lambda>_.
       and_then (do_when (filter (\<lambda>p. p \<notin> set before) after \<noteq> [])
                  (create_artifact os (filter (\<lambda>p. p \<notin> set before) after))) (\<lambda>_.
       finish_build os)) s1 = Ret x s'"
    unfolding package_outputs_def Let_def by (rule and_then_RetE)
  from snapshot_Ret_snap[OF 1] obtain a where a: "after = snap_paths a" "job s1 = job s"
    "trace s1 = trace s @ snap_entries a" by blast
  define new where "new = fresh_outputs before a"
  have f: "filter (\<lambda>p. p \<notin> set before) after = new"
    by (simp add: new_def fresh_outputs_def a)
  from r1 obtain u2 s2 where 2: "record_outputs os new s1 = Ret u2 s2"
    and r2: "and_then (do_when (new \<noteq> []) (create_artifact os new)) (\<lambda>_. finish_build os) s2 = Ret x s'"
    unfolding f by (rule and_then_RetE)
  from record_outputs_Ret[OF 2] obtain ext2 where s2: "list_all under_binpkg new" "trace s2 = trace s1"
    "job s2 = (job s1)\<lparr>packages_built := names_of new, log_buf := log_buf (job s1) @ ext2\<rparr>" by blast
  from r2 obtain u3 s3 where 3: "do_when (new \<noteq> []) (create_artifact os new) s2 = Ret u3 s3"
    and 4: "finish_build os s3 = Ret x s'" by (rule and_then_RetE)
  from finish_build_Ret[OF 4] obtain t ext4 where s4:
    "job s' = (job s3)\<lparr>status := COMPLETE, log_buf := log_buf (job s3) @ ext4\<rparr>"
    "trace s' = trace s3 @ [Status COMPLETE, Os Now (Returned (V_real t))]" by blast
  show ?thesis
  proof (cases "new = []")
    case True
    with 3 have "s3 = s2" by (simp add: do_when_def return_def)
    with s4 s2 a True have
      "job s' = (job s)\<lparr>packages_built := names_of new, log_buf := log_buf (job s) @ (ext2 @ ext4),
          artifact_path := (if new = [] then artifact_path (job s) else Some (tar_path (job s))),
          status := COMPLETE\<rparr>"
      "trace s' = trace s @ snap_entries a @
        (if new = [] then [] else artifact_entries (tar_path (job s)) new 0) @
        [Status COMPLETE, Os Now (Returned (V_real t))]"
      by simp_all
    with s2(1) show ?thesis unfolding new_def by (rule that)
  next
    case False
    with 3 have c: "create_artifact os new s2 = Ret u3 s3" by (simp add: do_when_def)
    from create_artifact_Ret[OF c] obtain ext3 sz where s3:
      "job s3 = (job s2)\<lparr>log_buf := log_buf (job s2) @ ext3, artifact_path := Some (tar_path (job s2))\<rparr>"
      "trace s3 = trace s2 @ artifact_entries (tar_path (job s2)) new sz" by blast
    have tp: "tar_path (job s2) = tar_path (job s)" by (simp add: tar_path_def s2 a)
    from s4 s3 s2 a False have
      "job s' = (job s)\<lparr>packages_built := names_of new, log_buf := log_buf (job s) @ (ext2 @ ext3 @ ext4),
          artifact_path := (if new = [] then artifact_path (job s) else Some (tar_path (job s))),
          status := COMPLETE\<rparr>"
      "trace s' = trace s @ snap_entries a @
        (if new = [] then [] else artifact_entries (tar_path (job s)) new sz) @
        [Status COMPLETE, Os Now (Returned (V_real t))]"
      unfolding tp by simp_all
    with s2(1) show ?thesis unfolding new_def by (rule that)
  qed
qed

lemma package_outputs_Exc [consumes 1, case_names After_failed Names_failed Artifact_failed]:
  assumes "package_outputs os before s = Exc e s'"
  obtains (After_failed) sf where "job s' = job s" "trace s' = trace s @ snap_fail_entries e sf"
  | (Names_failed) a where "job s' = job s" "trace s' = trace s @ snap_entries a"
  | (Artifact_failed) a r es ext ap where "fresh_outputs before a \<noteq> []"
      "job s' = (job s)\<lparr>packages_built := names_of (fresh_outputs before a),
          log_buf := log_buf (job s) @ ext, artifact_path := ap\<rparr>"
      "trace s' = trace s @ snap_entries a @ Os (Mkdir_parents artifact_dir) r # es"
      "list_all art_entry es"
  using assms unfolding package_outputs_def Let_def
proof (cases rule: and_then_ExcE)
  case head
  from snapshot_Exc_snap[OF head] show ?thesis using After_failed by blast
next
  case (tail after s1)
  from snapshot_Ret_snap[OF tail(1)] obtain a where a: "after = snap_paths a" "job s1 = job s"
    "trace s1 = trace s @ snap_entries a" by blast
  define new where "new = fresh_outputs before a"
  have f: "filter (\<lambda>p. p \<notin> set before) after = new"
    by (simp add: new_def fresh_outputs_def a)
  from tail(2) show ?thesis unfolding f
  proof (cases rule: and_then_ExcE)
    case head
    from record_outputs_Exc[OF head] a show ?thesis using Names_failed by simp
  next
    case (tail u2 s2)
    from record_outputs_Ret[OF tail(1)] obtain ext2 where s2: "trace s2 = trace s1"
      "job s2 = (job s1)\<lparr>packages_built := names_of new, log_buf := log_buf (job s1) @ ext2\<rparr>" by blast
    from tail(2) show ?thesis
    proof (cases rule: and_then_ExcE)
      case head
      show ?thesis
      proof (cases "new = []")
        case True
        with head show ?thesis by (simp add: do_when_def return_def)
      next
        case False
        with head have c: "create_artifact os new s2 = Exc e s'" by (simp add: do_when_def)
        from create_artifact_first[of os new s2] obtain r es where
          "trace s' = trace s2 @ Os (Mkdir_parents artifact_dir) r # es" "list_all art_entry es"
          unfolding c by auto
        moreover from create_artifact_job[of os new s2] obtain ext3 ap where
          "job s' = (job s2)\<lparr>log_buf := log_buf (job s2) @ ext3, artifact_path := ap\<rparr>"
          unfolding c by auto
        ultimately have
          "job s' = (job s)\<lparr>packages_built := names_of new, log_buf := log_buf (job s) @ (ext2 @ ext3),
             artifact_path := ap\<rparr>"
          "trace s' = trace s @ snap_entries a @ Os (Mkdir_parents artifact_dir) r # es"
          "list_all art_entry es"
          using s2 a by simp_all
        with False show ?thesis unfolding new_def by (rule Artifact_failed)
      qed
    next
      case (tail u3 s3)
      then show ?thesis by (simp add: finish_build_total)
    qed
  qed
qed

lemma package_outputs_Hang: "package_outputs os before s \<noteq> Hang s'"
proof
  assume "package_outputs os before s = Hang s'"
  then show False unfolding package_outputs_def Let_def
  proof (cases rule: and_then_HangE)
    case head
    then show ?thesis by (simp add: snapshot_Hang)
  next
    case (tail after s1)
    from tail(2) show ?thesis
    proof (cases rule: and_then_HangE)
      case head
      then show ?thesis by (simp add: record_outputs_Hang)
    next
      case (tail u2 s2)
      from tail(2) show ?thesis
      proof (cases rule: and_then_HangE)
        case head
        then show ?thesis
          by (cases "filter (\<lambda>p. p \<notin> set before) after = []")
             (simp_all add: do_when_def return_def create_artifact_Hang)
      next
        case (tail u3 s3)
        then show ?thesis by (simp add: finish_build_total)
      qed
    qed
  qed
qed

lemma pack_snap_fail: "list_all pack_entry (snap_fail_entries e sf)"
  by (cases sf) (simp_all add: snap_fail_entries_def pack_entry_def pack_call_def)

lemma pack_snap: "list_all pack_entry (snap_entries a)"
  by (cases a) (simp_all add: snap_entries_def pack_entry_def pack_call_def)

lemma pack_art: "list_all art_entry es \<Longrightarrow> list_all pack_entry es"
  by (induction es) (auto simp: art_entry_def pack_entry_def pack_call_def split: entry.splits)

lemma tar_calls_snap_fail: "tar_calls (snap_fail_entries e sf) = []"
  by (cases sf) (simp_all add: snap_fail_entries_def tar_calls_def)

lemma tar_calls_snap: "tar_calls (snap_entries a) = []"
  by (cases a) (simp_all add: snap_entries_def tar_calls_def)

lemma build_packages_cases
  [case_names Before_failed Spawn_failed Emerge_hung Emerge_nonzero Packaging_failed Completed]:
  obtains
    (Before_failed) e sf ext s1 where "build_packages os s = Exc e s1"
      "job s1 = (job s)\<lparr>log_buf := log_buf (job s) @ ext\<rparr>"
      "trace s1 = trace s @ snap_fail_entries e sf"
  | (Spawn_failed) e b ext exty s1 where "build_packages os s = Exc e s1"
      "job s1 = (job s)\<lparr>log_buf := log_buf (job s) @ ext\<rparr>"
      "trace s1 = trace s @ snap_entries b @
         [Yield ((job s)\<lparr>log_buf := log_buf (job s) @ exty\<rparr>),
          Os (Spawn (emerge_cmd (job s)) subprocess_env) (Raised e)]"
  | (Emerge_hung) b ext exty s1 where "build_packages os s = Hang s1"
      "job s1 = (job s)\<lparr>log_buf := log_buf (job s) @ ext\<rparr>"
      "trace s1 = trace s @ snap_entries b @
         [Yield ((job s)\<lparr>log_buf := log_buf (job s) @ exty\<rparr>),
          Os (Spawn (emerge_cmd (job s)) subprocess_env) (Returned V_unit)]"
  | (Emerge_nonzero) b rc ext exty s1 where "rc \<noteq> 0" "build_packages os s = Ret () s1"
      "job s1 = (job s)\<lparr>log_buf := log_buf (job s) @ ext, status := FAILED,
          error := Some (exit_message rc)\<rparr>"
      "trace s1 = trace s @ snap_entries b @
         command_entries ((job s)\<lparr>log_buf := log_buf (job s) @ exty\<rparr>) (emerge_cmd (job s)) rc @
         [Status FAILED]"
  | (Packaging_failed) e b ext exty pb ap es s1 where "build_packages os s = Exc e s1"
      "job s1 = (job s)\<lparr>packages_built := pb, log_buf := log_buf (job s) @ ext, artifact_path := ap\<rparr>"
      "trace s1 = trace s @ snap_entries b @
         command_entries ((job s)\<lparr>log_buf := log_buf (job s) @ exty\<rparr>) (emerge_cmd (job s)) 0 @ es"
      "list_all pack_entry es"
      "tar_calls es = [] \<Longrightarrow> pb = packages_built (job s) \<and> ap = artifact_path (job s)"
  | (Completed) b a ext exty sz t s1 where "build_packages os s = Ret () s1"
      "list_all under_binpkg (fresh_outputs (snap_paths b) a)"
      "job s1 = (job s)\<lparr>packages_built := names_of (fresh_outputs (snap_paths b) a),
          log_buf := log_buf (job s) @ ext,
          artifact_path := (if fresh_outputs (snap_paths b) a = [] then artifact_path (job s)
                            else Some (tar_path (job s))),
          status := COMPLETE\<rparr>"
      "trace s1 = trace s @ snap_entries b @
         command_entries ((job s)\<lparr>log_buf := log_buf (job s) @ exty\<rparr>) (emerge_cmd (job s)) 0 @
         snap_entries a @
         (if fresh_outputs (snap_paths b) a = [] then []
          else artifact_entries (tar_path (job s)) (fresh_outputs (snap_paths b) a) sz) @
         [Status COMPLETE, Os Now (Returned (V_real t))]"
proof -
  let ?bld = "nl @ ''=== Building packages ==='' @ nl"
  let ?s0 = "s\<lparr>job := append_log ?bld (job s)\<rparr>"
  have j0: "job ?s0 = (job s)\<lparr>log_buf := log_buf (job s) @ ?bld\<rparr>" "trace ?s0 = trace s"
    by (simp_all add: append_log_def)
  show ?thesis
  proof (cases "snapshot os ?s0")
    case (Exc e s1)
    from snapshot_Exc_snap[OF Exc] obtain sf where "job s1 = job ?s0"
      "trace s1 = trace ?s0 @ snap_fail_entries e sf" by blast
    then have "job s1 = (job s)\<lparr>log_buf := log_buf (job s) @ ?bld\<rparr>"
      "trace s1 = trace s @ snap_fail_entries e sf" by (simp_all add: append_log_def)
    moreover have "build_packages os s = Exc e s1"
      using Exc by (simp add: build_packages_def and_then_def log_line_def modify_job_def)
    ultimately show ?thesis using Before_failed by blast
  next
    case (Hang s1)
    then show ?thesis by (simp add: snapshot_Hang)
  next
    case (Ret before s1)
    from snapshot_Ret_snap[OF Ret] obtain b where b: "before = snap_paths b" "job s1 = job ?s0"
      "trace s1 = trace ?s0 @ snap_entries b" by blast
    have j1: "job s1 = (job s)\<lparr>log_buf := log_buf (job s) @ ?bld\<rparr>" "trace s1 = trace s @ snap_entries b"
      using b by (simp_all add: append_log_def)
    have cmd: "emerge_cmd (job s1) = emerge_cmd (job s)" by (simp add: emerge_cmd_def j1)
    let ?cmd = "emerge_cmd (job s)"
    let ?jy = "(job s)\<lparr>log_buf := log_buf (job s) @ (?bld @ cmdline ?cmd)\<rparr>"
    have jy: "append_log (cmdline ?cmd) (job s1) = ?jy" by (simp add: append_log_def j1)
    have unf: "build_packages os s =
        and_then (run_command os ?cmd) (\<lambda>result.
          if result \<noteq> 0 then
            and_then (set_status FAILED) (\<lambda>_.
            modify_job (\<lambda>j. j\<lparr>error := Some (''emerge failed with exit code '' @ str_int result)\<rparr>))
          else package_outputs os before) s1"
      using Ret by (simp add: build_packages_def and_then_def log_line_def modify_job_def
          get_job_def cmd)
    show ?thesis
    proof (cases "run_command os ?cmd s1")
      case (Exc e s2)
      from run_command_Exc[OF Exc] obtain lg where
        "job s2 = (job s1)\<lparr>log_buf := log_buf (job s1) @ lg\<rparr>"
        "trace s2 = trace s1 @ [Yield (append_log (cmdline ?cmd) (job s1)),
           Os (Spawn ?cmd subprocess_env) (Raised e)]" by blast
      then have "job s2 = (job s)\<lparr>log_buf := log_buf (job s) @ (?bld @ lg)\<rparr>"
        "trace s2 = trace s @ snap_entries b @ [Yield ?jy, Os (Spawn ?cmd subprocess_env) (Raised e)]"
        unfolding jy by (simp_all add: j1)
      moreover have "build_packages os s = Exc e s2"
        unfolding unf by (simp add: and_then_def Exc)
      ultimately show ?thesis using Spawn_failed by blast
    next
      case (Hang s2)
      from run_command_Hang[OF Hang] obtain lg where
        "job s2 = (job s1)\<lparr>log_buf := log_buf (job s1) @ lg\<rparr>"
        "trace s2 = trace s1 @ [Yield (append_log (cmdline ?cmd) (job s1)),
           Os (Spawn ?cmd subprocess_env) (Returned V_unit)]" by blast
      then have "job s2 = (job s)\<lparr>log_buf := log_buf (job s) @ (?bld @ lg)\<rparr>"
        "trace s2 = trace s @ snap_entries b @ [Yield ?jy, Os (Spawn ?cmd subprocess_env) (Returned V_unit)]"
        unfolding jy by (simp_all add: j1)
      moreover have "build_packages os s = Hang s2"
        unfolding unf by (simp add: and_then_def Hang)
      ultimately show ?thesis using Emerge_hung by blast
    next
      case (Ret rc s2)
      from run_command_Ret[OF Ret] obtain lg where
        "job s2 = (job s1)\<lparr>log_buf := log_buf (job s1) @ lg\<rparr>"
        "trace s2 = trace s1 @ [Yield (append_log (cmdline ?cmd) (job s1)),
           Os (Spawn ?cmd subprocess_env) (Returned V_unit), Os (Wait ?cmd) (Returned (V_int rc))]" by blast
      then have j2: "job s2 = (job s)\<lparr>log_buf := log_buf (job s) @ (?bld @ lg)\<rparr>"
        "trace s2 = trace s @ snap_entries b @ command_entries ?jy ?cmd rc"
        unfolding jy by (simp_all add: j1 command_entries_def)
      show ?thesis
      proof (cases "rc = 0")
        case False
        let ?s3 = "s2\<lparr>job := (job s2)\<lparr>status := FAILED, error := Some (exit_message rc)\<rparr>,
                      trace := trace s2 @ [Status FAILED]\<rparr>"
        have "build_packages os s = Ret () ?s3"
          unfolding unf by (simp add: and_then_def Ret False set_status_def modify_job_def exit_message_def)
        moreover have "job ?s3 = (job s)\<lparr>log_buf := log_buf (job s) @ (?bld @ lg), status := FAILED,
            error := Some (exit_message rc)\<rparr>"
          "trace ?s3 = trace s @ snap_entries b @ command_entries ?jy ?cmd rc @ [Status FAILED]"
          by (simp_all add: j2)
        ultimately show ?thesis using Emerge_nonzero[OF False] by blast
      next
        case True
        have unf2: "build_packages os s = package_outputs os before s2"
          unfolding unf by (simp add: and_then_def Ret True)
        show ?thesis
        proof (cases "package_outputs os before s2")
          case (Hang s3)
          then show ?thesis by (simp add: package_outputs_Hang)
        next
          case (Ret u s3)
          from Ret obtain a sz t ext where
            "list_all under_binpkg (fresh_outputs before a)"
            "job s3 = (job s2)\<lparr>packages_built := names_of (fresh_outputs before a),
                log_buf := log_buf (job s2) @ ext,
                artifact_path := (if fresh_outputs before a = [] then artifact_path (job s2)
                                  else Some (tar_path (job s2))),
                status := COMPLETE\<rparr>"
            "trace s3 = trace s2 @ snap_entries a @
                (if fresh_outputs before a = [] then []
                 else artifact_entries (tar_path (job s2)) (fresh_outputs before a) sz) @
                [Status COMPLETE, Os Now (Returned (V_real t))]"
            by (rule package_outputs_Ret)
          moreover have "tar_path (job s2) = tar_path (job s)" by (simp add: tar_path_def j2)
          ultimately have
            "list_all under_binpkg (fresh_outputs (snap_paths b) a)"
            "job s3 = (job s)\<lparr>packages_built := names_of (fresh_outputs (snap_paths b) a),
                log_buf := log_buf (job s) @ ((?bld @ lg) @ ext),
                artifact_path := (if fresh_outputs (snap_paths b) a = [] then artifact_path (job s)
                                  else Some (tar_path (job s))),
                status := COMPLETE\<rparr>"
            "trace s3 = trace s @ snap_entries b @ command_entries ?jy ?cmd 0 @ snap_entries a @
                (if fresh_outputs (snap_paths b) a = [] then []
                 else artifact_entries (tar_path (job s)) (fresh_outputs (snap_paths b) a) sz) @
                [Status COMPLETE, Os Now (Returned (V_real t))]"
            using j2 True b(1) by simp_all
          moreover have "build_packages os s = Ret () s3" unfolding unf2 using Ret by simp
          ultimately show ?thesis using Completed by blast
        next
          case (Exc e s3)
          have bp: "build_packages os s = Exc e s3" unfolding unf2 using Exc by simp
          from Exc show ?thesis
          proof (cases rule: package_outputs_Exc)
            case (After_failed sf)
            then have "job s3 = (job s)\<lparr>packages_built := packages_built (job s),
                 log_buf := log_buf (job s) @ (?bld @ lg), artifact_path := artifact_path (job s)\<rparr>"
              "trace s3 = trace s @ snap_entries b @ command_entries ?jy ?cmd 0 @ snap_fail_entries e sf"
              using j2 True by simp_all
            with bp show ?thesis using Packaging_failed pack_snap_fail by blast
          next
            case (Names_failed a)
            then have "job s3 = (job s)\<lparr>packages_built := packages_built (job s),
                 log_buf := log_buf (job s) @ (?bld @ lg), artifact_path := artifact_path (job s)\<rparr>"
              "trace s3 = trace s @ snap_entries b @ command_entries ?jy ?cmd 0 @ snap_entries a"
              using j2 True by simp_all
            with bp show ?thesis using Packaging_failed pack_snap by blast
          next
            case (Artifact_failed a r es ext ap)
            let ?es = "snap_entries a @ Os (Mkdir_parents artifact_dir) r # es"
            from Artifact_failed have "job s3 = (job s)\<lparr>packages_built := names_of (fresh_outputs before a),
                 log_buf := log_buf (job s) @ ((?bld @ lg) @ ext), artifact_path := ap\<rparr>"
              "trace s3 = trace s @ snap_entries b @ command_entries ?jy ?cmd 0 @ ?es"
              using j2 True by simp_all
            moreover have "list_all pack_entry ?es"
              using pack_snap[of a] pack_art[OF Artifact_failed(4)]
              by (simp add: pack_entry_def pack_call_def art_call_def)
            moreover have "tar_calls ?es \<noteq> []"
              by (simp add: tar_calls_def)
            ultimately show ?thesis using bp Packaging_failed by blast
          qed
        qed
      qed
    qed
  qed
qed

lemma running_log:
  "(running j t0 a)\<lparr>log_buf := log_buf (running j t0 a) @ b\<rparr> = running j t0 (a @ b)"
  by (simp add: running_def)

lemma running_fields:
  "packages (running j t0 a) = packages j" "build_id (running j t0 a) = build_id j"
  "packages_built (running j t0 a) = packages_built j"
  "artifact_path (running j t0 a) = artifact_path j" "error (running j t0 a) = error j"
  "status (running j t0 a) = BUILDING" "started_at (running j t0 a) = Some t0"
  "completed_at (running j t0 a) = completed_at j" "log_buf (running j t0 a) = log_buf j @ a"
  "config_path (running j t0 a) = config_path j" "config_hash (running j t0 a) = config_hash j"
  by (simp_all add: running_def)

lemma running_cmd: "emerge_cmd (running j t0 a) = emerge_cmd j" "tar_path (running j t0 a) = tar_path j"
  by (simp_all add: emerge_cmd_def tar_path_def running_def)

lemma run_build_cases
  [case_names Config_failed Marker_failed Sync_failed Sync_hung Before_failed Spawn_failed
     Emerge_hung Emerge_nonzero Packaging_failed Completed]:
  obtains
    (Config_failed) e t0 cfg ext s1 where "run_build os s = Exc e s1" "list_all cfg_entry cfg"
      "job s1 = running (job s) t0 ext"
      "trace s1 = trace s @ start_entries t0 @ cfg"
  | (Marker_failed) e t0 cfg ext mf s1 where "run_build os s = Exc e s1" "list_all cfg_entry cfg"
      "job s1 = running (job s) t0 ext"
      "trace s1 = trace s @ start_entries t0 @ cfg @ marker_fail_entries e mf"
  | (Sync_failed) e t0 cfg ext mk exty s1 where "run_build os s = Exc e s1" "list_all cfg_entry cfg"
      "\<not> fresh mk" "job s1 = running (job s) t0 ext"
      "trace s1 = trace s @ start_entries t0 @ cfg @ marker_entries mk @
         [Yield (running (job s) t0 exty), Os (Spawn sync_cmd subprocess_env) (Raised e)]"
  | (Sync_hung) t0 cfg ext mk exty s1 where "run_build os s = Hang s1" "list_all cfg_entry cfg"
      "\<not> fresh mk" "job s1 = running (job s) t0 ext"
      "trace s1 = trace s @ start_entries t0 @ cfg @ marker_entries mk @
         [Yield (running (job s) t0 exty), Os (Spawn sync_cmd subprocess_env) (Returned V_unit)]"
  | (Before_failed) e t0 cfg ext mk exty rc sf s1 where "run_build os s = Exc e s1"
      "list_all cfg_entry cfg" "job s1 = running (job s) t0 ext"
      "fresh mk \<Longrightarrow> \<exists>a b. ext = a @ skip_message os (age mk) @ b"
      "trace s1 = trace s @ start_entries t0 @ cfg @
         refresh_entries mk (running (job s) t0 exty) rc @ snap_fail_entries e sf"
  | (Spawn_failed) e t0 cfg ext mk exty rc b exty2 s1 where "run_build os s = Exc e s1"
      "list_all cfg_entry cfg" "job s1 = running (job s) t0 ext"
      "fresh mk \<Longrightarrow> \<exists>a b. ext = a @ skip_message os (age mk) @ b"
      "trace s1 = trace s @ start_entries t0 @ cfg @
         refresh_entries mk (running (job s) t0 exty) rc @ snap_entries b @
         [Yield (running (job s) t0 exty2), Os (Spawn (emerge_cmd (job s)) subprocess_env) (Raised e)]"
  | (Emerge_hung) t0 cfg ext mk exty rc b exty2 s1 where "run_build os s = Hang s1"
      "list_all cfg_entry cfg" "job s1 = running (job s) t0 ext"
      "fresh mk \<Longrightarrow> \<exists>a b. ext = a @ skip_message os (age mk) @ b"
      "trace s1 = trace s @ start_entries t0 @ cfg @
         refresh_entries mk (running (job s) t0 exty) rc @ snap_entries b @
         [Yield (running (job s) t0 exty2), Os (Spawn (emerge_cmd (job s)) subprocess_env) (Returned V_unit)]"
  | (Emerge_nonzero) t0 cfg ext mk exty rc b exty2 rc2 s1 where "run_build os s = Ret () s1"
      "list_all cfg_entry cfg" "rc2 \<noteq> 0"
      "job s1 = (running (job s) t0 ext)\<lparr>status := FAILED, error := Some (exit_message rc2)\<rparr>"
      "fresh mk \<Longrightarrow> \<exists>a b. ext = a @ skip_message os (age mk) @ b"
      "trace s1 = trace s @ start_entries t0 @ cfg @
         refresh_entries mk (running (job s) t0 exty) rc @ snap_entries b @
         command_entries (running (job s) t0 exty2) (emerge_cmd (job s)) rc2 @ [Status FAILED]"
  | (Packaging_failed) e t0 cfg ext mk exty rc b exty2 pb ap es s1 where "run_build os s = Exc e s1"
      "list_all cfg_entry cfg" "list_all pack_entry es"
      "job s1 = (running (job s) t0 ext)\<lparr>packages_built := pb, artifact_path := ap\<rparr>"
      "tar_calls es = [] \<Longrightarrow> pb = packages_built (job s) \<and> ap = artifact_path (job s)"
      "fresh mk \<Longrightarrow> \<exists>a b. ext = a @ skip_message os (age mk) @ b"
      "trace s1 = trace s @ start_entries t0 @ cfg @
         refresh_entries mk (running (job s) t0 exty) rc @ snap_entries b @
         command_entries (running (job s) t0 exty2) (emerge_cmd (job s)) 0 @ es"
  | (Completed) t0 cfg ext mk exty rc b exty2 a sz t s1 where "run_build os s = Ret () s1"
      "list_all cfg_entry cfg" "list_all under_binpkg (fresh_outputs (snap_paths b) a)"
      "job s1 = (running (job s) t0 ext)\<lparr>packages_built := names_of (fresh_outputs (snap_paths b) a),
          artifact_path := (if fresh_outputs (snap_paths b) a = [] then artifact_path (job s)
                            else Some (tar_path (job s))),
          status := COMPLETE\<rparr>"
      "fresh mk \<Longrightarrow> \<exists>a b. ext = a @ skip_message os (age mk) @ b"
      "trace s1 = trace s @ start_entries t0 @ cfg @
         refresh_entries mk (running (job s) t0 exty) rc @ snap_entries b @
         command_entries (running (job s) t0 exty2) (emerge_cmd (job s)) 0 @ snap_entries a @
         (if fresh_outputs (snap_paths b) a = [] then []
          else artifact_entries (tar_path (job s)) (fresh_outputs (snap_paths b) a) sz) @
         [Status COMPLETE, Os Now (Returned (V_real t))]"
proof -
  from start_build_result[of os s] obtain t0 s1 where sb: "start_build os s = Ret () s1"
    and j1: "job s1 = running (job s) t0 (header_text os (job s) t0)"
    and t1: "trace s1 = trace s @ start_entries t0"
    unfolding start_entries_def by blast
  let ?h = "header_text os (job s) t0"
  show ?thesis
  proof (cases "apply_config os s1")
    case (Hang s2)
    then show ?thesis by (simp add: apply_config_Hang)
  next
    case (Exc e s2)
    from apply_config_Exc[OF Exc] obtain cfg lg where c: "trace s2 = trace s1 @ cfg"
      "list_all cfg_entry cfg" "job s2 = (job s1)\<lparr>log_buf := log_buf (job s1) @ lg\<rparr>" by blast
    have "run_build os s = Exc e s2" using sb Exc by (simp add: run_build_def and_then_def)
    moreover have "job s2 = running (job s) t0 (?h @ lg)" by (simp add: c j1 running_log)
    moreover have "trace s2 = trace s @ start_entries t0 @ cfg" by (simp add: c t1)
    ultimately show ?thesis using c(2) Config_failed by blast
  next
    case (Ret u s2)
    from apply_config_Ret[OF Ret] obtain cfg lg where c: "trace s2 = trace s1 @ cfg"
      "list_all cfg_entry cfg" "job s2 = (job s1)\<lparr>log_buf := log_buf (job s1) @ lg\<rparr>" by blast
    have j2: "job s2 = running (job s) t0 (?h @ lg)" by (simp add: c j1 running_log)
    have t2: "trace s2 = trace s @ start_entries t0 @ cfg" by (simp add: c t1)
    have unf: "run_build os s = and_then (sync_tree os) (\<lambda>_. build_packages os) s2"
      using sb Ret by (simp add: run_build_def and_then_def)
    show ?thesis
    proof (cases rule: sync_tree_cases[of os s2])
      case (Marker_failed e mf s3)
      have "run_build os s = Exc e s3" unfolding unf using Marker_failed(1) by (simp add: and_then_def)
      moreover have "job s3 = running (job s) t0 (?h @ lg)" using Marker_failed j2 by simp
      moreover have "trace s3 = trace s @ start_entries t0 @ cfg @ marker_fail_entries e mf"
        using Marker_failed t2 by simp
      ultimately show ?thesis using c(2) that(2) by blast
    next
      case (Sync_failed e mk ext exty s3)
      have "run_build os s = Exc e s3" unfolding unf using Sync_failed(2) by (simp add: and_then_def)
      moreover have "job s3 = running (job s) t0 ((?h @ lg) @ ext)"
        using Sync_failed j2 by (simp add: running_log)
      moreover have "trace s3 = trace s @ start_entries t0 @ cfg @ marker_entries mk @
         [Yield (running (job s) t0 ((?h @ lg) @ exty)), Os (Spawn sync_cmd subprocess_env) (Raised e)]"
        using Sync_failed t2 j2 by (simp add: running_log)
      ultimately show ?thesis using c(2) Sync_failed(1) that(3) by blast
    next
      case (Sync_hung mk ext exty s3)
      have "run_build os s = Hang s3" unfolding unf using Sync_hung(2) by (simp add: and_then_def)
      moreover have "job s3 = running (job s) t0 ((?h @ lg) @ ext)"
        using Sync_hung j2 by (simp add: running_log)
      moreover have "trace s3 = trace s @ start_entries t0 @ cfg @ marker_entries mk @
         [Yield (running (job s) t0 ((?h @ lg) @ exty)), Os (Spawn sync_cmd subprocess_env) (Returned V_unit)]"
        using Sync_hung t2 j2 by (simp add: running_log)
      ultimately show ?thesis using c(2) Sync_hung(1) that(4) by blast
    next
      case (Refreshed mk ext exty rc s3)
      define ext3 where "ext3 = (?h @ lg) @ ext"
      define jy where "jy = running (job s) t0 ((?h @ lg) @ exty)"
      have j3: "job s3 = running (job s) t0 ext3"
        using Refreshed j2 by (simp add: running_log ext3_def)
      have t3: "trace s3 = trace s @ start_entries t0 @ cfg @ refresh_entries mk jy rc"
        using Refreshed t2 j2 by (simp add: running_log jy_def)
      have sk: "\<exists>a b. ext3 @ x = a @ skip_message os (age mk) @ b" if "fresh mk" for x
      proof -
        from Refreshed(4)[OF that] have "ext3 @ x = (?h @ lg) @ skip_message os (age mk) @ x"
          by (simp add: ext3_def)
        then show ?thesis by blast
      qed
      have unf2: "run_build os s = build_packages os s3"
        unfolding unf using Refreshed(1) by (simp add: and_then_def)
      have cmd: "emerge_cmd (job s3) = emerge_cmd (job s)" "tar_path (job s3) = tar_path (job s)"
        "packages_built (job s3) = packages_built (job s)" "artifact_path (job s3) = artifact_path (job s)"
        by (simp_all add: j3 running_cmd running_fields)
      show ?thesis
      proof (cases rule: build_packages_cases[of os s3])
        case (Before_failed e sf x s4)
        have "run_build os s = Exc e s4" unfolding unf2 by (rule Before_failed(1))
        moreover have "job s4 = running (job s) t0 (ext3 @ x)"
          using Before_failed j3 by (simp add: running_log)
        moreover have "trace s4 = trace s @ start_entries t0 @ cfg @ refresh_entries mk jy rc @
            snap_fail_entries e sf" using Before_failed t3 by simp
        ultimately show ?thesis using c(2) sk[of x] that(5) unfolding jy_def by blast
      next
        case (Spawn_failed e b x xy s4)
        have "run_build os s = Exc e s4" unfolding unf2 by (rule Spawn_failed(1))
        moreover have "job s4 = running (job s) t0 (ext3 @ x)"
          using Spawn_failed j3 by (simp add: running_log)
        moreover have "trace s4 = trace s @ start_entries t0 @ cfg @ refresh_entries mk jy rc @
            snap_entries b @ [Yield (running (job s) t0 (ext3 @ xy)),
              Os (Spawn (emerge_cmd (job s)) subprocess_env) (Raised e)]"
          using Spawn_failed t3 cmd by (simp add: j3 running_log)
        ultimately show ?thesis using c(2) sk[of x] that(6) unfolding jy_def by blast
      next
        case (Emerge_hung b x xy s4)
        have "run_build os s = Hang s4" unfolding unf2 by (rule Emerge_hung(1))
        moreover have "job s4 = running (job s) t0 (ext3 @ x)"
          using Emerge_hung j3 by (simp add: running_log)
        moreover have "trace s4 = trace s @ start_entries t0 @ cfg @ refresh_entries mk jy rc @
            snap_entries b @ [Yield (running (job s) t0 (ext3 @ xy)),
              Os (Spawn (emerge_cmd (job s)) subprocess_env) (Returned V_unit)]"
          using Emerge_hung t3 cmd by (simp add: j3 running_log)
        ultimately show ?thesis using c(2) sk[of x] that(7) unfolding jy_def by blast
      next
        case (Emerge_nonzero b rc2 x xy s4)
        have "run_build os s = Ret () s4" unfolding unf2 by (rule Emerge_nonzero(2))
        moreover have "job s4 = (running (job s) t0 (ext3 @ x))\<lparr>status := FAILED,
            error := Some (exit_message rc2)\<rparr>"
          using Emerge_nonzero j3 by (simp add: running_log)
        moreover have "trace s4 = trace s @ start_entries t0 @ cfg @ refresh_entries mk jy rc @
            snap_entries b @ command_entries (running (job s) t0 (ext3 @ xy)) (emerge_cmd (job s)) rc2 @
            [Status FAILED]"
          using Emerge_nonzero t3 cmd by (simp add: j3 running_log)
        ultimately show ?thesis using c(2) sk[of x] Emerge_nonzero(1) that(8) unfolding jy_def by blast
      next
        case (Packaging_failed e b x xy pb ap es s4)
        have "run_build os s = Exc e s4" unfolding unf2 by (rule Packaging_failed(1))
        moreover have "job s4 = (running (job s) t0 (ext3 @ x))\<lparr>packages_built := pb, artifact_path := ap\<rparr>"
          using Packaging_failed(2) j3 by (simp add: running_def)
        moreover have "trace s4 = trace s @ start_entries t0 @ cfg @ refresh_entries mk jy rc @
            snap_entries b @ command_entries (running (job s) t0 (ext3 @ xy)) (emerge_cmd (job s)) 0 @ es"
          using Packaging_failed(3) t3 cmd by (simp add: j3 running_log)
        moreover have "tar_calls es = [] \<Longrightarrow> pb = packages_built (job s) \<and> ap = artifact_path (job s)"
          using Packaging_failed(5) cmd by simp
        ultimately show ?thesis using c(2) sk[of x] Packaging_failed(4) that(9) unfolding jy_def by blast
      next
        case (Completed b a x xy sz t s4)
        have "run_build os s = Ret () s4" unfolding unf2 by (rule Completed(1))
        moreover have "job s4 = (running (job s) t0 (ext3 @ x))\<lparr>
            packages_built := names_of (fresh_outputs (snap_paths b) a),
            artifact_path := (if fresh_outputs (snap_paths b) a = [] then artifact_path (job s)
                            else Some (tar_path (job s))),
            status := COMPLETE\<rparr>"
          using Completed(3) j3 cmd by (simp add: running_def)
        moreover have "trace s4 = trace s @ start_entries t0 @ cfg @ refresh_entries mk jy rc @
            snap_entries b @ command_entries (running (job s) t0 (ext3 @ xy)) (emerge_cmd (job s)) 0 @
            snap_entries a @
            (if fresh_outputs (snap_paths b) a = [] then []
             else artifact_entries (tar_path (job s)) (fresh_outputs (snap_paths b) a) sz) @
            [Status COMPLETE, Os Now (Returned (V_real t))]"
          using Completed(4) t3 cmd by (simp add: j3 running_log)
        ultimately show ?thesis using c(2) sk[of x] Completed(2) that(10) unfolding jy_def by blast
      qed
    qed
  qed
qed

lemma run_job_of_Ret:
  assumes "run_build os s = Ret x s1"
  shows "\<exists>t s'. run_job os s = Ret x s' \<and> job s' = (job s1)\<lparr>completed_at := Some t\<rparr> \<and>
     trace s' = trace s1 @ [Os Now (Returned (V_real t))]"
proof -
  obtain t w where now: "os_now os (world s1) = (t, w)" by (cases "os_now os (world s1)")
  let ?s' = "s1\<lparr>world := w, trace := trace s1 @ [Os Now (Returned (V_real t))],
     job := (job s1)\<lparr>completed_at := Some t\<rparr>\<rparr>"
  have "run_job os s = Ret x ?s'"
    using assms by (simp add: run_job_def try_finally_def try_except_def stamp_completed_def
        and_then_def datetime_now_def now modify_job_def return_def)
  then show ?thesis by (intro exI[of _ t] exI[of _ ?s']) simp
qed

lemma run_job_of_Exc:
  assumes "run_build os s = Exc e s1"
  shows "\<exists>t s'. run_job os s = Ret () s' \<and> job s' = failed_with e t (job s1) \<and>
     trace s' = trace s1 @ [Status FAILED, Os Now (Returned (V_real t))]"
proof -
  obtain t w where now: "os_now os (world s1) = (t, w)" by (cases "os_now os (world s1)")
  let ?s' = "s1\<lparr>world := w, trace := trace s1 @ [Status FAILED, Os Now (Returned (V_real t))],
     job := failed_with e t (job s1)\<rparr>"
  have "run_job os s = Ret () ?s'"
    using assms by (simp add: run_job_def try_finally_def try_except_def stamp_completed_def
        handle_exception_def set_status_def log_line_def append_log_def failed_with_def fatal_message_def
        and_then_def datetime_now_def now modify_job_def return_def)
  then show ?thesis by (intro exI[of _ t] exI[of _ ?s']) simp
qed

lemma run_job_of_Hang: "run_build os s = Hang s1 \<Longrightarrow> run_job os s = Hang s1"
  by (simp add: run_job_def try_finally_def try_except_def)

lemma run_job_no_Exc: "run_job os s \<noteq> Exc e s'"
proof (cases "run_build os s")
  case (Ret x s1) with run_job_of_Ret[OF Ret] show ?thesis by auto
next
  case (Exc e1 s1) with run_job_of_Exc[OF Exc] show ?thesis by auto
next
  case (Hang s1) with run_job_of_Hang[OF Hang] show ?thesis by auto
qed

lemma statuses_simps:
  "statuses [] = []" "statuses (Status v # es) = v # statuses es"
  "statuses (Os c r # es) = statuses es" "statuses (Yield j # es) = statuses es"
  by (simp_all add: statuses_def)

lemma spawned_simps:
  "spawned [] = []" "spawned (Status v # es) = spawned es"
  "spawned (Os c r # es) = (case c of Spawn cmd env \<Rightarrow> [cmd] | _ \<Rightarrow> []) @ spawned es"
  "spawned (Yield j # es) = spawned es"
  by (simp_all add: spawned_def)

lemma exits_simps:
  "exits [] = []" "exits (Status v # es) = exits es"
  "exits (Os (Wait cmd) (Returned (V_int rc)) # es) = (cmd, rc) # exits es"
  "exits (Os (Spawn cmd env) r # es) = exits es"
  "exits (Os (Exists p) r # es) = exits es"
  "exits (Os Now r # es) = exits es"
  "exits (Os (Stat_mtime p) r # es) = exits es"
  "exits (Os (Rglob p pat) r # es) = exits es"
  "exits (Yield j # es) = exits es"
  by (simp_all add: exits_def)

lemma tar_calls_simps:
  "tar_calls [] = []" "tar_calls (Status v # es) = tar_calls es"
  "tar_calls (Os (Wait cmd) r # es) = tar_calls es"
  "tar_calls (Os (Spawn cmd env) r # es) = tar_calls es"
  "tar_calls (Os (Exists p) r # es) = tar_calls es"
  "tar_calls (Os Now r # es) = tar_calls es"
  "tar_calls (Os (Stat_mtime p) r # es) = tar_calls es"
  "tar_calls (Os (Rglob p pat) r # es) = tar_calls es"
  "tar_calls (Yield j # es) = tar_calls es"
  by (simp_all add: tar_calls_def)

lemma yields_append: "yields (a @ b) = yields a @ yields b" by (simp add: yields_def)

lemma yields_simps:
  "yields [] = []" "yields (Status v # es) = yields es"
  "yields (Os c r # es) = yields es" "yields (Yield j # es) = j # yields es"
  by (simp_all add: yields_def)

lemma cfg_yields: "list_all cfg_entry es \<Longrightarrow> yields es = []"
  by (induction es) (auto simp: yields_def cfg_entry_def split: entry.splits)

lemma pack_statuses: "list_all pack_entry es \<Longrightarrow> statuses es = []"
  by (induction es) (auto simp: statuses_def pack_entry_def split: entry.splits)

lemma pack_yields: "list_all pack_entry es \<Longrightarrow> yields es = []"
  by (induction es) (auto simp: yields_def pack_entry_def split: entry.splits)

lemma pack_spawned: "list_all pack_entry es \<Longrightarrow> spawned es = []"
  by (induction es) (auto simp: spawned_def pack_entry_def pack_call_def art_call_def split: entry.splits call.splits)

lemma pack_exits: "list_all pack_entry es \<Longrightarrow> exits es = []"
  by (induction es) (auto simp: exits_def pack_entry_def pack_call_def art_call_def split: entry.splits call.splits)

lemma seg_statuses:
  "statuses (start_entries t0) = [BUILDING]" "statuses (marker_entries mk) = []"
  "statuses (marker_fail_entries e mf) = []" "statuses (command_entries jy cmd rc) = []"
  "statuses (refresh_entries mk jy rc) = []" "statuses (snap_entries a) = []"
  "statuses (snap_fail_entries e sf) = []" "statuses (artifact_entries tp ps sz) = []"
  by (simp_all add: statuses_def start_entries_def marker_entries_def marker_fail_entries_def
      command_entries_def refresh_entries_def snap_entries_def snap_fail_entries_def
      artifact_entries_def o_def split: marker.splits marker_fail.splits snap.splits snap_fail.splits)

lemma seg_spawned:
  "spawned (start_entries t0) = []" "spawned (marker_entries mk) = []"
  "spawned (marker_fail_entries e mf) = []" "spawned (command_entries jy cmd rc) = [cmd]"
  "spawned (refresh_entries mk jy rc) = (if fresh mk then [] else [sync_cmd])"
  "spawned (snap_entries a) = []"
  "spawned (snap_fail_entries e sf) = []" "spawned (artifact_entries tp ps sz) = []"
  by (simp_all add: spawned_def start_entries_def marker_entries_def marker_fail_entries_def
      command_entries_def refresh_entries_def snap_entries_def snap_fail_entries_def
      artifact_entries_def o_def split: marker.splits marker_fail.splits snap.splits snap_fail.splits)

lemma seg_exits:
  "exits (start_entries t0) = []" "exits (marker_entries mk) = []"
  "exits (marker_fail_entries e mf) = []" "exits (command_entries jy cmd rc) = [(cmd, rc)]"
  "exits (refresh_entries mk jy rc) = (if fresh mk then [] else [(sync_cmd, rc)])"
  "exits (snap_entries a) = []"
  "exits (snap_fail_entries e sf) = []" "exits (artifact_entries tp ps sz) = []"
  by (simp_all add: exits_def start_entries_def marker_entries_def marker_fail_entries_def
      command_entries_def refresh_entries_def snap_entries_def snap_fail_entries_def
      artifact_entries_def o_def split: marker.splits marker_fail.splits snap.splits snap_fail.splits)

lemma seg_yields:
  "yields (start_entries t0) = []" "yields (marker_entries mk) = []"
  "yields (marker_fail_entries e mf) = []" "yields (command_entries jy cmd rc) = [jy]"
  "yields (refresh_entries mk jy rc) = (if fresh mk then [] else [jy])"
  "yields (snap_entries a) = []"
  "yields (snap_fail_entries e sf) = []" "yields (artifact_entries tp ps sz) = []"
  by (simp_all add: yields_def start_entries_def marker_entries_def marker_fail_entries_def
      command_entries_def refresh_entries_def snap_entries_def snap_fail_entries_def
      artifact_entries_def o_def split: marker.splits marker_fail.splits snap.splits snap_fail.splits)

lemma seg_tar_calls:
  "tar_calls (start_entries t0) = []" "tar_calls (marker_entries mk) = []"
  "tar_calls (marker_fail_entries e mf) = []" "tar_calls (command_entries jy cmd rc) = []"
  "tar_calls (refresh_entries mk jy rc) = []"
  "tar_calls (artifact_entries tp ps sz) =
     [Mkdir_parents artifact_dir, Tar_open tp] @ map (\<lambda>p. Tar_add tp p (arcname_of p)) ps @ [Tar_close tp]"
  by (simp_all add: tar_calls_def start_entries_def marker_entries_def marker_fail_entries_def
      command_entries_def refresh_entries_def 
      artifact_entries_def o_def split: marker.splits marker_fail.splits)

lemma sync_not_emerge: "sync_cmd \<noteq> emerge_cmd j" "emerge_cmd j \<noteq> sync_cmd"
  by (simp_all add: sync_cmd_def emerge_cmd_def)

lemmas proj = statuses_append spawned_append exits_append tar_calls_append yields_append
  statuses_simps spawned_simps exits_simps tar_calls_simps yields_simps
  cfg_statuses cfg_spawned cfg_exits cfg_tar_calls cfg_yields
  pack_statuses pack_spawned pack_exits pack_yields
  seg_statuses seg_spawned seg_exits seg_yields seg_tar_calls tar_calls_snap tar_calls_snap_fail

lemma run_job_Ret_obs:
  assumes "run_build os s = Ret x s1" "trace s1 = trace s @ es"
  obtains t where "returns os s" "final os s = (job s1)\<lparr>completed_at := Some t\<rparr>"
    "events os s = es @ [Os Now (Returned (V_real t))]"
proof -
  from run_job_of_Ret[OF assms(1)] obtain t s' where "run_job os s = Ret x s'"
    "job s' = (job s1)\<lparr>completed_at := Some t\<rparr>" "trace s' = trace s1 @ [Os Now (Returned (V_real t))]"
    by blast
  then show ?thesis using that[of t] assms(2) by (simp add: returns_def final_def events_def)
qed

lemma run_job_Exc_obs:
  assumes "run_build os s = Exc e s1" "trace s1 = trace s @ es"
  obtains t where "returns os s" "final os s = failed_with e t (job s1)"
    "events os s = es @ [Status FAILED, Os Now (Returned (V_real t))]"
proof -
  from run_job_of_Exc[OF assms(1)] obtain t s' where "run_job os s = Ret () s'"
    "job s' = failed_with e t (job s1)" "trace s' = trace s1 @ [Status FAILED, Os Now (Returned (V_real t))]"
    by blast
  then show ?thesis using that[of t] assms(2) by (simp add: returns_def final_def events_def)
qed

lemma run_job_Hang_obs:
  assumes "run_build os s = Hang s1" "trace s1 = trace s @ es"
  shows "\<not> returns os s \<and> final os s = job s1 \<and> events os s = es"
  using run_job_of_Hang[OF assms(1)] assms(2) by (simp add: returns_def final_def events_def)

lemma run_job_cases
  [case_names Config_failed Marker_failed Sync_failed Sync_hung Before_failed Spawn_failed
     Emerge_hung Emerge_nonzero Packaging_failed Completed]:
  obtains
    (Config_failed) e t0 cfg ext te where "returns os s" "list_all cfg_entry cfg"
      "final os s = failed_with e te (running (job s) t0 ext)"
      "events os s = start_entries t0 @ cfg @ [Status FAILED, Os Now (Returned (V_real te))]"
  | (Marker_failed) e t0 cfg ext mf te where "returns os s" "list_all cfg_entry cfg"
      "final os s = failed_with e te (running (job s) t0 ext)"
      "events os s = start_entries t0 @ cfg @ marker_fail_entries e mf @
         [Status FAILED, Os Now (Returned (V_real te))]"
  | (Sync_failed) e t0 cfg ext mk exty te where "returns os s" "list_all cfg_entry cfg"
      "\<not> fresh mk" "final os s = failed_with e te (running (job s) t0 ext)"
      "events os s = start_entries t0 @ cfg @ marker_entries mk @
         [Yield (running (job s) t0 exty), Os (Spawn sync_cmd subprocess_env) (Raised e)] @
         [Status FAILED, Os Now (Returned (V_real te))]"
  | (Sync_hung) t0 cfg ext mk exty where "\<not> returns os s" "list_all cfg_entry cfg"
      "\<not> fresh mk" "final os s = running (job s) t0 ext"
      "events os s = start_entries t0 @ cfg @ marker_entries mk @
         [Yield (running (job s) t0 exty), Os (Spawn sync_cmd subprocess_env) (Returned V_unit)]"
  | (Before_failed) e t0 cfg ext mk exty rc sf te where "returns os s"
      "list_all cfg_entry cfg" "final os s = failed_with e te (running (job s) t0 ext)"
      "fresh mk \<Longrightarrow> \<exists>a b. ext = a @ skip_message os (age mk) @ b"
      "events os s = start_entries t0 @ cfg @
         refresh_entries mk (running (job s) t0 exty) rc @ snap_fail_entries e sf @
         [Status FAILED, Os Now (Returned (V_real te))]"
  | (Spawn_failed) e t0 cfg ext mk exty rc b exty2 te where "returns os s"
      "list_all cfg_entry cfg" "final os s = failed_with e te (running (job s) t0 ext)"
      "fresh mk \<Longrightarrow> \<exists>a b. ext = a @ skip_message os (age mk) @ b"
      "events os s = start_entries t0 @ cfg @
         refresh_entries mk (running (job s) t0 exty) rc @ snap_entries b @
         [Yield (running (job s) t0 exty2), Os (Spawn (emerge_cmd (job s)) subprocess_env) (Raised e)] @
         [Status FAILED, Os Now (Returned (V_real te))]"
  | (Emerge_hung) t0 cfg ext mk exty rc b exty2 where "\<not> returns os s"
      "list_all cfg_entry cfg" "final os s = running (job s) t0 ext"
      "fresh mk \<Longrightarrow> \<exists>a b. ext = a @ skip_message os (age mk) @ b"
      "events os s = start_entries t0 @ cfg @
         refresh_entries mk (running (job s) t0 exty) rc @ snap_entries b @
         [Yield (running (job s) t0 exty2), Os (Spawn (emerge_cmd (job s)) subprocess_env) (Returned V_unit)]"
  | (Emerge_nonzero) t0 cfg ext mk exty rc b exty2 rc2 te where "returns os s"
      "list_all cfg_entry cfg" "rc2 \<noteq> 0"
      "final os s = (running (job s) t0 ext)\<lparr>status := FAILED, error := Some (exit_message rc2),
          completed_at := Some te\<rparr>"
      "fresh mk \<Longrightarrow> \<exists>a b. ext = a @ skip_message os (age mk) @ b"
      "events os s = start_entries t0 @ cfg @
         refresh_entries mk (running (job s) t0 exty) rc @ snap_entries b @
         command_entries (running (job s) t0 exty2) (emerge_cmd (job s)) rc2 @ [Status FAILED] @
         [Os Now (Returned (V_real te))]"
  | (Packaging_failed) e t0 cfg ext mk exty rc b exty2 pb ap es te where "returns os s"
      "list_all cfg_entry cfg" "list_all pack_entry es"
      "final os s = failed_with e te ((running (job s) t0 ext)\<lparr>packages_built := pb, artifact_path := ap\<rparr>)"
      "tar_calls es = [] \<Longrightarrow> pb = packages_built (job s) \<and> ap = artifact_path (job s)"
      "fresh mk \<Longrightarrow> \<exists>a b. ext = a @ skip_message os (age mk) @ b"
      "events os s = start_entries t0 @ cfg @
         refresh_entries mk (running (job s) t0 exty) rc @ snap_entries b @
         command_entries (running (job s) t0 exty2) (emerge_cmd (job s)) 0 @ es @
         [Status FAILED, Os Now (Returned (V_real te))]"
  | (Completed) t0 cfg ext mk exty rc b exty2 a sz t te where "returns os s"
      "list_all cfg_entry cfg" "list_all under_binpkg (fresh_outputs (snap_paths b) a)"
      "final os s = (running (job s) t0 ext)\<lparr>packages_built := names_of (fresh_outputs (snap_paths b) a),
          artifact_path := (if fresh_outputs (snap_paths b) a = [] then artifact_path (job s)
                            else Some (tar_path (job s))),
          status := COMPLETE, completed_at := Some te\<rparr>"
      "fresh mk \<Longrightarrow> \<exists>a b. ext = a @ skip_message os (age mk) @ b"
      "events os s = start_entries t0 @ cfg @
         refresh_entries mk (running (job s) t0 exty) rc @ snap_entries b @
         command_entries (running (job s) t0 exty2) (emerge_cmd (job s)) 0 @ snap_entries a @
         (if fresh_outputs (snap_paths b) a = [] then []
          else artifact_entries (tar_path (job s)) (fresh_outputs (snap_paths b) a) sz) @
         [Status COMPLETE, Os Now (Returned (V_real t))] @ [Os Now (Returned (V_real te))]"
proof (cases rule: run_build_cases[of os s])
  case (Config_failed e t0 cfg ext s1)
  from run_job_Exc_obs[OF Config_failed(1,4)] obtain te where r: "returns os s" and f0: "final os s = failed_with e te (job s1)"
    and ev0: "events os s = drop (length (trace s)) (trace s1) @ [Status FAILED, Os Now (Returned (V_real te))]"
    using Config_failed(4) by (metis append_eq_conv_conj)
  have f: "final os s = failed_with e te (running (job s) t0 ext)" using f0 Config_failed by simp
  have ev: "events os s = start_entries t0 @ cfg @ [Status FAILED, Os Now (Returned (V_real te))]" using ev0 Config_failed(4) by simp
  show ?thesis using r f ev Config_failed(2-3) that(1) by blast
next
  case (Marker_failed e t0 cfg ext mf s1)
  from run_job_Exc_obs[OF Marker_failed(1,4)] obtain te where r: "returns os s" and f0: "final os s = failed_with e te (job s1)"
    and ev0: "events os s = drop (length (trace s)) (trace s1) @ [Status FAILED, Os Now (Returned (V_real te))]"
    using Marker_failed(4) by (metis append_eq_conv_conj)
  have f: "final os s = failed_with e te (running (job s) t0 ext)" using f0 Marker_failed by simp
  have ev: "events os s = start_entries t0 @ cfg @ marker_fail_entries e mf @
         [Status FAILED, Os Now (Returned (V_real te))]" using ev0 Marker_failed(4) by simp
  show ?thesis using r f ev Marker_failed(2-3) that(2) by blast
next
  case (Sync_failed e t0 cfg ext mk exty s1)
  from run_job_Exc_obs[OF Sync_failed(1,5)] obtain te where r: "returns os s" and f0: "final os s = failed_with e te (job s1)"
    and ev0: "events os s = drop (length (trace s)) (trace s1) @ [Status FAILED, Os Now (Returned (V_real te))]"
    using Sync_failed(5) by (metis append_eq_conv_conj)
  have f: "final os s = failed_with e te (running (job s) t0 ext)" using f0 Sync_failed by simp
  have ev: "events os s = start_entries t0 @ cfg @ marker_entries mk @
         [Yield (running (job s) t0 exty), Os (Spawn sync_cmd subprocess_env) (Raised e)] @
         [Status FAILED, Os Now (Returned (V_real te))]" using ev0 Sync_failed(5) by simp
  show ?thesis using r f ev Sync_failed(2-4) that(3) by blast
next
  case (Sync_hung t0 cfg ext mk exty s1)
  note obs = run_job_Hang_obs[OF Sync_hung(1,5)]
  have r: "\<not> returns os s" using obs by simp
  have f: "final os s = running (job s) t0 ext" using obs Sync_hung by simp
  have ev: "events os s = start_entries t0 @ cfg @ marker_entries mk @
         [Yield (running (job s) t0 exty), Os (Spawn sync_cmd subprocess_env) (Returned V_unit)]" using obs by simp
  show ?thesis using r f ev Sync_hung(2-4) that(4) by blast
next
  case (Before_failed e t0 cfg ext mk exty rc sf s1)
  from run_job_Exc_obs[OF Before_failed(1,5)] obtain te where r: "returns os s" and f0: "final os s = failed_with e te (job s1)"
    and ev0: "events os s = drop (length (trace s)) (trace s1) @ [Status FAILED, Os Now (Returned (V_real te))]"
    using Before_failed(5) by (metis append_eq_conv_conj)
  have f: "final os s = failed_with e te (running (job s) t0 ext)" using f0 Before_failed by simp
  have ev: "events os s = start_entries t0 @ cfg @
         refresh_entries mk (running (job s) t0 exty) rc @ snap_fail_entries e sf @
         [Status FAILED, Os Now (Returned (V_real te))]" using ev0 Before_failed(5) by simp
  show ?thesis using r f ev Before_failed(2-4) that(5) by blast
next
  case (Spawn_failed e t0 cfg ext mk exty rc b exty2 s1)
  from run_job_Exc_obs[OF Spawn_failed(1,5)] obtain te where r: "returns os s" and f0: "final os s = failed_with e te (job s1)"
    and ev0: "events os s = drop (length (trace s)) (trace s1) @ [Status FAILED, Os Now (Returned (V_real te))]"
    using Spawn_failed(5) by (metis append_eq_conv_conj)
  have f: "final os s = failed_with e te (running (job s) t0 ext)" using f0 Spawn_failed by simp
  have ev: "events os s = start_entries t0 @ cfg @
         refresh_entries mk (running (job s) t0 exty) rc @ snap_entries b @
         [Yield (running (job s) t0 exty2), Os (Spawn (emerge_cmd (job s)) subprocess_env) (Raised e)] @
         [Status FAILED, Os Now (Returned (V_real te))]" using ev0 Spawn_failed(5) by simp
  show ?thesis using r f ev Spawn_failed(2-4) that(6) by blast
next
  case (Emerge_hung t0 cfg ext mk exty rc b exty2 s1)
  note obs = run_job_Hang_obs[OF Emerge_hung(1,5)]
  have r: "\<not> returns os s" using obs by simp
  have f: "final os s = running (job s) t0 ext" using obs Emerge_hung by simp
  have ev: "events os s = start_entries t0 @ cfg @
         refresh_entries mk (running (job s) t0 exty) rc @ snap_entries b @
         [Yield (running (job s) t0 exty2), Os (Spawn (emerge_cmd (job s)) subprocess_env) (Returned V_unit)]" using obs by simp
  show ?thesis using r f ev Emerge_hung(2-4) that(7) by blast
next
  case (Emerge_nonzero t0 cfg ext mk exty rc b exty2 rc2 s1)
  from run_job_Ret_obs[OF Emerge_nonzero(1,6)] obtain te where r: "returns os s" and f0: "final os s = (job s1)\<lparr>completed_at := Some te\<rparr>"
    and ev0: "events os s = drop (length (trace s)) (trace s1) @ [Os Now (Returned (V_real te))]"
    using Emerge_nonzero(6) by (metis append_eq_conv_conj)
  have f: "final os s = (running (job s) t0 ext)\<lparr>status := FAILED, error := Some (exit_message rc2),
          completed_at := Some te\<rparr>" using f0 Emerge_nonzero by simp
  have ev: "events os s = start_entries t0 @ cfg @
         refresh_entries mk (running (job s) t0 exty) rc @ snap_entries b @
         command_entries (running (job s) t0 exty2) (emerge_cmd (job s)) rc2 @ [Status FAILED] @
         [Os Now (Returned (V_real te))]" using ev0 Emerge_nonzero(6) by simp
  show ?thesis using r f ev Emerge_nonzero(2-5) that(8) by blast
next
  case (Packaging_failed e t0 cfg ext mk exty rc b exty2 pb ap es s1)
  from run_job_Exc_obs[OF Packaging_failed(1,7)] obtain te where r: "returns os s" and f0: "final os s = failed_with e te (job s1)"
    and ev0: "events os s = drop (length (trace s)) (trace s1) @ [Status FAILED, Os Now (Returned (V_real te))]"
    using Packaging_failed(7) by (metis append_eq_conv_conj)
  have f: "final os s = failed_with e te ((running (job s) t0 ext)\<lparr>packages_built := pb, artifact_path := ap\<rparr>)" using f0 Packaging_failed by simp
  have ev: "events os s = start_entries t0 @ cfg @
         refresh_entries mk (running (job s) t0 exty) rc @ snap_entries b @
         command_entries (running (job s) t0 exty2) (emerge_cmd (job s)) 0 @ es @
         [Status FAILED, Os Now (Returned (V_real te))]" using ev0 Packaging_failed(7) by simp
  show ?thesis using r f ev Packaging_failed(2-6) that(9) by blast
next
  case (Completed t0 cfg ext mk exty rc b exty2 a sz t s1)
  from run_job_Ret_obs[OF Completed(1,6)] obtain te where r: "returns os s" and f0: "final os s = (job s1)\<lparr>completed_at := Some te\<rparr>"
    and ev0: "events os s = drop (length (trace s)) (trace s1) @ [Os Now (Returned (V_real te))]"
    using Completed(6) by (metis append_eq_conv_conj)
  have f: "final os s = (running (job s) t0 ext)\<lparr>packages_built := names_of (fresh_outputs (snap_paths b) a),
          artifact_path := (if fresh_outputs (snap_paths b) a = [] then artifact_path (job s)
                            else Some (tar_path (job s))),
          status := COMPLETE, completed_at := Some te\<rparr>" using f0 Completed by simp
  have ev: "events os s = start_entries t0 @ cfg @
         refresh_entries mk (running (job s) t0 exty) rc @ snap_entries b @
         command_entries (running (job s) t0 exty2) (emerge_cmd (job s)) 0 @ snap_entries a @
         (if fresh_outputs (snap_paths b) a = [] then []
          else artifact_entries (tar_path (job s)) (fresh_outputs (snap_paths b) a) sz) @
         [Status COMPLETE, Os Now (Returned (V_real t))] @ [Os Now (Returned (V_real te))]" using ev0 Completed(6) by simp
  show ?thesis using r f ev Completed(2-5) that(10) by blast
qed

section \<open>Concrete runs\<close>

lemmas exec_defs = run_job_def try_finally_def try_except_def run_build_def start_build_def
  sync_tree_def build_packages_def and_then_def return_def
  raise_def do_when_def check_skip_sync_def snapshot_def run_command_def wait_def read_output_def
  package_outputs_def record_outputs_def finish_build_def handle_exception_def stamp_completed_def datetime_now_def set_status_def
  modify_job_def log_line_def get_job_def yield_def ask_def act_def list_paths_def os_call_def
  apply_config_def iterdir_def merge_item_def create_artifact_def with_tar_def add_to_tar_def
  relative_to_def append_log_def Let_def

lemmas path_defs = portage_dir_def timestamp_file_def binpkg_dir_def artifact_dir_def Path_def
  path_parts_def joinpath_def backup_dir_def

lemmas sim_defs = sim_os_def sim_answer_def sim_proc_def plain_def job0_def start0_def sim0_def
  new_BuildJob_def sync_cmd_def emerge_cmd_def subprocess_env_def

lemma digit_chars:
  "digit 0 = CHR ''0''" "digit 1 = CHR ''1''" "digit 2 = CHR ''2''" "digit 3 = CHR ''3''"
  "digit 4 = CHR ''4''" "digit 5 = CHR ''5''" "digit 6 = CHR ''6''" "digit 7 = CHR ''7''"
  "digit 8 = CHR ''8''" "digit 9 = CHR ''9''" "digit (Suc 0) = CHR ''1''"
  by (simp_all add: digit_def char_of_def bit_0)

lemmas text_defs = nl_def str_int_def digit_chars str_path_def str_rel_def name_of_def

lemmas scenario_defs = exit_two_def no_artifact_dir_def stale_def nothing_built_def

lemma run_plain:
  "run_job (sim_os plain) start0 =
     Ret ()
       \<lparr>job =
          \<lparr>packages = [''foo'', ''bar''], config_hash = ''h1'',
             config_path = [''cfg''], build_id = ''id-1'', status = COMPLETE,
             packages_built = [''cat/foo-1.gpkg.tar''],
             log_buf =
               ''Starting build at T1000\<newline>Packages: foo, bar\<newline>Config hash: h1\<newline>\<newline>=== Applying portage config ===\<newline>Applied config from /cfg/etc/portage\<newline>=== Skipping sync (tree is 0.0h old) ===\<newline>\<newline>=== Building packages ===\<newline>$ emerge --buildpkg --verbose --with-bdeps=y --jobs=4 --load-average=8 --ask=n foo bar\<newline>ok\<newline>\<newline>=== Built 1 packages ===\<newline>  - cat/foo-1.gpkg.tar\<newline>\<newline>=== Creating artifact tarball ===\<newline>  Added: cat/foo-1.gpkg.tar\<newline>Artifact created: /var/cache/e4e/artifacts/id-1.tar (10240 bytes)\<newline>\<newline>Build completed at T1002\<newline>'',
             error = None, started_at = Some 1000, completed_at = Some 1003,
             artifact_path =
               Some [''var'', ''cache'', ''e4e'', ''artifacts'', ''id-1.tar'']\<rparr>,
          world = \<lparr>sim_clock = 1004, sim_built = True, sim_ids = 0\<rparr>,
          trace =
            [Status BUILDING, Os Now (Returned (V_real 1000)),
             Os (Exists [''etc'', ''portage'']) (Returned (V_bool False)),
             Os (Exists [''cfg'', ''etc'', ''portage''])
              (Returned (V_bool True)),
             Os (Exists [''etc'', ''portage'']) (Returned (V_bool False)),
             Os (Copytree [''cfg'', ''etc'', ''portage''] [''etc'', ''portage'']
                  True)
              (Returned V_unit),
             Os (Exists
                  [''var'', ''db'', ''repos'', ''gentoo'', ''metadata'',
                   ''timestamp.chk''])
              (Returned (V_bool True)),
             Os Now (Returned (V_real 1001)),
             Os (Stat_mtime
                  [''var'', ''db'', ''repos'', ''gentoo'', ''metadata'',
                   ''timestamp.chk''])
              (Returned (V_real 900)),
             Os (Exists [''var'', ''cache'', ''binpkgs''])
              (Returned (V_bool True)),
             Os (Rglob [''var'', ''cache'', ''binpkgs''] ''*.gpkg.tar'')
              (Returned
                (V_paths [[''var'', ''cache'', ''binpkgs'', ''old.gpkg.tar'']])),
             Yield
              \<lparr>packages = [''foo'', ''bar''], config_hash = ''h1'',
                 config_path = [''cfg''], build_id = ''id-1'', status = BUILDING,
                 packages_built = [],
                 log_buf =
                   ''Starting build at T1000\<newline>Packages: foo, bar\<newline>Config hash: h1\<newline>\<newline>=== Applying portage config ===\<newline>Applied config from /cfg/etc/portage\<newline>=== Skipping sync (tree is 0.0h old) ===\<newline>\<newline>=== Building packages ===\<newline>$ emerge --buildpkg --verbose --with-bdeps=y --jobs=4 --load-average=8 --ask=n foo bar\<newline>'',
                 error = None, started_at = Some 1000, completed_at = None,
                 artifact_path = None\<rparr>,
             Os (Spawn
                  [''emerge'', ''--buildpkg'', ''--verbose'', ''--with-bdeps=y'',
                   ''--jobs=4'', ''--load-average=8'', ''--ask=n'', ''foo'',
                   ''bar'']
                  [(''TERM'', ''dumb''), (''NOCOLOR'', ''1'')])
              (Returned V_unit),
             Os (Wait
                  [''emerge'', ''--buildpkg'', ''--verbose'', ''--with-bdeps=y'',
                   ''--jobs=4'', ''--load-average=8'', ''--ask=n'', ''foo'',
                   ''bar''])
              (Returned (V_int 0)),
             Os (Exists [''var'', ''cache'', ''binpkgs''])
              (Returned (V_bool True)),
             Os (Rglob [''var'', ''cache'', ''binpkgs''] ''*.gpkg.tar'')
              (Returned
                (V_paths
                  [[''var'', ''cache'', ''binpkgs'', ''old.gpkg.tar''],
                   [''var'', ''cache'', ''binpkgs'', ''cat'',
                    ''foo-1.gpkg.tar'']])),
             Os (Mkdir_parents [''var'', ''cache'', ''e4e'', ''artifacts''])
              (Returned V_unit),
             Os (Tar_open
                  [''var'', ''cache'', ''e4e'', ''artifacts'', ''id-1.tar''])
              (Returned V_unit),
             Os (Tar_add
                  [''var'', ''cache'', ''e4e'', ''artifacts'', ''id-1.tar'']
                  [''var'', ''cache'', ''binpkgs'', ''cat'', ''foo-1.gpkg.tar'']
                  [''cat'', ''foo-1.gpkg.tar''])
              (Returned V_unit),
             Os (Tar_close
                  [''var'', ''cache'', ''e4e'', ''artifacts'', ''id-1.tar''])
              (Returned V_unit),
             Os (Stat_size
                  [''var'', ''cache'', ''e4e'', ''artifacts'', ''id-1.tar''])
              (Returned (V_nat 10240)),
             Status COMPLETE, Os Now (Returned (V_real 1002)),
             Os Now (Returned (V_real 1003))]\<rparr>"
  by (simp add: exec_defs path_defs sim_defs text_defs scenario_defs read_lines.simps)

lemma run_exit_two:
  "run_job (sim_os exit_two) start0 =
     Ret ()
       \<lparr>job =
          \<lparr>packages = [''foo'', ''bar''], config_hash = ''h1'',
             config_path = [''cfg''], build_id = ''id-1'', status = FAILED,
             packages_built = [],
             log_buf =
               ''Starting build at T1000\<newline>Packages: foo, bar\<newline>Config hash: h1\<newline>\<newline>=== Applying portage config ===\<newline>Applied config from /cfg/etc/portage\<newline>=== Skipping sync (tree is 0.0h old) ===\<newline>\<newline>=== Building packages ===\<newline>$ emerge --buildpkg --verbose --with-bdeps=y --jobs=4 --load-average=8 --ask=n foo bar\<newline>ok\<newline>'',
             error = Some ''emerge failed with exit code 2'',
             started_at = Some 1000, completed_at = Some 1002,
             artifact_path = None\<rparr>,
          world = \<lparr>sim_clock = 1003, sim_built = True, sim_ids = 0\<rparr>,
          trace =
            [Status BUILDING, Os Now (Returned (V_real 1000)),
             Os (Exists [''etc'', ''portage'']) (Returned (V_bool False)),
             Os (Exists [''cfg'', ''etc'', ''portage''])
              (Returned (V_bool True)),
             Os (Exists [''etc'', ''portage'']) (Returned (V_bool False)),
             Os (Copytree [''cfg'', ''etc'', ''portage''] [''etc'', ''portage'']
                  True)
              (Returned V_unit),
             Os (Exists
                  [''var'', ''db'', ''repos'', ''gentoo'', ''metadata'',
                   ''timestamp.chk''])
              (Returned (V_bool True)),
             Os Now (Returned (V_real 1001)),
             Os (Stat_mtime
                  [''var'', ''db'', ''repos'', ''gentoo'', ''metadata'',
                   ''timestamp.chk''])
              (Returned (V_real 900)),
             Os (Exists [''var'', ''cache'', ''binpkgs''])
              (Returned (V_bool True)),
             Os (Rglob [''var'', ''cache'', ''binpkgs''] ''*.gpkg.tar'')
              (Returned
                (V_paths [[''var'', ''cache'', ''binpkgs'', ''old.gpkg.tar'']])),
             Yield
              \<lparr>packages = [''foo'', ''bar''], config_hash = ''h1'',
                 config_path = [''cfg''], build_id = ''id-1'', status = BUILDING,
                 packages_built = [],
                 log_buf =
                   ''Starting build at T1000\<newline>Packages: foo, bar\<newline>Config hash: h1\<newline>\<newline>=== Applying portage config ===\<newline>Applied config from /cfg/etc/portage\<newline>=== Skipping sync (tree is 0.0h old) ===\<newline>\<newline>=== Building packages ===\<newline>$ emerge --buildpkg --verbose --with-bdeps=y --jobs=4 --load-average=8 --ask=n foo bar\<newline>'',
                 error = None, started_at = Some 1000, completed_at = None,
                 artifact_path = None\<rparr>,
             Os (Spawn
                  [''emerge'', ''--buildpkg'', ''--verbose'', ''--with-bdeps=y'',
                   ''--jobs=4'', ''--load-average=8'', ''--ask=n'', ''foo'',
                   ''bar'']
                  [(''TERM'', ''dumb''), (''NOCOLOR'', ''1'')])
              (Returned V_unit),
             Os (Wait
                  [''emerge'', ''--buildpkg'', ''--verbose'', ''--with-bdeps=y'',
                   ''--jobs=4'', ''--load-average=8'', ''--ask=n'', ''foo'',
                   ''bar''])
              (Returned (V_int 2)),
             Status FAILED, Os Now (Returned (V_real 1002))]\<rparr>"
  by (simp add: exec_defs path_defs sim_defs text_defs scenario_defs read_lines.simps)

lemma run_no_artifact_dir:
  "run_job (sim_os no_artifact_dir) start0 =
     Ret ()
       \<lparr>job =
          \<lparr>packages = [''foo'', ''bar''], config_hash = ''h1'',
             config_path = [''cfg''], build_id = ''id-1'', status = FAILED,
             packages_built = [''cat/foo-1.gpkg.tar''],
             log_buf =
               ''Starting build at T1000\<newline>Packages: foo, bar\<newline>Config hash: h1\<newline>\<newline>=== Applying portage config ===\<newline>Applied config from /cfg/etc/portage\<newline>=== Skipping sync (tree is 0.0h old) ===\<newline>\<newline>=== Building packages ===\<newline>$ emerge --buildpkg --verbose --with-bdeps=y --jobs=4 --load-average=8 --ask=n foo bar\<newline>ok\<newline>\<newline>=== Built 1 packages ===\<newline>  - cat/foo-1.gpkg.tar\<newline>\<newline>\<newline>FATAL ERROR: boom\<newline>'',
             error = Some ''boom'', started_at = Some 1000,
             completed_at = Some 1002, artifact_path = None\<rparr>,
          world = \<lparr>sim_clock = 1003, sim_built = True, sim_ids = 0\<rparr>,
          trace =
            [Status BUILDING, Os Now (Returned (V_real 1000)),
             Os (Exists [''etc'', ''portage'']) (Returned (V_bool False)),
             Os (Exists [''cfg'', ''etc'', ''portage''])
              (Returned (V_bool True)),
             Os (Exists [''etc'', ''portage'']) (Returned (V_bool False)),
             Os (Copytree [''cfg'', ''etc'', ''portage''] [''etc'', ''portage'']
                  True)
              (Returned V_unit),
             Os (Exists
                  [''var'', ''db'', ''repos'', ''gentoo'', ''metadata'',
                   ''timestamp.chk''])
              (Returned (V_bool True)),
             Os Now (Returned (V_real 1001)),
             Os (Stat_mtime
                  [''var'', ''db'', ''repos'', ''gentoo'', ''metadata'',
                   ''timestamp.chk''])
              (Returned (V_real 900)),
             Os (Exists [''var'', ''cache'', ''binpkgs''])
              (Returned (V_bool True)),
             Os (Rglob [''var'', ''cache'', ''binpkgs''] ''*.gpkg.tar'')
              (Returned
                (V_paths [[''var'', ''cache'', ''binpkgs'', ''old.gpkg.tar'']])),
             Yield
              \<lparr>packages = [''foo'', ''bar''], config_hash = ''h1'',
                 config_path = [''cfg''], build_id = ''id-1'', status = BUILDING,
                 packages_built = [],
                 log_buf =
                   ''Starting build at T1000\<newline>Packages: foo, bar\<newline>Config hash: h1\<newline>\<newline>=== Applying portage config ===\<newline>Applied config from /cfg/etc/portage\<newline>=== Skipping sync (tree is 0.0h old) ===\<newline>\<newline>=== Building packages ===\<newline>$ emerge --buildpkg --verbose --with-bdeps=y --jobs=4 --load-average=8 --ask=n foo bar\<newline>'',
                 error = None, started_at = Some 1000, completed_at = None,
                 artifact_path = None\<rparr>,
             Os (Spawn
                  [''emerge'', ''--buildpkg'', ''--verbose'', ''--with-bdeps=y'',
                   ''--jobs=4'', ''--load-average=8'', ''--ask=n'', ''foo'',
                   ''bar'']
                  [(''TERM'', ''dumb''), (''NOCOLOR'', ''1'')])
              (Returned V_unit),
             Os (Wait
                  [''emerge'', ''--buildpkg'', ''--verbose'', ''--with-bdeps=y'',
                   ''--jobs=4'', ''--load-average=8'', ''--ask=n'', ''foo'',
                   ''bar''])
              (Returned (V_int 0)),
             Os (Exists [''var'', ''cache'', ''binpkgs''])
              (Returned (V_bool True)),
             Os (Rglob [''var'', ''cache'', ''binpkgs''] ''*.gpkg.tar'')
              (Returned
                (V_paths
                  [[''var'', ''cache'', ''binpkgs'', ''old.gpkg.tar''],
                   [''var'', ''cache'', ''binpkgs'', ''cat'',
                    ''foo-1.gpkg.tar'']])),
             Os (Mkdir_parents [''var'', ''cache'', ''e4e'', ''artifacts''])
              (Raised ''boom''),
             Status FAILED, Os Now (Returned (V_real 1002))]\<rparr>"
  by (simp add: exec_defs path_defs sim_defs text_defs scenario_defs read_lines.simps)

lemma run_stale:
  "run_job (sim_os stale) start0 =
     Ret ()
       \<lparr>job =
          \<lparr>packages = [''foo'', ''bar''], config_hash = ''h1'',
             config_path = [''cfg''], build_id = ''id-1'', status = COMPLETE,
             packages_built = [''cat/foo-1.gpkg.tar''],
             log_buf =
               ''Starting build at T1000\<newline>Packages: foo, bar\<newline>Config hash: h1\<newline>\<newline>=== Applying portage config ===\<newline>Applied config from /cfg/etc/portage\<newline>=== Syncing portage tree ===\<newline>$ emerge --sync\<newline>ok\<newline>\<newline>=== Building packages ===\<newline>$ emerge --buildpkg --verbose --with-bdeps=y --jobs=4 --load-average=8 --ask=n foo bar\<newline>ok\<newline>\<newline>=== Built 1 packages ===\<newline>  - cat/foo-1.gpkg.tar\<newline>\<newline>=== Creating artifact tarball ===\<newline>  Added: cat/foo-1.gpkg.tar\<newline>Artifact created: /var/cache/e4e/artifacts/id-1.tar (10240 bytes)\<newline>\<newline>Build completed at T1002\<newline>'',
             error = None, started_at = Some 1000, completed_at = Some 1003,
             artifact_path =
               Some [''var'', ''cache'', ''e4e'', ''artifacts'', ''id-1.tar'']\<rparr>,
          world = \<lparr>sim_clock = 1004, sim_built = True, sim_ids = 0\<rparr>,
          trace =
            [Status BUILDING, Os Now (Returned (V_real 1000)),
             Os (Exists [''etc'', ''portage'']) (Returned (V_bool False)),
             Os (Exists [''cfg'', ''etc'', ''portage''])
              (Returned (V_bool True)),
             Os (Exists [''etc'', ''portage'']) (Returned (V_bool False)),
             Os (Copytree [''cfg'', ''etc'', ''portage''] [''etc'', ''portage'']
                  True)
              (Returned V_unit),
             Os (Exists
                  [''var'', ''db'', ''repos'', ''gentoo'', ''metadata'',
                   ''timestamp.chk''])
              (Returned (V_bool True)),
             Os Now (Returned (V_real 1001)),
             Os (Stat_mtime
                  [''var'', ''db'', ''repos'', ''gentoo'', ''metadata'',
                   ''timestamp.chk''])
              (Returned (V_real (- 700000))),
             Yield
              \<lparr>packages = [''foo'', ''bar''], config_hash = ''h1'',
                 config_path = [''cfg''], build_id = ''id-1'', status = BUILDING,
                 packages_built = [],
                 log_buf =
                   ''Starting build at T1000\<newline>Packages: foo, bar\<newline>Config hash: h1\<newline>\<newline>=== Applying portage config ===\<newline>Applied config from /cfg/etc/portage\<newline>=== Syncing portage tree ===\<newline>$ emerge --sync\<newline>'',
                 error = None, started_at = Some 1000, completed_at = None,
                 artifact_path = None\<rparr>,
             Os (Spawn [''emerge'', ''--sync'']
                  [(''TERM'', ''dumb''), (''NOCOLOR'', ''1'')])
              (Returned V_unit),
             Os (Wait [''emerge'', ''--sync'']) (Returned (V_int 0)),
             Os (Exists [''var'', ''cache'', ''binpkgs''])
              (Returned (V_bool True)),
             Os (Rglob [''var'', ''cache'', ''binpkgs''] ''*.gpkg.tar'')
              (Returned
                (V_paths [[''var'', ''cache'', ''binpkgs'', ''old.gpkg.tar'']])),
             Yield
              \<lparr>packages = [''foo'', ''bar''], config_hash = ''h1'',
                 config_path = [''cfg''], build_id = ''id-1'', status = BUILDING,
                 packages_built = [],
                 log_buf =
                   ''Starting build at T1000\<newline>Packages: foo, bar\<newline>Config hash: h1\<newline>\<newline>=== Applying portage config ===\<newline>Applied config from /cfg/etc/portage\<newline>=== Syncing portage tree ===\<newline>$ emerge --sync\<newline>ok\<newline>\<newline>=== Building packages ===\<newline>$ emerge --buildpkg --verbose --with-bdeps=y --jobs=4 --load-average=8 --ask=n foo bar\<newline>'',
                 error = None, started_at = Some 1000, completed_at = None,
                 artifact_path = None\<rparr>,
             Os (Spawn
                  [''emerge'', ''--buildpkg'', ''--verbose'', ''--with-bdeps=y'',
                   ''--jobs=4'', ''--load-average=8'', ''--ask=n'', ''foo'',
                   ''bar'']
                  [(''TERM'', ''dumb''), (''NOCOLOR'', ''1'')])
              (Returned V_unit),
             Os (Wait
                  [''emerge'', ''--buildpkg'', ''--verbose'', ''--with-bdeps=y'',
                   ''--jobs=4'', ''--load-average=8'', ''--ask=n'', ''foo'',
                   ''bar''])
              (Returned (V_int 0)),
             Os (Exists [''var'', ''cache'', ''binpkgs''])
              (Returned (V_bool True)),
             Os (Rglob [''var'', ''cache'', ''binpkgs''] ''*.gpkg.tar'')
              (Returned
                (V_paths
                  [[''var'', ''cache'', ''binpkgs'', ''old.gpkg.tar''],
                   [''var'', ''cache'', ''binpkgs'', ''cat'',
                    ''foo-1.gpkg.tar'']])),
             Os (Mkdir_parents [''var'', ''cache'', ''e4e'', ''artifacts''])
              (Returned V_unit),
             Os (Tar_open
                  [''var'', ''cache'', ''e4e'', ''artifacts'', ''id-1.tar''])
              (Returned V_unit),
             Os (Tar_add
                  [''var'', ''cache'', ''e4e'', ''artifacts'', ''id-1.tar'']
                  [''var'', ''cache'', ''binpkgs'', ''cat'', ''foo-1.gpkg.tar'']
                  [''cat'', ''foo-1.gpkg.tar''])
              (Returned V_unit),
             Os (Tar_close
                  [''var'', ''cache'', ''e4e'', ''artifacts'', ''id-1.tar''])
              (Returned V_unit),
             Os (Stat_size
                  [''var'', ''cache'', ''e4e'', ''artifacts'', ''id-1.tar''])
              (Returned (V_nat 10240)),
             Status COMPLETE, Os Now (Returned (V_real 1002)),
             Os Now (Returned (V_real 1003))]\<rparr>"
  by (simp add: exec_defs path_defs sim_defs text_defs scenario_defs read_lines.simps)

lemma run_nothing_built:
  "run_job (sim_os nothing_built) start0 =
     Ret ()
       \<lparr>job =
          \<lparr>packages = [''foo'', ''bar''], config_hash = ''h1'',
             config_path = [''cfg''], build_id = ''id-1'', status = COMPLETE,
             packages_built = [],
             log_buf =
               ''Starting build at T1000\<newline>Packages: foo, bar\<newline>Config hash: h1\<newline>\<newline>=== Applying portage config ===\<newline>Applied config from /cfg/etc/portage\<newline>=== Skipping sync (tree is 0.0h old) ===\<newline>\<newline>=== Building packages ===\<newline>$ emerge --buildpkg --verbose --with-bdeps=y --jobs=4 --load-average=8 --ask=n foo bar\<newline>ok\<newline>\<newline>=== Built 0 packages ===\<newline>\<newline>Build completed at T1002\<newline>'',
             error = None, started_at = Some 1000, completed_at = Some 1003,
             artifact_path = None\<rparr>,
          world = \<lparr>sim_clock = 1004, sim_built = True, sim_ids = 0\<rparr>,
          trace =
            [Status BUILDING, Os Now (Returned (V_real 1000)),
             Os (Exists [''etc'', ''portage'']) (Returned (V_bool False)),
             Os (Exists [''cfg'', ''etc'', ''portage''])
              (Returned (V_bool True)),
             Os (Exists [''etc'', ''portage'']) (Returned (V_bool False)),
             Os (Copytree [''cfg'', ''etc'', ''portage''] [''etc'', ''portage'']
                  True)
              (Returned V_unit),
             Os (Exists
                  [''var'', ''db'', ''repos'', ''gentoo'', ''metadata'',
                   ''timestamp.chk''])
              (Returned (V_bool True)),
             Os Now (Returned (V_real 1001)),
             Os (Stat_mtime
                  [''var'', ''db'', ''repos'', ''gentoo'', ''metadata'',
                   ''timestamp.chk''])
              (Returned (V_real 900)),
             Os (Exists [''var'', ''cache'', ''binpkgs''])
              (Returned (V_bool True)),
             Os (Rglob [''var'', ''cache'', ''binpkgs''] ''*.gpkg.tar'')
              (Returned
                (V_paths [[''var'', ''cache'', ''binpkgs'', ''old.gpkg.tar'']])),
             Yield
              \<lparr>packages = [''foo'', ''bar''], config_hash = ''h1'',
                 config_path = [''cfg''], build_id = ''id-1'', status = BUILDING,
                 packages_built = [],
                 log_buf =
                   ''Starting build at T1000\<newline>Packages: foo, bar\<newline>Config hash: h1\<newline>\<newline>=== Applying portage config ===\<newline>Applied config from /cfg/etc/portage\<newline>=== Skipping sync (tree is 0.0h old) ===\<newline>\<newline>=== Building packages ===\<newline>$ emerge --buildpkg --verbose --with-bdeps=y --jobs=4 --load-average=8 --ask=n foo bar\<newline>'',
                 error = None, started_at = Some 1000, completed_at = None,
                 artifact_path = None\<rparr>,
             Os (Spawn
                  [''emerge'', ''--buildpkg'', ''--verbose'', ''--with-bdeps=y'',
                   ''--jobs=4'', ''--load-average=8'', ''--ask=n'', ''foo'',
                   ''bar'']
                  [(''TERM'', ''dumb''), (''NOCOLOR'', ''1'')])
              (Returned V_unit),
             Os (Wait
                  [''emerge'', ''--buildpkg'', ''--verbose'', ''--with-bdeps=y'',
                   ''--jobs=4'', ''--load-average=8'', ''--ask=n'', ''foo'',
                   ''bar''])
              (Returned (V_int 0)),
             Os (Exists [''var'', ''cache'', ''binpkgs''])
              (Returned (V_bool True)),
             Os (Rglob [''var'', ''cache'', ''binpkgs''] ''*.gpkg.tar'')
              (Returned
                (V_paths [[''var'', ''cache'', ''binpkgs'', ''old.gpkg.tar'']])),
             Status COMPLETE, Os Now (Returned (V_real 1002)),
             Os Now (Returned (V_real 1003))]\<rparr>"
  by (simp add: exec_defs path_defs sim_defs text_defs scenario_defs read_lines.simps)

section \<open>The claims\<close>

subsection \<open>C10: the log tail with \<open>lines = 0\<close>\<close>

text \<open>
  C10. For every job and every content of its log, \<open>get_log_tail\<close> with \<open>lines = 0\<close>
  returns the whole log, all of its lines joined by newlines (the slice \<open>[-0:]\<close> is the
  whole list), and the handler of the logs endpoint returns exactly that for any known
  build identifier when its query parameter \<open>lines\<close> is 0.
\<close>

theorem get_log_tail_zero:
  "get_log_tail j 0 = join nl (splitlines (log_buf j)) \<and>
   (get_job_by_id sys bid = Some j \<longrightarrow>
      get_build_logs sys bid 0 = Inr (join nl (splitlines (log_buf j))))"
  by (simp add: get_log_tail_def slice_from_def get_build_logs_def)

theorem get_log_tail_zero_witness:
  "get_job_by_id logged_sys ''id-1'' = Some logged_job \<and>
   get_build_logs logged_sys ''id-1'' 0 = Inr (''one'' @ nl @ ''two'') \<and>
   get_log_tail logged_job 0 = ''one'' @ nl @ ''two'' \<and>
   get_log_tail logged_job 1 = ''two''"
proof -
  have j: "get_job_by_id logged_sys ''id-1'' = Some logged_job"
    by (simp add: get_job_by_id_def logged_sys_def submit_def init_system_def logged_job_def
        job0_def new_BuildJob_def)
  have l: "join nl (splitlines (log_buf logged_job)) = ''one'' @ nl @ ''two''"
    by (simp add: logged_job_def splitlines_def line_boundary_def nl_def)
  have t: "get_log_tail logged_job 1 = ''two''"
    by (simp add: get_log_tail_def slice_from_def logged_job_def splitlines_def
        line_boundary_def nl_def)
  from get_log_tail_zero[of logged_job logged_sys "''id-1''"] j l t show ?thesis by simp
qed

end
